theory Spec2Isabelle
  imports Main "HOL-Library.Sublist"
begin

section \<open>JavaScript values\<close>

text \<open>
  The handlers read backend records through untyped (\<^verbatim>\<open>any\<close>) objects. A value is one
  of the JSON shapes or \<^verbatim>\<open>undefined\<close> (a missing member). Numbers are the integral ones.
\<close>

datatype jsval =
    JUndefined
  | JNull
  | JBool bool
  | JNum int
  | JStr string
  | JArr "jsval list"
  | JObj "(string \<times> jsval) list"

type_synonym doc = "(string \<times> jsval) list"

text \<open>Member access \<^verbatim>\<open>record.key\<close> on an object: a missing key reads \<^verbatim>\<open>undefined\<close>.\<close>

definition get_field :: "doc \<Rightarrow> string \<Rightarrow> jsval" where
  "get_field d k = (case map_of d k of None \<Rightarrow> JUndefined | Some v \<Rightarrow> v)"

text \<open>Truthiness, as \<^verbatim>\<open>!x\<close>, \<^verbatim>\<open>x ? a : b\<close> and \<^verbatim>\<open>x || y\<close> test it.\<close>

fun truthy :: "jsval \<Rightarrow> bool" where
  "truthy JUndefined = False"
| "truthy JNull = False"
| "truthy (JBool b) = b"
| "truthy (JNum n) = (n \<noteq> 0)"
| "truthy (JStr s) = (s \<noteq> [])"
| "truthy (JArr xs) = True"
| "truthy (JObj kvs) = True"

definition or_else :: "jsval \<Rightarrow> jsval \<Rightarrow> jsval" where
  "or_else a b = (if truthy a then a else b)"

text \<open>Decimal digits of a number, as a template literal prints it.\<close>

function show_nat :: "nat \<Rightarrow> string" where
  "show_nat n =
     (if n < 10 then [char_of (48 + n)]
      else show_nat (n div 10) @ [char_of (48 + n mod 10)])"
  by pat_completeness auto
termination
  by (relation "measure id") auto

declare show_nat.simps [simp del]

definition show_int :: "int \<Rightarrow> string" where
  "show_int i = (if i < 0 then CHR ''-'' # show_nat (nat (- i)) else show_nat (nat i))"

fun join_commas :: "string list \<Rightarrow> string" where
  "join_commas [] = []"
| "join_commas [s] = s"
| "join_commas (s # t # ss) = s @ '','' @ join_commas (t # ss)"

text \<open>
  String conversion of a value inside a template literal \<^verbatim>\<open>`${x}`\<close>. Numbers are the
  integers of the ids and limits, printed in full decimal: the exponent form that JavaScript
  prints from \<^verbatim>\<open>1e21\<close> on is not modelled, nor are fractions.
\<close>

fun tostr :: "jsval \<Rightarrow> string" where
  "tostr JUndefined = ''undefined''"
| "tostr JNull = ''null''"
| "tostr (JBool b) = (if b then ''true'' else ''false'')"
| "tostr (JNum n) = show_int n"
| "tostr (JStr s) = s"
| "tostr (JArr xs) =
     join_commas (map (\<lambda>x. if x = JUndefined \<or> x = JNull then [] else tostr x) xs)"
| "tostr (JObj kvs) = ''[object Object]''"

section \<open>Configuration, request context, HTTP\<close>

text \<open>
  Modelled from the spec: the type \<^verbatim>\<open>ServerConfig\<close> of \<^verbatim>\<open>lib/config/types.js\<close> is not
  among the sources. The spec gives it a backend base URL, a static access token and a
  user agent string; the handlers read exactly these three members, the last two with a
  test for absence.
\<close>

record serverConfig =
  BACKEND_API_BASE :: string
  BACKEND_ACCESS_TOKEN :: "string option"
  BACKEND_USER_AGENT :: "string option"

text \<open>
  The request context: \<^verbatim>\<open>request.authInfo?.downstreamToken\<close>. \<open>None\<close> stands for a
  missing \<^verbatim>\<open>authInfo\<close> or a missing token.
\<close>

record request_ctx =
  downstreamToken :: "string option"

text \<open>A token is used when it is truthy: present and not the empty string.\<close>

definition present :: "string option \<Rightarrow> bool" where
  "present t = (case t of None \<Rightarrow> False | Some s \<Rightarrow> s \<noteq> [])"

definition str_or_empty :: "string option \<Rightarrow> string" where
  "str_or_empty t = (case t of None \<Rightarrow> [] | Some s \<Rightarrow> s)"

datatype form_value = FormField string | FormBlob string string string

datatype req_body =
    NoBody
  | JsonBody jsval
  | FormBody "(string \<times> form_value) list"

text \<open>
  The second argument of \<^verbatim>\<open>fetch\<close>. \<open>JsonBody v\<close> is the text \<^verbatim>\<open>JSON.stringify(v)\<close>;
  the agent of every request is built with \<^verbatim>\<open>rejectUnauthorized: false\<close>.
\<close>

record request_options =
  http_method :: string
  headers :: "(string \<times> string) list"
  body :: req_body
  rejectUnauthorized :: bool

type_synonym http_request = "string \<times> request_options"

definition header :: "http_request \<Rightarrow> string \<Rightarrow> string option" where
  "header rq k = map_of (headers (snd rq)) k"

text \<open>
  A parsed JSON reply of the backend: an object with an optional array \<^verbatim>\<open>docs\<close> of
  records (\<open>None\<close>: the member is missing or null) and its other members.
\<close>

record json_reply =
  docs :: "doc list option"
  members :: doc

text \<open>
  A response. Reading the body can fail: \<open>Inl m\<close> is the rejection of
  \<^verbatim>\<open>response.json()\<close> or \<^verbatim>\<open>response.text()\<close> with an error of message \<open>m\<close>.
\<close>

record http_response =
  status :: nat
  statusText :: string
  json :: "string + json_reply"
  body_text :: "string + string"

definition ok :: "http_response \<Rightarrow> bool" where
  "ok r = (200 \<le> status r \<and> status r \<le> 299)"

datatype fetch_outcome = Rejected string | Resolved http_response

section \<open>The world of an invocation\<close>

datatype stream = Stdout | Stderr

datatype fs_op = Mkdir "string list" | WriteFile "string list" jsval

text \<open>
  The backend answers a request from its own state. An invocation threads that state and
  records what it sent, what it printed and what it wrote to the disk.
\<close>

type_synonym 's backend = "http_request \<Rightarrow> 's \<Rightarrow> fetch_outcome \<times> 's"

record 's world =
  backend_state :: 's
  sent :: "http_request list"
  console :: "(stream \<times> string list) list"
  disk :: "fs_op list"

definition init_world :: "'s \<Rightarrow> 's world" where
  "init_world s = \<lparr>backend_state = s, sent = [], console = [], disk = []\<rparr>"

definition fetch :: "'s backend \<Rightarrow> string \<Rightarrow> request_options \<Rightarrow> 's world \<Rightarrow> fetch_outcome \<times> 's world" where
  "fetch be u opts w =
     (case be (u, opts) (backend_state w) of
        (out, s') \<Rightarrow> (out, w\<lparr>backend_state := s', sent := sent w @ [(u, opts)]\<rparr>))"

definition console_error :: "string list \<Rightarrow> 's world \<Rightarrow> 's world" where
  "console_error args w = w\<lparr>console := console w @ [(Stderr, args)]\<rparr>"

definition console_log :: "string list \<Rightarrow> 's world \<Rightarrow> 's world" where
  "console_log args w = w\<lparr>console := console w @ [(Stdout, args)]\<rparr>"

section \<open>Tool results\<close>

record content_item =
  item_type :: string
  item_text :: jsval

text \<open>
  The object a handler returns. The members \<^verbatim>\<open>structuredContent\<close> and \<^verbatim>\<open>isError\<close>
  are optional: \<open>None\<close> is a member the object literal does not have.
\<close>

record tool_result =
  content :: "content_item list"
  structuredContent :: "jsval option"
  isError :: "bool option"

definition text_item :: "jsval \<Rightarrow> content_item" where
  "text_item t = \<lparr>item_type = ''text'', item_text = t\<rparr>"

text \<open>The two object literals of the sources: with \<^verbatim>\<open>isError: true\<close>, or with a payload.\<close>

definition error_result :: "content_item list \<Rightarrow> tool_result" where
  "error_result c = \<lparr>content = c, structuredContent = None, isError = Some True\<rparr>"

definition success_result :: "content_item list \<Rightarrow> jsval \<Rightarrow> tool_result" where
  "success_result c sc = \<lparr>content = c, structuredContent = Some sc, isError = None\<rparr>"

text \<open>
  A stage of a handler's \<^verbatim>\<open>try\<close> block throws an error (its message), returns the
  handler's result, or goes on with a value.
\<close>

datatype 'a stage = Throw string | Return tool_result | Cont 'a

section \<open>Request construction\<close>

definition backendUrl :: "serverConfig \<Rightarrow> string" where
  "backendUrl cfg = BACKEND_API_BASE cfg @ ''/api/performFind''"

text \<open>
  The ternary of the handlers that always set the member \<^verbatim>\<open>Authorization\<close>: the
  request's token, else the configured one, else the empty string.
\<close>

definition authorization_value :: "serverConfig \<Rightarrow> request_ctx \<Rightarrow> string" where
  "authorization_value cfg req =
     (if present (downstreamToken req) then ''Bearer '' @ the (downstreamToken req)
      else if present (BACKEND_ACCESS_TOKEN cfg) then ''Bearer '' @ the (BACKEND_ACCESS_TOKEN cfg)
      else [])"

definition find_body :: "string \<Rightarrow> doc \<Rightarrow> int \<Rightarrow> jsval" where
  "find_body entityName inputFields viewSize =
     JObj [(''entityName'', JStr entityName), (''noConditionFind'', JStr ''Y''),
           (''inputFields'', JObj inputFields), (''viewSize'', JNum viewSize)]"

text \<open>
  \<^verbatim>\<open>getRequestOptions\<close> of getContent (all three versions), findProductById and
  getImportSapiOrderConfig.
\<close>

definition getRequestOptions :: "serverConfig \<Rightarrow> request_ctx \<Rightarrow> string \<Rightarrow> doc \<Rightarrow> request_options" where
  "getRequestOptions cfg req entityName inputFields =
     \<lparr>http_method = ''POST'',
      headers = [(''Content-Type'', ''application/json''),
                 (''User-Agent'', str_or_empty (BACKEND_USER_AGENT cfg)),
                 (''Accept'', ''application/json''),
                 (''Authorization'', authorization_value cfg req)],
      body = JsonBody (find_body entityName inputFields 1),
      rejectUnauthorized = False\<rparr>"

section \<open>getContent: the content resolution chain\<close>

datatype category = CatUploaded | CatError

record getContent_args =
  contentId :: string
  configId :: "string option"
  category :: "category option"

subsection \<open>Steps shared by the three versions of the handler\<close>

text \<open>
  The handler exists in three versions: \<^verbatim>\<open>src/tools/getContent.ts\<close> (below
  \<open>getContent_remote\<close>), and two unnamed sources (\<open>getContent_download\<close> and
  \<open>getContent_persist\<close>). The lookups of Content, of DataResource and of ElectronicText
  are the same text in all three.
\<close>

definition lookup_data_resource ::
  "serverConfig \<Rightarrow> request_ctx \<Rightarrow> 's backend \<Rightarrow> string \<Rightarrow> doc \<Rightarrow> 's world \<Rightarrow>
     (doc \<times> jsval \<times> doc) stage \<times> 's world" where
  "lookup_data_resource cfg req be cid contentRecord w1 =
     (let dataResourceId = get_field contentRecord ''dataResourceId'' in
      if \<not> truthy dataResourceId
      then (Return (error_result [text_item (JStr (''No dataResourceId for Content: '' @ cid))]), w1)
      else
        (case fetch be (backendUrl cfg)
                (getRequestOptions cfg req ''DataResource'' [(''dataResourceId'', dataResourceId)]) w1 of
           (Rejected m, w2) \<Rightarrow> (Throw m, w2)
         | (Resolved drResponse, w2) \<Rightarrow>
             if \<not> ok drResponse
             then (Throw (''Failed to fetch DataResource: '' @ show_nat (status drResponse)), w2)
             else
               (case json drResponse of
                  Inl m \<Rightarrow> (Throw m, w2)
                | Inr drData \<Rightarrow>
                    (case docs drData of
                       Some (dr # _) \<Rightarrow> (Cont (contentRecord, dataResourceId, dr), w2)
                     | _ \<Rightarrow>
                         (Return (error_result
                            [text_item (JStr (''DataResource not found for ID: '' @ tostr dataResourceId))]),
                          w2)))))"

definition lookup_content ::
  "serverConfig \<Rightarrow> request_ctx \<Rightarrow> 's backend \<Rightarrow> string \<Rightarrow> 's world \<Rightarrow>
     (doc \<times> jsval \<times> doc) stage \<times> 's world" where
  "lookup_content cfg req be cid w0 =
     (case fetch be (backendUrl cfg)
             (getRequestOptions cfg req ''Content'' [(''contentId'', JStr cid)]) w0 of
        (Rejected m, w1) \<Rightarrow> (Throw m, w1)
      | (Resolved contentResponse, w1) \<Rightarrow>
          if \<not> ok contentResponse
          then (Throw (''Failed to fetch Content: '' @ show_nat (status contentResponse)), w1)
          else
            (case json contentResponse of
               Inl m \<Rightarrow> (Throw m, w1)
             | Inr contentData \<Rightarrow>
                 (case docs contentData of
                    Some (contentRecord # _) \<Rightarrow> lookup_data_resource cfg req be cid contentRecord w1
                  | _ \<Rightarrow>
                      (Return (error_result [text_item (JStr (''Content not found: '' @ cid))]), w1))))"

definition is_text_type :: "jsval \<Rightarrow> bool" where
  "is_text_type t = (t = JStr ''ELECTRONIC_TEXT'' \<or> t = JStr ''SHORT_TEXT'')"

definition is_file_type :: "jsval \<Rightarrow> bool" where
  "is_file_type t = (t = JStr ''OFBIZ_FILE'' \<or> t = JStr ''LOCAL_FILE'')"

text \<open>The typed fetch: the value of \<^verbatim>\<open>textData\<close> after the branch on the text types.\<close>

definition fetch_text ::
  "serverConfig \<Rightarrow> request_ctx \<Rightarrow> 's backend \<Rightarrow> jsval \<Rightarrow> 's world \<Rightarrow> jsval stage \<times> 's world" where
  "fetch_text cfg req be dataResourceId w =
     (case fetch be (backendUrl cfg)
             (getRequestOptions cfg req ''ElectronicText'' [(''dataResourceId'', dataResourceId)]) w of
        (Rejected m, w1) \<Rightarrow> (Throw m, w1)
      | (Resolved textResponse, w1) \<Rightarrow>
          if ok textResponse
          then
            (case json textResponse of
               Inl m \<Rightarrow> (Throw m, w1)
             | Inr textDataResponse \<Rightarrow>
                 (case docs textDataResponse of
                    Some (row # _) \<Rightarrow> (Cont (get_field row ''textData''), w1)
                  | _ \<Rightarrow> (Cont (JStr []), w1)))
          else (Cont (JStr []), w1))"

text \<open>The handler's \<^verbatim>\<open>catch\<close>: every thrown error becomes an error result.\<close>

definition catch_getContent :: "tool_result stage \<times> 's world \<Rightarrow> tool_result \<times> 's world" where
  "catch_getContent sw =
     (case sw of
        (Throw m, w) \<Rightarrow>
          (error_result [text_item (JStr (''Error: '' @ m))],
           console_error [''Error in getContent:'', m] w)
      | (Return r, w) \<Rightarrow> (r, w)
      | (Cont r, w) \<Rightarrow> (r, w))"

subsection \<open>\<^verbatim>\<open>src/tools/getContent.ts\<close>\<close>

definition remote_options :: "serverConfig \<Rightarrow> request_ctx \<Rightarrow> request_options" where
  "remote_options cfg req =
     \<lparr>http_method = ''GET'',
      headers = [(''Authorization'', authorization_value cfg req),
                 (''User-Agent'', str_or_empty (BACKEND_USER_AGENT cfg))],
      body = NoBody,
      rejectUnauthorized = False\<rparr>"

definition viewBinaryUrl :: "serverConfig \<Rightarrow> jsval \<Rightarrow> string" where
  "viewBinaryUrl cfg dataResourceId =
     BACKEND_API_BASE cfg @ ''/content/control/ViewBinaryDataResource?dataResourceId='' @ tostr dataResourceId"

text \<open>
  The unconditional remote fetch (its own \<^verbatim>\<open>try\<close>): the new \<^verbatim>\<open>textData\<close> and
  \<^verbatim>\<open>result.textData\<close>.
\<close>

definition remote_fetch ::
  "serverConfig \<Rightarrow> request_ctx \<Rightarrow> 's backend \<Rightarrow> jsval \<Rightarrow> jsval \<Rightarrow> 's world \<Rightarrow> (jsval \<times> jsval) \<times> 's world" where
  "remote_fetch cfg req be dataResourceId textData w =
     (let fetchUrl = viewBinaryUrl cfg dataResourceId;
          w1 = console_error [''[getContent] Attempting remote fetch from: '' @ fetchUrl] w
      in case fetch be fetchUrl (remote_options cfg req) w1 of
           (Rejected m, w2) \<Rightarrow>
             ((textData, or_else textData JUndefined),
              console_error [''[getContent] Remote fetch error:'', m] w2)
         | (Resolved remoteResponse, w2) \<Rightarrow>
             if ok remoteResponse
             then
               (case body_text remoteResponse of
                  Inl m \<Rightarrow>
                    ((textData, or_else textData JUndefined),
                     console_error [''[getContent] Remote fetch error:'', m] w2)
                | Inr t \<Rightarrow> ((JStr t, JStr t), w2))
             else
               ((textData, or_else textData JUndefined),
                console_error [''[getContent] Remote fetch failed: '' @ show_nat (status remoteResponse)
                                 @ '' '' @ statusText remoteResponse] w2))"

definition remote_file_report :: "string \<Rightarrow> doc \<Rightarrow> jsval \<Rightarrow> jsval \<Rightarrow> string" where
  "remote_file_report cid contentRecord dataResourceTypeId objectInfo =
     ''[REMOTE FILE LOG]'' @ [CHR 0x0A]
     @ ''ID: '' @ cid @ [CHR 0x0A]
     @ ''Name: '' @ tostr (or_else (get_field contentRecord ''contentName'') (JStr ''Unknown'')) @ [CHR 0x0A]
     @ ''Type: '' @ tostr dataResourceTypeId @ [CHR 0x0A]
     @ ''Remote Path: '' @ tostr objectInfo @ [CHR 0x0A]
     @ ''MimeType: '' @ tostr (or_else (get_field contentRecord ''mimeTypeId'') (JStr ''N/A'')) @ [CHR 0x0A]
     @ [CHR 0x0A]
     @ ''STATUS: Content is stored as a file on the remote server disk.'' @ [CHR 0x0A]
     @ ''ACTION: Automated retrieval unavailable (Service 'renderDataResourceAsText' not exported).'' @ [CHR 0x0A]
     @ ''       Please retrieve this file via SSH from the server path above.''"

definition getContent_remote_try ::
  "serverConfig \<Rightarrow> request_ctx \<Rightarrow> 's backend \<Rightarrow> string \<Rightarrow> 's world \<Rightarrow> tool_result stage \<times> 's world" where
  "getContent_remote_try cfg req be cid w0 =
     (case lookup_content cfg req be cid w0 of
        (Throw m, w) \<Rightarrow> (Throw m, w)
      | (Return r, w) \<Rightarrow> (Return r, w)
      | (Cont (contentRecord, dataResourceId, dr), w2) \<Rightarrow>
          let dataResourceTypeId = get_field dr ''dataResourceTypeId'';
              finish = (\<lambda>textData w3.
                 case remote_fetch cfg req be dataResourceId textData w3 of
                   ((textData', resultText), w4) \<Rightarrow>
                     if \<not> truthy textData'
                     then (Return (error_result [text_item (JStr
                             (''No ElectronicText or File found for dataResourceId: '' @ tostr dataResourceId
                                @ '' (Remote fetch attempted)''))]), w4)
                     else (Return (success_result [text_item textData']
                             (JObj [(''contentId'', JStr cid),
                                    (''dataResourceId'', or_else dataResourceId JUndefined),
                                    (''textData'', resultText),
                                    (''mimeType'', or_else (get_field contentRecord ''mimeTypeId'') JUndefined)])),
                           w4))
          in if is_text_type dataResourceTypeId
             then
               (case fetch_text cfg req be dataResourceId w2 of
                  (Throw m, w3) \<Rightarrow> (Throw m, w3)
                | (Return r, w3) \<Rightarrow> (Return r, w3)
                | (Cont textData, w3) \<Rightarrow> finish textData w3)
             else if is_file_type dataResourceTypeId
             then
               (let objectInfo = or_else (get_field dr ''objectInfo'') (JStr ''Unknown Path'')
                in (Return (success_result
                      [text_item (JStr (remote_file_report cid contentRecord dataResourceTypeId objectInfo))]
                      (JObj [(''contentId'', JStr cid),
                             (''dataResourceId'', dataResourceId),
                             (''textData'', JStr (''[Remote File: '' @ tostr objectInfo @ '']'')),
                             (''mimeType'', or_else (get_field contentRecord ''mimeTypeId'') JUndefined)])),
                    w2))
             else finish (JStr []) w2)"

definition getContent_remote ::
  "serverConfig \<Rightarrow> request_ctx \<Rightarrow> 's backend \<Rightarrow> string \<Rightarrow> 's world \<Rightarrow> tool_result \<times> 's world" where
  "getContent_remote cfg req be cid w0 = catch_getContent (getContent_remote_try cfg req be cid w0)"

subsection \<open>The version with the guarded download\<close>

text \<open>
  \<^verbatim>\<open>request.authInfo?.downstreamToken || serverConfig.BACKEND_ACCESS_TOKEN\<close>, and the
  header \<^verbatim>\<open>`Bearer ${token}`\<close> built from it: a missing token prints as
  \<^verbatim>\<open>undefined\<close>.
\<close>

definition token_of :: "serverConfig \<Rightarrow> request_ctx \<Rightarrow> string option" where
  "token_of cfg req =
     (if present (downstreamToken req) then downstreamToken req else BACKEND_ACCESS_TOKEN cfg)"

definition bearer :: "string option \<Rightarrow> string" where
  "bearer token = ''Bearer '' @ (case token of None \<Rightarrow> ''undefined'' | Some t \<Rightarrow> t)"

definition download_options :: "serverConfig \<Rightarrow> request_ctx \<Rightarrow> request_options" where
  "download_options cfg req =
     \<lparr>http_method = ''GET'',
      headers = [(''Authorization'', bearer (token_of cfg req)),
                 (''User-Agent'', str_or_empty (BACKEND_USER_AGENT cfg))],
      body = NoBody,
      rejectUnauthorized = False\<rparr>"

definition downloadUrl :: "serverConfig \<Rightarrow> string \<Rightarrow> string" where
  "downloadUrl cfg cid = BACKEND_API_BASE cfg @ ''/api/DownloadCsvFile?contentId='' @ cid"

text \<open>
  The fallback, run when \<^verbatim>\<open>!textData\<close>, inside its own \<^verbatim>\<open>try\<close>: the new
  \<^verbatim>\<open>textData\<close>.
\<close>

definition download_fallback ::
  "serverConfig \<Rightarrow> request_ctx \<Rightarrow> 's backend \<Rightarrow> string \<Rightarrow> jsval \<Rightarrow> 's world \<Rightarrow> jsval \<times> 's world" where
  "download_fallback cfg req be cid textData w =
     (if \<not> truthy textData
      then
        (let fetchUrl = downloadUrl cfg cid;
             w1 = console_error [''[getContent] Attempting remote fetch from: '' @ fetchUrl] w
         in case fetch be fetchUrl (download_options cfg req) w1 of
              (Rejected m, w2) \<Rightarrow> (textData, console_error [''[getContent] Remote fetch error:'', m] w2)
            | (Resolved remoteResponse, w2) \<Rightarrow>
                (case body_text remoteResponse of
                   Inl m \<Rightarrow> (textData, console_error [''[getContent] Remote fetch error:'', m] w2)
                 | Inr t \<Rightarrow>
                     if ok remoteResponse then (JStr t, w2)
                     else
                       (textData,
                        console_error
                          [''[getContent] Remote fetch failed: '' @ show_nat (status remoteResponse)
                             @ '' '' @ statusText remoteResponse @ ''. Response preview: '' @ take 200 t]
                          w2)))
      else (textData, w))"

definition no_text_error :: "string \<Rightarrow> jsval \<Rightarrow> tool_result" where
  "no_text_error cid dataResourceTypeId =
     error_result [text_item (JStr
       (''No text content found for contentId: '' @ cid @ '' (Type: '' @ tostr dataResourceTypeId @ '')''))]"

text \<open>The typed fetch followed by the fallback: the text both later versions go on with.\<close>

definition retrieve_text ::
  "serverConfig \<Rightarrow> request_ctx \<Rightarrow> 's backend \<Rightarrow> string \<Rightarrow> jsval \<Rightarrow> doc \<Rightarrow> 's world \<Rightarrow> jsval stage \<times> 's world" where
  "retrieve_text cfg req be cid dataResourceId dr w2 =
     (let dataResourceTypeId = get_field dr ''dataResourceTypeId'';
          fallback = (\<lambda>textData w3.
             case download_fallback cfg req be cid textData w3 of
               (textData', w4) \<Rightarrow>
                 if \<not> truthy textData' then (Return (no_text_error cid dataResourceTypeId), w4)
                 else (Cont textData', w4))
      in if is_text_type dataResourceTypeId
         then
           (case fetch_text cfg req be dataResourceId w2 of
              (Throw m, w3) \<Rightarrow> (Throw m, w3)
            | (Return r, w3) \<Rightarrow> (Return r, w3)
            | (Cont textData, w3) \<Rightarrow> fallback textData w3)
         else fallback (JStr []) w2)"

definition getContent_download_try ::
  "serverConfig \<Rightarrow> request_ctx \<Rightarrow> 's backend \<Rightarrow> getContent_args \<Rightarrow> 's world \<Rightarrow> tool_result stage \<times> 's world" where
  "getContent_download_try cfg req be args w0 =
     (case lookup_content cfg req be (contentId args) w0 of
        (Throw m, w) \<Rightarrow> (Throw m, w)
      | (Return r, w) \<Rightarrow> (Return r, w)
      | (Cont (contentRecord, dataResourceId, dr), w2) \<Rightarrow>
          (case retrieve_text cfg req be (contentId args) dataResourceId dr w2 of
             (Throw m, w) \<Rightarrow> (Throw m, w)
           | (Return r, w) \<Rightarrow> (Return r, w)
           | (Cont textData, w4) \<Rightarrow>
               (Return (success_result [text_item textData]
                  (JObj [(''contentId'', JStr (contentId args)),
                         (''dataResourceId'', or_else dataResourceId JUndefined),
                         (''textData'', or_else textData JUndefined),
                         (''mimeType'', or_else (get_field contentRecord ''mimeTypeId'') JUndefined)])),
                w4)))"

definition getContent_download ::
  "serverConfig \<Rightarrow> request_ctx \<Rightarrow> 's backend \<Rightarrow> getContent_args \<Rightarrow> 's world \<Rightarrow> tool_result \<times> 's world" where
  "getContent_download cfg req be args w0 = catch_getContent (getContent_download_try cfg req be args w0)"

subsection \<open>The version with persistence\<close>

text \<open>
  The file system as the handler meets it. A path is the list of its components below the
  root; \<^verbatim>\<open>path.join(p, name)\<close> appends a component and \<^verbatim>\<open>path.dirname\<close> drops the
  last one. The two writing calls can reject: \<open>Some m\<close> is the message of the error.
\<close>

record filesystem =
  existsSync :: "string list \<Rightarrow> bool"
  isDirectory :: "string list \<Rightarrow> bool"
  mkdir :: "string list \<Rightarrow> string option"
  writeFile :: "string list \<Rightarrow> jsval \<Rightarrow> string option"

definition path_string :: "string list \<Rightarrow> string" where
  "path_string p = (if p = [] then ''/'' else concat (map (\<lambda>c. CHR ''/'' # c) p))"

function findRuntimeDir :: "filesystem \<Rightarrow> string list \<Rightarrow> string list option" where
  "findRuntimeDir fs currentDir =
     (if currentDir \<noteq> []
      then
        (let candidate = currentDir @ [''runtime'']
         in if existsSync fs candidate \<and> isDirectory fs candidate then Some candidate
            else findRuntimeDir fs (butlast currentDir))
      else
        (let candidate = [''runtime'']
         in if existsSync fs candidate \<and> isDirectory fs candidate then Some candidate else None))"
  by pat_completeness auto
termination
  by (relation "measure (\<lambda>(fs, p). length p)") auto

declare findRuntimeDir.simps [simp del]

definition extension :: "jsval \<Rightarrow> string" where
  "extension mimeType =
     (if mimeType = JStr ''text/csv'' \<or> mimeType = JStr ''application/csv'' then ''.csv''
      else if mimeType = JStr ''application/json'' then ''.json''
      else if mimeType = JStr ''text/xml'' \<or> mimeType = JStr ''application/xml'' then ''.xml''
      else if mimeType = JStr ''application/pdf'' then ''.pdf''
      else ''.txt'')"

definition category_name :: "category option \<Rightarrow> string" where
  "category_name c = (case c of Some CatError \<Rightarrow> ''error'' | _ \<Rightarrow> ''uploaded'')"

text \<open>
  The persistence block: \<open>Throw\<close> when a writing call rejects (nothing in the block
  catches it), else the value of \<^verbatim>\<open>savedPath\<close>. The text of the result is built
  after it, with \<^verbatim>\<open>textData.substring\<close>, which only a string has.
\<close>

definition write_content ::
  "filesystem \<Rightarrow> string list \<Rightarrow> string \<Rightarrow> jsval \<Rightarrow> 's world \<Rightarrow> string list option stage \<times> 's world" where
  "write_content fs targetDir fileName textData w1 =
     (let savedPath = targetDir @ [fileName];
          w2 = w1\<lparr>disk := disk w1 @ [WriteFile savedPath textData]\<rparr>
      in case writeFile fs savedPath textData of
           Some m \<Rightarrow> (Throw m, w2)
         | None \<Rightarrow>
             (Cont (Some savedPath), console_log [''Saved content to: '' @ path_string savedPath] w2))"

definition persist ::
  "filesystem \<Rightarrow> string list \<Rightarrow> getContent_args \<Rightarrow> doc \<Rightarrow> jsval \<Rightarrow> 's world \<Rightarrow>
     string list option stage \<times> 's world" where
  "persist fs startDir args contentRecord textData w =
     (if present (configId args)
      then
        (let ext = extension (get_field contentRecord ''mimeTypeId'')
         in case findRuntimeDir fs startDir of
              Some runtimeDir \<Rightarrow>
                (let dirName = category_name (category args) @ ''File_'' @ the (configId args);
                     targetDir = runtimeDir @ [dirName];
                     fileName = contentId args @ ext
                 in if \<not> existsSync fs targetDir
                    then
                      (case mkdir fs targetDir of
                         Some m \<Rightarrow> (Throw m, w\<lparr>disk := disk w @ [Mkdir targetDir]\<rparr>)
                       | None \<Rightarrow>
                           write_content fs targetDir fileName textData
                             (w\<lparr>disk := disk w @ [Mkdir targetDir]\<rparr>))
                    else write_content fs targetDir fileName textData w)
            | None \<Rightarrow>
                (Cont None,
                 console_error [''Could not find '' @ [CHR 0x22] @ ''runtime'' @ [CHR 0x22]
                                  @ '' directory in parent hierarchy.''] w))
      else (Cont None, w))"

definition retrieved_message :: "string list option \<Rightarrow> string \<Rightarrow> string" where
  "retrieved_message savedPath textData =
     ''Content Retrieved.'' @ [CHR 0x0A]
     @ (case savedPath of Some p \<Rightarrow> ''Saved to: '' @ path_string p @ [CHR 0x0A] | None \<Rightarrow> [])
     @ [CHR 0x0A] @ ''Preview:'' @ [CHR 0x0A] @ take 500 textData @ ''...''"

definition getContent_persist_try ::
  "serverConfig \<Rightarrow> filesystem \<Rightarrow> string list \<Rightarrow> request_ctx \<Rightarrow> 's backend \<Rightarrow> getContent_args \<Rightarrow> 's world \<Rightarrow>
     tool_result stage \<times> 's world" where
  "getContent_persist_try cfg fs moduleDir req be args w0 =
     (case lookup_content cfg req be (contentId args) w0 of
        (Throw m, w) \<Rightarrow> (Throw m, w)
      | (Return r, w) \<Rightarrow> (Return r, w)
      | (Cont (contentRecord, dataResourceId, dr), w2) \<Rightarrow>
          (case retrieve_text cfg req be (contentId args) dataResourceId dr w2 of
             (Throw m, w) \<Rightarrow> (Throw m, w)
           | (Return r, w) \<Rightarrow> (Return r, w)
           | (Cont textData, w4) \<Rightarrow>
               (case persist fs moduleDir args contentRecord textData w4 of
                  (Throw m, w) \<Rightarrow> (Throw m, w)
                | (Return r, w) \<Rightarrow> (Return r, w)
                | (Cont savedPath, w5) \<Rightarrow>
                    (case textData of
                       JStr t \<Rightarrow>
                         (Return (success_result [text_item (JStr (retrieved_message savedPath t))]
                            (JObj [(''contentId'', JStr (contentId args)),
                                   (''dataResourceId'', or_else dataResourceId JUndefined),
                                   (''textData'', or_else textData JUndefined),
                                   (''mimeType'', or_else (get_field contentRecord ''mimeTypeId'') JUndefined),
                                   (''savedPath'',
                                    (case savedPath of Some p \<Rightarrow> JStr (path_string p) | None \<Rightarrow> JUndefined))])),
                          w5)
                     | _ \<Rightarrow> (Throw ''textData.substring is not a function'', w5)))))"

definition getContent_persist ::
  "serverConfig \<Rightarrow> filesystem \<Rightarrow> string list \<Rightarrow> request_ctx \<Rightarrow> 's backend \<Rightarrow> getContent_args \<Rightarrow> 's world \<Rightarrow>
     tool_result \<times> 's world" where
  "getContent_persist cfg fs moduleDir req be args w0 =
     catch_getContent (getContent_persist_try cfg fs moduleDir req be args w0)"

section \<open>The other tool handlers\<close>

text \<open>
  Built-ins of the JavaScript runtime that the handlers call and that are taken as given:
  \<^verbatim>\<open>JSON.stringify(v)\<close> and \<^verbatim>\<open>JSON.stringify(v, null, 2)\<close> (the indentation is the first
  argument here), and \<^verbatim>\<open>new Date(v).toISOString()\<close>, which throws on an invalid date.
\<close>

record runtime =
  stringify :: "nat option \<Rightarrow> jsval \<Rightarrow> string"
  toISOString :: "jsval \<Rightarrow> string + string"

definition docs_or_empty :: "json_reply \<Rightarrow> doc list" where
  "docs_or_empty d = (case docs d of None \<Rightarrow> [] | Some ds \<Rightarrow> ds)"

definition opt_str :: "string option \<Rightarrow> jsval" where
  "opt_str a = (case a of None \<Rightarrow> JUndefined | Some s \<Rightarrow> JStr s)"

definition headers_value :: "(string \<times> string) list \<Rightarrow> jsval" where
  "headers_value hs = JObj (map (\<lambda>(k, v). (k, JStr v)) hs)"

definition body_value :: "req_body \<Rightarrow> jsval" where
  "body_value b = (case b of JsonBody v \<Rightarrow> v | _ \<Rightarrow> JUndefined)"

definition reply_value :: "json_reply \<Rightarrow> jsval" where
  "reply_value d =
     JObj ((case docs d of None \<Rightarrow> [] | Some ds \<Rightarrow> [(''docs'', JArr (map JObj ds))]) @ members d)"

text \<open>Object literals that copy members of a record, as they are or with \<^verbatim>\<open>|| undefined\<close>.\<close>

definition copy_fields :: "string list \<Rightarrow> doc \<Rightarrow> jsval" where
  "copy_fields keys d = JObj (map (\<lambda>k. (k, get_field d k)) keys)"

definition copy_truthy :: "string list \<Rightarrow> doc \<Rightarrow> doc" where
  "copy_truthy keys d = map (\<lambda>k. (k, or_else (get_field d k) JUndefined)) keys"

text \<open>
  The handlers that add the member \<^verbatim>\<open>Authorization\<close> with an \<^verbatim>\<open>if\<close>: the request's
  token, else the configured one, else no such header.
\<close>

definition conditional_authorization :: "serverConfig \<Rightarrow> request_ctx \<Rightarrow> (string \<times> string) list" where
  "conditional_authorization cfg req =
     (if present (downstreamToken req) then [(''Authorization'', ''Bearer '' @ the (downstreamToken req))]
      else if present (BACKEND_ACCESS_TOKEN cfg)
      then [(''Authorization'', ''Bearer '' @ the (BACKEND_ACCESS_TOKEN cfg))]
      else [])"

definition conditional_options :: "serverConfig \<Rightarrow> request_ctx \<Rightarrow> jsval \<Rightarrow> request_options" where
  "conditional_options cfg req b =
     \<lparr>http_method = ''POST'',
      headers = [(''Content-Type'', ''application/json''),
                 (''User-Agent'', str_or_empty (BACKEND_USER_AGENT cfg)),
                 (''Accept'', ''application/json'')] @ conditional_authorization cfg req,
      body = JsonBody b,
      rejectUnauthorized = False\<rparr>"

definition ternary_options :: "serverConfig \<Rightarrow> request_ctx \<Rightarrow> jsval \<Rightarrow> request_options" where
  "ternary_options cfg req b =
     \<lparr>http_method = ''POST'',
      headers = [(''Content-Type'', ''application/json''),
                 (''User-Agent'', str_or_empty (BACKEND_USER_AGENT cfg)),
                 (''Accept'', ''application/json''),
                 (''Authorization'', authorization_value cfg req)],
      body = JsonBody b,
      rejectUnauthorized = False\<rparr>"

definition find_body_ordered :: "string \<Rightarrow> doc \<Rightarrow> int \<Rightarrow> string \<Rightarrow> jsval" where
  "find_body_ordered entityName inputFields viewSize orderBy =
     JObj [(''entityName'', JStr entityName), (''noConditionFind'', JStr ''Y''),
           (''inputFields'', JObj inputFields), (''viewSize'', JNum viewSize),
           (''orderBy'', JStr orderBy)]"

text \<open>The \<^verbatim>\<open>catch\<close> of the handlers that report the request with the error.\<close>

definition debug_text :: "runtime \<Rightarrow> string \<Rightarrow> request_options \<Rightarrow> string" where
  "debug_text rt u opts =
     ''DEBUG: URL: '' @ u @ [CHR 0x0A]
     @ ''HEADERS: '' @ stringify rt (Some 2) (headers_value (headers opts)) @ [CHR 0x0A]
     @ ''BODY: '' @ stringify rt None (body_value (body opts))"

definition catch_debug ::
  "runtime \<Rightarrow> string \<Rightarrow> request_options \<Rightarrow> string \<Rightarrow> string \<Rightarrow> tool_result stage \<times> 's world \<Rightarrow>
     tool_result \<times> 's world" where
  "catch_debug rt u opts logged label sw =
     (case sw of
        (Throw m, w) \<Rightarrow>
          (error_result [text_item (JStr (debug_text rt u opts)), text_item (JStr (label @ m))],
           console_error [logged, m] w)
      | (Return r, w) \<Rightarrow> (r, w)
      | (Cont r, w) \<Rightarrow> (r, w))"

text \<open>The \<^verbatim>\<open>catch\<close> of the handlers that report the message alone.\<close>

definition catch_plain :: "string \<Rightarrow> tool_result stage \<times> 's world \<Rightarrow> tool_result \<times> 's world" where
  "catch_plain logged sw =
     (case sw of
        (Throw m, w) \<Rightarrow>
          (error_result [text_item (JStr (''Error: '' @ m))], console_error [logged, m] w)
      | (Return r, w) \<Rightarrow> (r, w)
      | (Cont r, w) \<Rightarrow> (r, w))"

definition executing :: "runtime \<Rightarrow> string \<Rightarrow> string \<Rightarrow> request_options \<Rightarrow> 's world \<Rightarrow> 's world" where
  "executing rt label u opts w =
     console_error [''Payload:'', stringify rt (Some 2) (body_value (body opts))]
       (console_error [label, u] w)"

subsection \<open>getLogById\<close>

definition logFields :: "string list" where
  "logFields =
     [''logId'', ''configId'', ''ownerPartyId'', ''uploadFileContentId'', ''exportFileContentId'',
      ''logTypeEnumId'', ''createdByUserLogin'', ''createdDate'', ''startDateTime'',
      ''finishDateTime'', ''cancelDateTime'', ''jobId'', ''statusId'', ''errorRecordContentId'',
      ''logFileContentId'', ''runtimeDataId'', ''createdByJobId'', ''productStoreId'']"

definition getLogById_options :: "serverConfig \<Rightarrow> request_ctx \<Rightarrow> string \<Rightarrow> request_options" where
  "getLogById_options cfg req logId =
     conditional_options cfg req (find_body ''DataManagerLog'' [(''logId'', JStr logId)] 1)"

definition getLogById_try ::
  "serverConfig \<Rightarrow> runtime \<Rightarrow> request_ctx \<Rightarrow> 's backend \<Rightarrow> string \<Rightarrow> 's world \<Rightarrow> tool_result stage \<times> 's world" where
  "getLogById_try cfg rt req be logId w0 =
     (let requestOptions = getLogById_options cfg req logId;
          w1 = executing rt ''Executing getLogById against:'' (backendUrl cfg) requestOptions w0
      in case fetch be (backendUrl cfg) requestOptions w1 of
           (Rejected m, w2) \<Rightarrow> (Throw m, w2)
         | (Resolved response, w2) \<Rightarrow>
             (let w3 = console_error [''[TRACE] Response Status: '' @ show_nat (status response)
                                        @ '' '' @ statusText response] w2
              in if \<not> ok response
                 then (Throw (''HTTP error! status: '' @ show_nat (status response)), w3)
                 else
                   (case json response of
                      Inl m \<Rightarrow> (Throw m, w3)
                    | Inr responseData \<Rightarrow>
                        (let w4 = console_error [''[TRACE] Response Body:'',
                                                 stringify rt (Some 2) (reply_value responseData)] w3
                         in case docs_or_empty responseData of
                              [] \<Rightarrow>
                                (Return (error_result
                                   [text_item (JStr (''No DataManagerLog found with ID: '' @ logId))]), w4)
                            | log # _ \<Rightarrow>
                                (let structured = copy_fields logFields log
                                 in (Return (success_result
                                       [text_item (JStr (stringify rt None structured))] structured),
                                     w4))))))"

definition getLogById ::
  "serverConfig \<Rightarrow> runtime \<Rightarrow> request_ctx \<Rightarrow> 's backend \<Rightarrow> string \<Rightarrow> 's world \<Rightarrow> tool_result \<times> 's world" where
  "getLogById cfg rt req be logId w0 =
     catch_debug rt (backendUrl cfg) (getLogById_options cfg req logId)
       ''Error making backend request:'' ''Error fetching DataManagerLog: ''
       (getLogById_try cfg rt req be logId w0)"

subsection \<open>getLogConfig\<close>

definition configFields :: "string list" where
  "configFields =
     [''configId'', ''exportContentId'', ''importServiceName'', ''exportServiceName'',
      ''exportServiceScreenName'', ''exportServiceScreenLocation'', ''description'',
      ''scriptTitle'', ''delimiter'', ''fileNamePattern'', ''executionModeId'', ''multiThreading'',
      ''importPath'', ''exportPath'', ''priority'']"

definition getLogConfig_options :: "serverConfig \<Rightarrow> request_ctx \<Rightarrow> string \<Rightarrow> request_options" where
  "getLogConfig_options cfg req cfgId =
     conditional_options cfg req (find_body ''DataManagerConfig'' [(''configId'', JStr cfgId)] 1)"

definition getLogConfig_try ::
  "serverConfig \<Rightarrow> runtime \<Rightarrow> request_ctx \<Rightarrow> 's backend \<Rightarrow> string \<Rightarrow> 's world \<Rightarrow> tool_result stage \<times> 's world" where
  "getLogConfig_try cfg rt req be cfgId w0 =
     (let requestOptions = getLogConfig_options cfg req cfgId;
          w1 = executing rt ''Executing getLogConfig against:'' (backendUrl cfg) requestOptions w0
      in case fetch be (backendUrl cfg) requestOptions w1 of
           (Rejected m, w2) \<Rightarrow> (Throw m, w2)
         | (Resolved response, w2) \<Rightarrow>
             if \<not> ok response
             then (Throw (''HTTP error! status: '' @ show_nat (status response)), w2)
             else
               (case json response of
                  Inl m \<Rightarrow> (Throw m, w2)
                | Inr responseData \<Rightarrow>
                    (case docs_or_empty responseData of
                       [] \<Rightarrow>
                         (Return (error_result
                            [text_item (JStr (''Config '' @ cfgId @ '' not found.''))]), w2)
                     | config # _ \<Rightarrow>
                         (let structured = copy_fields configFields config
                          in (Return (success_result
                                [text_item (JStr (stringify rt None structured))] structured),
                              w2)))))"

definition getLogConfig ::
  "serverConfig \<Rightarrow> runtime \<Rightarrow> request_ctx \<Rightarrow> 's backend \<Rightarrow> string \<Rightarrow> 's world \<Rightarrow> tool_result \<times> 's world" where
  "getLogConfig cfg rt req be cfgId w0 =
     catch_debug rt (backendUrl cfg) (getLogConfig_options cfg req cfgId)
       ''Error making backend request:'' ''Error fetching config: ''
       (getLogConfig_try cfg rt req be cfgId w0)"

subsection \<open>retryFailedRecord\<close>

text \<open>
  \<^verbatim>\<open>String.prototype.trim\<close> on the ASCII white space; the Unicode white space that it
  also strips is not modelled.
\<close>

definition is_space :: "char \<Rightarrow> bool" where
  "is_space c = (c \<in> set [CHR '' '', CHR 0x09, CHR 0x0A, CHR 0x0B, CHR 0x0C, CHR 0x0D])"

definition trim :: "string \<Rightarrow> string" where
  "trim s = rev (dropWhile is_space (rev (dropWhile is_space s)))"

definition retry_message :: "string \<Rightarrow> doc \<Rightarrow> string" where
  "retry_message logId log =
     trim ([CHR 0x0A]
       @ ''Retry Context for Log '' @ logId @ '':'' @ [CHR 0x0A]
       @ ''- Config ID: '' @ tostr (get_field log ''configId'') @ [CHR 0x0A]
       @ ''- Status: '' @ tostr (get_field log ''statusId'') @ [CHR 0x0A]
       @ ''- Original Job ID: '' @ tostr (get_field log ''jobId'') @ [CHR 0x0A]
       @ ''- Runtime Data ID: '' @ tostr (get_field log ''runtimeDataId'') @ [CHR 0x0A]
       @ [CHR 0x0A]
       @ ''Automatic retry via MCP is not yet fully implemented. '' @ [CHR 0x0A]
       @ ''To manually retry:'' @ [CHR 0x0A]
       @ ''1. Identify the file from 'getLogConfig' using Config ID ''
       @ tostr (get_field log ''configId'') @ ''.'' @ [CHR 0x0A]
       @ ''2. Re-trigger the import/export service associated with that config.'' @ [CHR 0x0A]
       @ ''        '')"

definition retryFailedRecord_options :: "serverConfig \<Rightarrow> request_ctx \<Rightarrow> string \<Rightarrow> request_options" where
  "retryFailedRecord_options cfg req logId =
     conditional_options cfg req (find_body ''DataManagerLog'' [(''logId'', JStr (trim logId))] 1)"

definition retryFailedRecord_try ::
  "serverConfig \<Rightarrow> runtime \<Rightarrow> request_ctx \<Rightarrow> 's backend \<Rightarrow> string \<Rightarrow> 's world \<Rightarrow> tool_result stage \<times> 's world" where
  "retryFailedRecord_try cfg rt req be logId w0 =
     (let requestOptions = retryFailedRecord_options cfg req logId;
          w1 = executing rt ''Executing retryFailedRecord (fetch log) against:'' (backendUrl cfg)
                 requestOptions w0
      in case fetch be (backendUrl cfg) requestOptions w1 of
           (Rejected m, w2) \<Rightarrow> (Throw m, w2)
         | (Resolved response, w2) \<Rightarrow>
             if \<not> ok response
             then (Throw (''HTTP error! status: '' @ show_nat (status response)), w2)
             else
               (case json response of
                  Inl m \<Rightarrow> (Throw m, w2)
                | Inr responseData \<Rightarrow>
                    (case docs_or_empty responseData of
                       [] \<Rightarrow>
                         (Return (error_result
                            [text_item (JStr (''Log '' @ logId @ '' not found.''))]), w2)
                     | log # _ \<Rightarrow>
                         (let message = retry_message logId log
                          in (Return (success_result [text_item (JStr message)]
                                (JObj [(''message'', JStr message), (''canRetry'', JBool False)])),
                              w2)))))"

definition retryFailedRecord ::
  "serverConfig \<Rightarrow> runtime \<Rightarrow> request_ctx \<Rightarrow> 's backend \<Rightarrow> string \<Rightarrow> 's world \<Rightarrow> tool_result \<times> 's world" where
  "retryFailedRecord cfg rt req be logId w0 =
     catch_debug rt (backendUrl cfg) (retryFailedRecord_options cfg req logId)
       ''Error in retry logic:'' ''Error checking retry: ''
       (retryFailedRecord_try cfg rt req be logId w0)"

subsection \<open>findDataManagerLogs\<close>

record findLogs_args =
  fl_logId :: "string option"
  fl_configId :: "string option"
  fl_statusId :: "string option"
  fl_jobId :: "string option"

definition findDataManagerLogs_options :: "serverConfig \<Rightarrow> request_ctx \<Rightarrow> findLogs_args \<Rightarrow> request_options" where
  "findDataManagerLogs_options cfg req args =
     conditional_options cfg req
       (find_body_ordered ''DataManagerLog''
          [(''logId'', opt_str (fl_logId args)), (''configId'', opt_str (fl_configId args)),
           (''statusId'', opt_str (fl_statusId args)), (''jobId'', opt_str (fl_jobId args))]
          20 ''-createdDate'')"

definition found_log :: "doc \<Rightarrow> jsval" where
  "found_log log =
     JObj ((''logId'', get_field log ''logId'')
           # copy_truthy [''configId'', ''statusId'', ''jobId'', ''createdDate''] log
           @ [(''reason'', or_else (get_field log ''statusId'') JUndefined)])"

definition findDataManagerLogs_try ::
  "serverConfig \<Rightarrow> runtime \<Rightarrow> request_ctx \<Rightarrow> 's backend \<Rightarrow> findLogs_args \<Rightarrow> 's world \<Rightarrow>
     tool_result stage \<times> 's world" where
  "findDataManagerLogs_try cfg rt req be args w0 =
     (let requestOptions = findDataManagerLogs_options cfg req args;
          w1 = executing rt ''Executing findDataManagerLogs against:'' (backendUrl cfg) requestOptions w0
      in case fetch be (backendUrl cfg) requestOptions w1 of
           (Rejected m, w2) \<Rightarrow> (Throw m, w2)
         | (Resolved response, w2) \<Rightarrow>
             if \<not> ok response
             then (Throw (''HTTP error! status: '' @ show_nat (status response)), w2)
             else
               (case json response of
                  Inl m \<Rightarrow> (Throw m, w2)
                | Inr responseData \<Rightarrow>
                    (let logs = JArr (map found_log (docs_or_empty responseData))
                     in (Return (success_result [text_item (JStr (stringify rt None logs))]
                           (JObj [(''logs'', logs)])),
                         w2))))"

definition findDataManagerLogs ::
  "serverConfig \<Rightarrow> runtime \<Rightarrow> request_ctx \<Rightarrow> 's backend \<Rightarrow> findLogs_args \<Rightarrow> 's world \<Rightarrow>
     tool_result \<times> 's world" where
  "findDataManagerLogs cfg rt req be args w0 =
     catch_debug rt (backendUrl cfg) (findDataManagerLogs_options cfg req args)
       ''Error making backend request:'' ''Error finding DataManager logs: ''
       (findDataManagerLogs_try cfg rt req be args w0)"

subsection \<open>findPickProfileGroups\<close>

record pickGroups_args =
  pg_pickProfileGroupId :: "string option"
  pg_groupName :: "string option"
  pg_description :: "string option"

definition findPickProfileGroups_options ::
  "serverConfig \<Rightarrow> request_ctx \<Rightarrow> pickGroups_args \<Rightarrow> request_options" where
  "findPickProfileGroups_options cfg req args =
     conditional_options cfg req
       (find_body ''PickProfileGroup''
          [(''pickProfileGroupId'', opt_str (pg_pickProfileGroupId args)),
           (''groupName'', opt_str (pg_groupName args)),
           (''description'', opt_str (pg_description args))]
          20)"

definition findPickProfileGroups_try ::
  "serverConfig \<Rightarrow> runtime \<Rightarrow> request_ctx \<Rightarrow> 's backend \<Rightarrow> pickGroups_args \<Rightarrow> 's world \<Rightarrow>
     tool_result stage \<times> 's world" where
  "findPickProfileGroups_try cfg rt req be args w0 =
     (let requestOptions = findPickProfileGroups_options cfg req args;
          w1 = executing rt ''Executing findPickProfileGroups against:'' (backendUrl cfg) requestOptions w0
      in case fetch be (backendUrl cfg) requestOptions w1 of
           (Rejected m, w2) \<Rightarrow> (Throw m, w2)
         | (Resolved response, w2) \<Rightarrow>
             if \<not> ok response
             then (Throw (''HTTP error! status: '' @ show_nat (status response)), w2)
             else
               (case json response of
                  Inl m \<Rightarrow> (Throw m, w2)
                | Inr responseData \<Rightarrow>
                    (let pickProfileGroups = JArr (map JObj (docs_or_empty responseData))
                     in (Return (success_result
                           [text_item (JStr (stringify rt None pickProfileGroups))]
                           (JObj [(''pickProfileGroups'', pickProfileGroups)])),
                         w2))))"

definition findPickProfileGroups ::
  "serverConfig \<Rightarrow> runtime \<Rightarrow> request_ctx \<Rightarrow> 's backend \<Rightarrow> pickGroups_args \<Rightarrow> 's world \<Rightarrow>
     tool_result \<times> 's world" where
  "findPickProfileGroups cfg rt req be args w0 =
     catch_debug rt (backendUrl cfg) (findPickProfileGroups_options cfg req args)
       ''Error making backend request:'' ''Error finding pick profile groups: ''
       (findPickProfileGroups_try cfg rt req be args w0)"

subsection \<open>listRecentErrors\<close>

definition listRecentErrors_options ::
  "serverConfig \<Rightarrow> request_ctx \<Rightarrow> int option \<Rightarrow> string option \<Rightarrow> request_options" where
  "listRecentErrors_options cfg req limit cfgId =
     conditional_options cfg req
       (find_body_ordered ''DataManagerLog''
          (if present cfgId then [(''configId'', JStr (the cfgId))] else [])
          (case limit of None \<Rightarrow> 20 | Some n \<Rightarrow> if n \<noteq> 0 then n else 20)
          ''-createdDate'')"

text \<open>
  The predicate of the in-memory filter. \<^verbatim>\<open>trim\<close> is a method of strings: on any
  other truthy value the call throws.
\<close>

definition is_failed_log :: "doc \<Rightarrow> string + bool" where
  "is_failed_log log =
     (let statusId = get_field log ''statusId'';
          errorRecordContentId = get_field log ''errorRecordContentId''
      in if statusId = JStr ''SERVICE_FAILED'' \<or> statusId = JStr ''SERVICE_CRASHED''
            \<or> statusId = JStr ''DM_LOG_ERROR''
         then Inr True
         else if \<not> truthy errorRecordContentId then Inr False
         else
           (case errorRecordContentId of
              JStr s \<Rightarrow> Inr (trim s \<noteq> [])
            | _ \<Rightarrow> Inl ''log.errorRecordContentId.trim is not a function''))"

fun filter_failed :: "doc list \<Rightarrow> string + doc list" where
  "filter_failed [] = Inr []"
| "filter_failed (log # logs) =
     (case is_failed_log log of
        Inl m \<Rightarrow> Inl m
      | Inr keep \<Rightarrow>
          (case filter_failed logs of
             Inl m \<Rightarrow> Inl m
           | Inr rest \<Rightarrow> Inr (if keep then log # rest else rest)))"

definition failed_log :: "doc \<Rightarrow> jsval" where
  "failed_log log =
     JObj ((''logId'', get_field log ''logId'')
           # copy_truthy (tl logFields) log
           @ [(''reason'', or_else (get_field log ''statusId'') JUndefined)])"

definition listRecentErrors_try ::
  "serverConfig \<Rightarrow> runtime \<Rightarrow> request_ctx \<Rightarrow> 's backend \<Rightarrow> int option \<Rightarrow> string option \<Rightarrow> 's world \<Rightarrow>
     tool_result stage \<times> 's world" where
  "listRecentErrors_try cfg rt req be limit cfgId w0 =
     (let requestOptions = listRecentErrors_options cfg req limit cfgId;
          w1 = executing rt ''Executing listRecentErrors against:'' (backendUrl cfg) requestOptions w0
      in case fetch be (backendUrl cfg) requestOptions w1 of
           (Rejected m, w2) \<Rightarrow> (Throw m, w2)
         | (Resolved response, w2) \<Rightarrow>
             if \<not> ok response
             then (Throw (''HTTP error! status: '' @ show_nat (status response)), w2)
             else
               (case json response of
                  Inl m \<Rightarrow> (Throw m, w2)
                | Inr responseData \<Rightarrow>
                    (case filter_failed (docs_or_empty responseData) of
                       Inl m \<Rightarrow> (Throw m, w2)
                     | Inr failedLogs \<Rightarrow>
                         (let logs = JArr (map failed_log failedLogs)
                          in (Return (success_result [text_item (JStr (stringify rt None logs))]
                                (JObj [(''logs'', logs)])),
                              w2)))))"

definition listRecentErrors ::
  "serverConfig \<Rightarrow> runtime \<Rightarrow> request_ctx \<Rightarrow> 's backend \<Rightarrow> int option \<Rightarrow> string option \<Rightarrow> 's world \<Rightarrow>
     tool_result \<times> 's world" where
  "listRecentErrors cfg rt req be limit cfgId w0 =
     catch_debug rt (backendUrl cfg) (listRecentErrors_options cfg req limit cfgId)
       ''Error making backend request:'' ''Error finding recent errors: ''
       (listRecentErrors_try cfg rt req be limit cfgId w0)"

subsection \<open>findOrderItems\<close>

definition itemFields :: "string list" where
  "itemFields =
     [''orderId'', ''orderItemSeqId'', ''productId'', ''itemDescription'', ''quantity'',
      ''unitPrice'', ''statusId'']"

definition findOrderItems_options :: "serverConfig \<Rightarrow> request_ctx \<Rightarrow> string \<Rightarrow> request_options" where
  "findOrderItems_options cfg req orderId =
     ternary_options cfg req
       (find_body_ordered ''OrderItem'' [(''orderId'', JStr orderId)] 100 ''orderItemSeqId'')"

definition findOrderItems_try ::
  "serverConfig \<Rightarrow> runtime \<Rightarrow> request_ctx \<Rightarrow> 's backend \<Rightarrow> string \<Rightarrow> 's world \<Rightarrow> tool_result stage \<times> 's world" where
  "findOrderItems_try cfg rt req be orderId w0 =
     (case fetch be (backendUrl cfg) (findOrderItems_options cfg req orderId) w0 of
        (Rejected m, w1) \<Rightarrow> (Throw m, w1)
      | (Resolved response, w1) \<Rightarrow>
          if \<not> ok response
          then (Throw (''HTTP error! status: '' @ show_nat (status response)), w1)
          else
            (case json response of
               Inl m \<Rightarrow> (Throw m, w1)
             | Inr data \<Rightarrow>
                 (let items = JArr (map (copy_fields itemFields) (docs_or_empty data))
                  in (Return (success_result [text_item (JStr (stringify rt (Some 2) items))]
                        (JObj [(''items'', items)])),
                      w1))))"

definition findOrderItems ::
  "serverConfig \<Rightarrow> runtime \<Rightarrow> request_ctx \<Rightarrow> 's backend \<Rightarrow> string \<Rightarrow> 's world \<Rightarrow> tool_result \<times> 's world" where
  "findOrderItems cfg rt req be orderId w0 =
     (if orderId = []
      then (error_result [text_item (JStr ''Error: orderId is required'')], w0)
      else catch_plain ''Error in findOrderItems:'' (findOrderItems_try cfg rt req be orderId w0))"

subsection \<open>findOrderHeader\<close>

definition headerFields :: "string list" where
  "headerFields =
     [''orderId'', ''statusId'', ''externalId'', ''entryDate'', ''productStoreId'', ''grandTotal'']"

definition findOrderHeader_fields :: "string option \<Rightarrow> string option \<Rightarrow> doc" where
  "findOrderHeader_fields orderId externalId =
     (if present orderId then [(''orderId'', JStr (the orderId))] else [])
     @ (if present externalId then [(''externalId'', JStr (the externalId))] else [])"

definition findOrderHeader_try ::
  "serverConfig \<Rightarrow> runtime \<Rightarrow> request_ctx \<Rightarrow> 's backend \<Rightarrow> doc \<Rightarrow> 's world \<Rightarrow> tool_result stage \<times> 's world" where
  "findOrderHeader_try cfg rt req be inputFields w0 =
     (case fetch be (backendUrl cfg)
             (ternary_options cfg req (find_body ''OrderHeader'' inputFields 1)) w0 of
        (Rejected m, w1) \<Rightarrow> (Throw m, w1)
      | (Resolved response, w1) \<Rightarrow>
          if \<not> ok response
          then (Throw (''HTTP error! status: '' @ show_nat (status response)), w1)
          else
            (case json response of
               Inl m \<Rightarrow> (Throw m, w1)
             | Inr data \<Rightarrow>
                 (case docs_or_empty data of
                    [] \<Rightarrow> (Return (error_result [text_item (JStr ''Order not found.'')]), w1)
                  | order # _ \<Rightarrow>
                      (let result = copy_fields headerFields order
                       in (Return (success_result [text_item (JStr (stringify rt (Some 2) result))]
                             result),
                           w1)))))"

definition findOrderHeader ::
  "serverConfig \<Rightarrow> runtime \<Rightarrow> request_ctx \<Rightarrow> 's backend \<Rightarrow> string option \<Rightarrow> string option \<Rightarrow> 's world \<Rightarrow>
     tool_result \<times> 's world" where
  "findOrderHeader cfg rt req be orderId externalId w0 =
     (let inputFields = findOrderHeader_fields orderId externalId
      in if inputFields = []
         then (error_result [text_item (JStr ''Please provide either orderId or externalId'')], w0)
         else catch_plain ''Error in findOrderHeader:''
                (findOrderHeader_try cfg rt req be inputFields w0))"

subsection \<open>findProductById\<close>

definition product_result :: "doc \<Rightarrow> jsval" where
  "product_result product =
     JObj ((''productId'', get_field product ''productId'')
           # copy_truthy [''productName'', ''internalName'', ''description'', ''productTypeId'',
                          ''isVirtual'', ''isVariant''] product)"

definition product_not_found :: "string \<Rightarrow> tool_result" where
  "product_not_found ident = error_result [text_item (JStr (''Product not found: '' @ ident))]"

definition findProductById_try ::
  "serverConfig \<Rightarrow> runtime \<Rightarrow> request_ctx \<Rightarrow> 's backend \<Rightarrow> string \<Rightarrow> 's world \<Rightarrow> tool_result stage \<times> 's world" where
  "findProductById_try cfg rt req be ident w0 =
     (let finish = (\<lambda>data w.
            case docs_or_empty data of
              [] \<Rightarrow> (Return (product_not_found ident), w)
            | product # _ \<Rightarrow>
                (let result = product_result product
                 in (Return (success_result [text_item (JStr (stringify rt (Some 2) result))] result),
                     w)))
      in case fetch be (backendUrl cfg)
                (getRequestOptions cfg req ''Product'' [(''productId'', JStr ident)]) w0 of
           (Rejected m, w1) \<Rightarrow> (Throw m, w1)
         | (Resolved response, w1) \<Rightarrow>
             (case json response of
                Inl m \<Rightarrow> (Throw m, w1)
              | Inr data \<Rightarrow>
                  if docs_or_empty data = []
                  then
                    (case fetch be (backendUrl cfg)
                            (getRequestOptions cfg req ''Product'' [(''internalName'', JStr ident)]) w1 of
                       (Rejected m, w2) \<Rightarrow> (Throw m, w2)
                     | (Resolved response2, w2) \<Rightarrow>
                         (case json response2 of
                            Inl m \<Rightarrow> (Throw m, w2)
                          | Inr data2 \<Rightarrow> finish data2 w2))
                  else finish data w1))"

definition findProductById ::
  "serverConfig \<Rightarrow> runtime \<Rightarrow> request_ctx \<Rightarrow> 's backend \<Rightarrow> string \<Rightarrow> 's world \<Rightarrow> tool_result \<times> 's world" where
  "findProductById cfg rt req be ident w0 =
     catch_plain ''Error in findProductById:'' (findProductById_try cfg rt req be ident w0)"

subsection \<open>uploadFileToConfig\<close>

definition uploadUrl :: "serverConfig \<Rightarrow> string" where
  "uploadUrl cfg = BACKEND_API_BASE cfg @ ''/api/service/uploadAndImportFile''"

definition upload_options ::
  "serverConfig \<Rightarrow> request_ctx \<Rightarrow> string \<Rightarrow> string \<Rightarrow> string \<Rightarrow> request_options" where
  "upload_options cfg req cfgId file fileName =
     (let authToken = token_of cfg req
      in \<lparr>http_method = ''POST'',
          headers = [(''User-Agent'', str_or_empty (BACKEND_USER_AGENT cfg)),
                     (''Accept'', ''application/json'')]
                    @ (if present authToken then [(''Authorization'', ''Bearer '' @ the authToken)] else []),
          body = FormBody [(''configId'', FormField cfgId),
                           (''uploadedFile'', FormBlob file ''application/octet-stream'' fileName),
                           (''_uploadedFile_fileName'', FormField fileName)],
          rejectUnauthorized = False\<rparr>)"

definition uploadFileToConfig_try ::
  "serverConfig \<Rightarrow> request_ctx \<Rightarrow> 's backend \<Rightarrow> string \<Rightarrow> string \<Rightarrow> string \<Rightarrow> 's world \<Rightarrow>
     tool_result stage \<times> 's world" where
  "uploadFileToConfig_try cfg req be cfgId file fileName w0 =
     (case fetch be (uploadUrl cfg) (upload_options cfg req cfgId file fileName) w0 of
        (Rejected m, w1) \<Rightarrow> (Throw m, w1)
      | (Resolved response, w1) \<Rightarrow>
          if \<not> ok response
          then
            (case body_text response of
               Inl m \<Rightarrow> (Throw m, w1)
             | Inr errorText \<Rightarrow>
                 (Throw (''OFBiz service call failed: '' @ show_nat (status response) @ '' ''
                           @ statusText response @ '' - '' @ errorText), w1))
          else
            (case json response of
               Inl m \<Rightarrow> (Throw m, w1)
             | Inr reply \<Rightarrow>
                 (let result = members reply;
                      responseMessage = get_field result ''responseMessage''
                  in if responseMessage = JStr ''error'' \<or> responseMessage = JStr ''fail''
                     then (Throw (''Service returned error: ''
                                    @ tostr (or_else (get_field result ''errorMessage'')
                                                     (get_field result ''errorMessageList''))), w1)
                     else
                       (let uploadFileContentId = get_field result ''uploadFileContentId''
                        in (Return (success_result
                              [text_item (JStr (''File uploaded successfully.'' @ [CHR 0x0A]
                                 @ ''Config ID: '' @ cfgId @ [CHR 0x0A]
                                 @ ''Content ID: '' @ tostr (or_else uploadFileContentId (JStr ''N/A''))))]
                              (JObj [(''configId'', JStr cfgId),
                                     (''uploadFileContentId'', uploadFileContentId),
                                     (''status'', JStr ''success'')])),
                            w1)))))"

definition uploadFileToConfig ::
  "serverConfig \<Rightarrow> request_ctx \<Rightarrow> 's backend \<Rightarrow> string \<Rightarrow> string \<Rightarrow> string \<Rightarrow> 's world \<Rightarrow>
     tool_result \<times> 's world" where
  "uploadFileToConfig cfg req be cfgId file fileName w0 =
     catch_plain ''Error in uploadFileToConfig:''
       (uploadFileToConfig_try cfg req be cfgId file fileName w0)"

subsection \<open>findOrderTasks, by \<^verbatim>\<open>sourceReferenceId\<close>\<close>

definition taskFields :: "string list" where
  "taskFields =
     [''workEffortId'', ''workEffortName'', ''workEffortTypeId'', ''currentStatusId'',
      ''description'', ''createdDate'']"

definition tasksBySource_options ::
  "serverConfig \<Rightarrow> request_ctx \<Rightarrow> string \<Rightarrow> string option \<Rightarrow> request_options" where
  "tasksBySource_options cfg req orderId workEffortTypeId =
     ternary_options cfg req
       (find_body_ordered ''WorkEffort''
          [(''sourceReferenceId'', JStr orderId),
           (''workEffortTypeId'',
            JStr (if present workEffortTypeId then the workEffortTypeId else ''RESOLVE_ONHOLD_ORDER''))]
          20 ''-createdDate'')"

definition tasksBySource_try ::
  "serverConfig \<Rightarrow> runtime \<Rightarrow> request_ctx \<Rightarrow> 's backend \<Rightarrow> string \<Rightarrow> string option \<Rightarrow> 's world \<Rightarrow>
     tool_result stage \<times> 's world" where
  "tasksBySource_try cfg rt req be orderId workEffortTypeId w0 =
     (case fetch be (backendUrl cfg) (tasksBySource_options cfg req orderId workEffortTypeId) w0 of
        (Rejected m, w1) \<Rightarrow> (Throw m, w1)
      | (Resolved response, w1) \<Rightarrow>
          if \<not> ok response
          then (Throw (''HTTP error! status: '' @ show_nat (status response)), w1)
          else
            (case json response of
               Inl m \<Rightarrow> (Throw m, w1)
             | Inr data \<Rightarrow>
                 (let tasks = JArr (map (copy_fields taskFields) (docs_or_empty data))
                  in (Return (success_result [text_item (JStr (stringify rt None tasks))]
                        (JObj [(''tasks'', tasks)])),
                      w1))))"

definition findOrderTasks_bySource ::
  "serverConfig \<Rightarrow> runtime \<Rightarrow> request_ctx \<Rightarrow> 's backend \<Rightarrow> string \<Rightarrow> string option \<Rightarrow> 's world \<Rightarrow>
     tool_result \<times> 's world" where
  "findOrderTasks_bySource cfg rt req be orderId workEffortTypeId w0 =
     catch_plain ''Error in findOrderTasks:''
       (tasksBySource_try cfg rt req be orderId workEffortTypeId w0)"

subsection \<open>findOrderTasks, by \<^verbatim>\<open>OrderHeaderWorkEffort\<close>\<close>

definition link_options :: "serverConfig \<Rightarrow> request_ctx \<Rightarrow> string \<Rightarrow> request_options" where
  "link_options cfg req orderId =
     ternary_options cfg req (find_body ''OrderHeaderWorkEffort'' [(''orderId'', JStr orderId)] 100)"

definition task_options :: "serverConfig \<Rightarrow> request_ctx \<Rightarrow> jsval \<Rightarrow> request_options" where
  "task_options cfg req workEffortId =
     ternary_options cfg req
       (JObj [(''entityName'', JStr ''WorkEffort''),
              (''inputFields'', JObj [(''workEffortId'', workEffortId)])])"

text \<open>The loop over the links: one request at a time, the tasks collected so far.\<close>

fun fetch_tasks ::
  "serverConfig \<Rightarrow> runtime \<Rightarrow> request_ctx \<Rightarrow> 's backend \<Rightarrow> string option \<Rightarrow> doc list \<Rightarrow> jsval list \<Rightarrow>
     's world \<Rightarrow> jsval list stage \<times> 's world" where
  "fetch_tasks cfg rt req be workEffortTypeId [] tasks w = (Cont tasks, w)"
| "fetch_tasks cfg rt req be workEffortTypeId (link # links) tasks w =
     (case fetch be (backendUrl cfg) (task_options cfg req (get_field link ''workEffortId'')) w of
        (Rejected m, w1) \<Rightarrow> (Throw m, w1)
      | (Resolved taskResponse, w1) \<Rightarrow>
          if ok taskResponse
          then
            (case json taskResponse of
               Inl m \<Rightarrow> (Throw m, w1)
             | Inr taskData \<Rightarrow>
                 (case docs taskData of
                    Some (task # _) \<Rightarrow>
                      if present workEffortTypeId
                         \<and> get_field task ''workEffortTypeId'' \<noteq> JStr (the workEffortTypeId)
                      then fetch_tasks cfg rt req be workEffortTypeId links tasks w1
                      else
                        (case (if truthy (get_field task ''createdDate'')
                               then map_sum id JStr (toISOString rt (get_field task ''createdDate''))
                               else Inr JUndefined) of
                           Inl m \<Rightarrow> (Throw m, w1)
                         | Inr createdDate \<Rightarrow>
                             fetch_tasks cfg rt req be workEffortTypeId links
                               (tasks @ [JObj [(''workEffortId'', get_field task ''workEffortId''),
                                               (''workEffortName'', get_field task ''workEffortName''),
                                               (''workEffortTypeId'', get_field task ''workEffortTypeId''),
                                               (''currentStatusId'', get_field task ''currentStatusId''),
                                               (''description'',
                                                or_else (get_field task ''description'') JUndefined),
                                               (''createdDate'', createdDate)]])
                               w1)
                  | _ \<Rightarrow> fetch_tasks cfg rt req be workEffortTypeId links tasks w1))
          else fetch_tasks cfg rt req be workEffortTypeId links tasks w1)"

definition tasksByLink_try ::
  "serverConfig \<Rightarrow> runtime \<Rightarrow> request_ctx \<Rightarrow> 's backend \<Rightarrow> string \<Rightarrow> string option \<Rightarrow> 's world \<Rightarrow>
     tool_result stage \<times> 's world" where
  "tasksByLink_try cfg rt req be orderId workEffortTypeId w0 =
     (case fetch be (backendUrl cfg) (link_options cfg req orderId) w0 of
        (Rejected m, w1) \<Rightarrow> (Throw m, w1)
      | (Resolved linkResponse, w1) \<Rightarrow>
          if \<not> ok linkResponse
          then (Throw (''Failed to fetch OrderHeaderWorkEffort: '' @ show_nat (status linkResponse)), w1)
          else
            (case json linkResponse of
               Inl m \<Rightarrow> (Throw m, w1)
             | Inr linkData \<Rightarrow>
                 (case docs_or_empty linkData of
                    [] \<Rightarrow>
                      (Return (success_result [text_item (JStr (stringify rt None (JArr [])))]
                         (JObj [(''tasks'', JArr [])])),
                       w1)
                  | linkDocs \<Rightarrow>
                      (case fetch_tasks cfg rt req be workEffortTypeId linkDocs [] w1 of
                         (Throw m, w2) \<Rightarrow> (Throw m, w2)
                       | (Return r, w2) \<Rightarrow> (Return r, w2)
                       | (Cont tasks, w2) \<Rightarrow>
                           (Return (success_result [text_item (JStr (stringify rt None (JArr tasks)))]
                              (JObj [(''tasks'', JArr tasks)])),
                            w2)))))"

definition findOrderTasks_byLink ::
  "serverConfig \<Rightarrow> runtime \<Rightarrow> request_ctx \<Rightarrow> 's backend \<Rightarrow> string \<Rightarrow> string option \<Rightarrow> 's world \<Rightarrow>
     tool_result \<times> 's world" where
  "findOrderTasks_byLink cfg rt req be orderId workEffortTypeId w0 =
     catch_plain ''Error in findOrderTasks:''
       (tasksByLink_try cfg rt req be orderId workEffortTypeId w0)"

subsection \<open>getImportSapiOrderConfig\<close>

definition sapi_configId :: "string option \<Rightarrow> string" where
  "sapi_configId a = (if present a then the a else ''IMP_SAPI_ORDER'')"

definition sapi_result :: "string option \<Rightarrow> doc \<Rightarrow> jsval" where
  "sapi_result a config =
     JObj ((''configId'', or_else (get_field config ''dataManagerConfigId'') (opt_str a))
           # copy_truthy [''description'', ''jobName'', ''runtimeDataId'', ''runtimeInfo''] config)"

definition getImportSapiOrderConfig_try ::
  "serverConfig \<Rightarrow> runtime \<Rightarrow> request_ctx \<Rightarrow> 's backend \<Rightarrow> string option \<Rightarrow> 's world \<Rightarrow>
     tool_result stage \<times> 's world" where
  "getImportSapiOrderConfig_try cfg rt req be a w0 =
     (let cfgId = sapi_configId a;
          w1 = console_error [''Fetching DataManagerConfig for '' @ cfgId] w0;
          finish = (\<lambda>config w.
             let result = sapi_result a config
             in (Return (success_result [text_item (JStr (stringify rt (Some 2) result))] result), w))
      in case fetch be (backendUrl cfg)
                (getRequestOptions cfg req ''DataManagerConfig'' [(''dataManagerConfigId'', JStr cfgId)]) w1 of
           (Rejected m, w2) \<Rightarrow> (Throw m, w2)
         | (Resolved response, w2) \<Rightarrow>
             if \<not> ok response
             then (Throw (''HTTP error! status: '' @ show_nat (status response)), w2)
             else
               (case json response of
                  Inl m \<Rightarrow> (Throw m, w2)
                | Inr data \<Rightarrow>
                    (case docs_or_empty data of
                       [] \<Rightarrow>
                         (Return (error_result [text_item (JStr (''Config not found: '' @ cfgId))]), w2)
                     | config # _ \<Rightarrow>
                         if truthy (get_field config ''runtimeDataId'')
                         then
                           (case fetch be (backendUrl cfg)
                                   (getRequestOptions cfg req ''RuntimeData''
                                      [(''runtimeDataId'', get_field config ''runtimeDataId'')]) w2 of
                              (Rejected m, w3) \<Rightarrow> (Throw m, w3)
                            | (Resolved rtResponse, w3) \<Rightarrow>
                                if ok rtResponse
                                then
                                  (case json rtResponse of
                                     Inl m \<Rightarrow> (Throw m, w3)
                                   | Inr rtData \<Rightarrow> finish config w3)
                                else finish config w3)
                         else finish config w2)))"

definition getImportSapiOrderConfig ::
  "serverConfig \<Rightarrow> runtime \<Rightarrow> request_ctx \<Rightarrow> 's backend \<Rightarrow> string option \<Rightarrow> 's world \<Rightarrow>
     tool_result \<times> 's world" where
  "getImportSapiOrderConfig cfg rt req be a w0 =
     catch_plain ''Error in getImportSapiOrderConfig:''
       (getImportSapiOrderConfig_try cfg rt req be a w0)"

section \<open>All handlers\<close>

text \<open>An invocation names a handler and carries its arguments.\<close>

datatype invocation =
    GetContentRemote string
  | GetContentDownload getContent_args
  | GetContentPersist getContent_args
  | GetLogById string
  | GetLogConfig string
  | RetryFailedRecord string
  | FindDataManagerLogs findLogs_args
  | FindPickProfileGroups pickGroups_args
  | ListRecentErrors "int option" "string option"
  | FindOrderItems string
  | FindOrderHeader "string option" "string option"
  | FindProductById string
  | UploadFileToConfig string string string
  | FindOrderTasksBySource string "string option"
  | FindOrderTasksByLink string "string option"
  | GetImportSapiOrderConfig "string option"

record env =
  config :: serverConfig
  builtins :: runtime
  files :: filesystem
  moduleDir :: "string list"

fun run_tool :: "env \<Rightarrow> request_ctx \<Rightarrow> 's backend \<Rightarrow> invocation \<Rightarrow> 's world \<Rightarrow> tool_result \<times> 's world" where
  "run_tool e req be (GetContentRemote cid) w = getContent_remote (config e) req be cid w"
| "run_tool e req be (GetContentDownload args) w = getContent_download (config e) req be args w"
| "run_tool e req be (GetContentPersist args) w =
     getContent_persist (config e) (files e) (moduleDir e) req be args w"
| "run_tool e req be (GetLogById logId) w = getLogById (config e) (builtins e) req be logId w"
| "run_tool e req be (GetLogConfig cfgId) w = getLogConfig (config e) (builtins e) req be cfgId w"
| "run_tool e req be (RetryFailedRecord logId) w =
     retryFailedRecord (config e) (builtins e) req be logId w"
| "run_tool e req be (FindDataManagerLogs args) w =
     findDataManagerLogs (config e) (builtins e) req be args w"
| "run_tool e req be (FindPickProfileGroups args) w =
     findPickProfileGroups (config e) (builtins e) req be args w"
| "run_tool e req be (ListRecentErrors limit cfgId) w =
     listRecentErrors (config e) (builtins e) req be limit cfgId w"
| "run_tool e req be (FindOrderItems orderId) w = findOrderItems (config e) (builtins e) req be orderId w"
| "run_tool e req be (FindOrderHeader orderId externalId) w =
     findOrderHeader (config e) (builtins e) req be orderId externalId w"
| "run_tool e req be (FindProductById ident) w = findProductById (config e) (builtins e) req be ident w"
| "run_tool e req be (UploadFileToConfig cfgId file fileName) w =
     uploadFileToConfig (config e) req be cfgId file fileName w"
| "run_tool e req be (FindOrderTasksBySource orderId t) w =
     findOrderTasks_bySource (config e) (builtins e) req be orderId t w"
| "run_tool e req be (FindOrderTasksByLink orderId t) w =
     findOrderTasks_byLink (config e) (builtins e) req be orderId t w"
| "run_tool e req be (GetImportSapiOrderConfig a) w =
     getImportSapiOrderConfig (config e) (builtins e) req be a w"

section \<open>Vocabulary of the properties\<close>

text \<open>
  What the backend answers to a find request in state \<open>s\<close>: the records of a reply with a
  success status and a readable JSON body, with the backend's next state.
\<close>

definition find_reply :: "'s backend \<Rightarrow> http_request \<Rightarrow> 's \<Rightarrow> (doc list \<times> 's) option" where
  "find_reply be rq s =
     (case be rq s of
        (Rejected m, s') \<Rightarrow> None
      | (Resolved r, s') \<Rightarrow>
          if ok r then (case json r of Inl m \<Rightarrow> None | Inr d \<Rightarrow> Some (docs_or_empty d, s'))
          else None)"

text \<open>The requests of the content chain, as the handlers build them.\<close>

definition content_query :: "serverConfig \<Rightarrow> request_ctx \<Rightarrow> string \<Rightarrow> http_request" where
  "content_query cfg req cid =
     (backendUrl cfg, getRequestOptions cfg req ''Content'' [(''contentId'', JStr cid)])"

definition data_resource_query :: "serverConfig \<Rightarrow> request_ctx \<Rightarrow> jsval \<Rightarrow> http_request" where
  "data_resource_query cfg req dataResourceId =
     (backendUrl cfg, getRequestOptions cfg req ''DataResource'' [(''dataResourceId'', dataResourceId)])"

definition text_query :: "serverConfig \<Rightarrow> request_ctx \<Rightarrow> jsval \<Rightarrow> http_request" where
  "text_query cfg req dataResourceId =
     (backendUrl cfg, getRequestOptions cfg req ''ElectronicText'' [(''dataResourceId'', dataResourceId)])"

definition download_request :: "serverConfig \<Rightarrow> request_ctx \<Rightarrow> string \<Rightarrow> http_request" where
  "download_request cfg req cid = (downloadUrl cfg cid, download_options cfg req)"

definition view_binary_request :: "serverConfig \<Rightarrow> request_ctx \<Rightarrow> jsval \<Rightarrow> http_request" where
  "view_binary_request cfg req dataResourceId = (viewBinaryUrl cfg dataResourceId, remote_options cfg req)"

text \<open>The two variants of a tool result: a payload and no error flag, or the flag and no payload.\<close>

definition well_formed :: "tool_result \<Rightarrow> bool" where
  "well_formed r =
     (case (structuredContent r, isError r) of
        (Some sc, None) \<Rightarrow> True
      | (None, Some True) \<Rightarrow> True
      | _ \<Rightarrow> False)"

text \<open>A member of the payload of a result.\<close>

definition payload_field :: "tool_result \<Rightarrow> string \<Rightarrow> jsval option" where
  "payload_field r k =
     (case structuredContent r of Some (JObj kvs) \<Rightarrow> Some (get_field kvs k) | _ \<Rightarrow> None)"

text \<open>A backend that answers from a script, whatever the request: a state is the answers left.\<close>

definition scripted :: "fetch_outcome list backend" where
  "scripted rq s = (case s of [] \<Rightarrow> (Rejected ''connect ECONNREFUSED'', []) | x # xs \<Rightarrow> (x, xs))"

definition json_response :: "doc list \<Rightarrow> http_response" where
  "json_response ds =
     \<lparr>status = 200, statusText = ''OK'', json = Inr \<lparr>docs = Some ds, members = []\<rparr>,
      body_text = Inr []\<rparr>"

definition text_response :: "nat \<Rightarrow> string \<Rightarrow> http_response" where
  "text_response n t =
     \<lparr>status = n, statusText = [], json = Inl ''Unexpected token'', body_text = Inr t\<rparr>"

definition sample_config :: serverConfig where
  "sample_config =
     \<lparr>BACKEND_API_BASE = ''https://erp.example'', BACKEND_ACCESS_TOKEN = Some ''T2'',
      BACKEND_USER_AGENT = Some ''agent''\<rparr>"

definition sample_request :: request_ctx where
  "sample_request = \<lparr>downstreamToken = Some ''T1''\<rparr>"

definition bare_config :: serverConfig where
  "bare_config =
     \<lparr>BACKEND_API_BASE = ''https://erp.example'', BACKEND_ACCESS_TOKEN = None,
      BACKEND_USER_AGENT = None\<rparr>"

definition bare_request :: request_ctx where
  "bare_request = \<lparr>downstreamToken = None\<rparr>"

definition sample_args :: getContent_args where
  "sample_args = \<lparr>contentId = ''C1'', configId = None, category = None\<rparr>"

text \<open>File systems: one without the anchor directory, one with it, one that cannot write.\<close>

definition sample_dir :: "string list" where
  "sample_dir = [''srv'', ''app'', ''build'', ''tools'']"

definition bare_fs :: filesystem where
  "bare_fs =
     \<lparr>existsSync = (\<lambda>p. False), isDirectory = (\<lambda>p. False), mkdir = (\<lambda>p. None),
      writeFile = (\<lambda>p t. None)\<rparr>"

definition anchored_fs :: filesystem where
  "anchored_fs =
     \<lparr>existsSync = (\<lambda>p. p = [''srv'', ''runtime'']), isDirectory = (\<lambda>p. p = [''srv'', ''runtime'']),
      mkdir = (\<lambda>p. None), writeFile = (\<lambda>p t. None)\<rparr>"

definition readonly_fs :: filesystem where
  "readonly_fs =
     \<lparr>existsSync = (\<lambda>p. p = [''srv'', ''runtime'']), isDirectory = (\<lambda>p. p = [''srv'', ''runtime'']),
      mkdir = (\<lambda>p. Some ''EACCES: permission denied, mkdir''),
      writeFile = (\<lambda>p t. Some ''EACCES: permission denied, open'')\<rparr>"

text \<open>The text a raw download yields: the body of an answer with a success status.\<close>

definition remote_text :: "fetch_outcome \<Rightarrow> string option" where
  "remote_text out =
     (case out of
        Rejected m \<Rightarrow> None
      | Resolved r \<Rightarrow> if ok r then (case body_text r of Inl m \<Rightarrow> None | Inr t \<Rightarrow> Some t) else None)"

text \<open>The payload of the two later versions of getContent, without a saved path.\<close>

definition content_payload :: "string \<Rightarrow> doc \<Rightarrow> jsval \<Rightarrow> doc" where
  "content_payload cid contentRecord textData =
     [(''contentId'', JStr cid),
      (''dataResourceId'', get_field contentRecord ''dataResourceId''),
      (''textData'', textData),
      (''mimeType'', or_else (get_field contentRecord ''mimeTypeId'') JUndefined)]"

text \<open>Scripts of backend answers for the content chain of content \<^verbatim>\<open>C1\<close>.\<close>

definition content_row :: doc where
  "content_row = [(''contentId'', JStr ''C1''), (''dataResourceId'', JStr ''D1'')]"

definition text_resource :: doc where
  "text_resource = [(''dataResourceId'', JStr ''D1''), (''dataResourceTypeId'', JStr ''ELECTRONIC_TEXT'')]"

definition file_resource :: doc where
  "file_resource =
     [(''dataResourceId'', JStr ''D1''), (''dataResourceTypeId'', JStr ''OFBIZ_FILE''),
      (''objectInfo'', JStr ''/data/orders.csv'')]"

definition typed_script :: "fetch_outcome list" where
  "typed_script =
     [Resolved (json_response [content_row]), Resolved (json_response [text_resource]),
      Resolved (json_response [[(''textData'', JStr ''hello'')]]),
      Resolved (text_response 200 ''other'')]"

definition empty_row_script :: "fetch_outcome list" where
  "empty_row_script =
     [Resolved (json_response [content_row]), Resolved (json_response [text_resource]),
      Resolved (json_response [[(''textData'', JStr [])]]),
      Resolved (text_response 200 ''downloaded'')]"

definition file_script :: "fetch_outcome list" where
  "file_script =
     [Resolved (json_response [content_row]), Resolved (json_response [file_resource]),
      Resolved (text_response 200 ''a,b'')]"

text \<open>The payload of the version with persistence.\<close>

definition persist_payload :: "string \<Rightarrow> doc \<Rightarrow> string \<Rightarrow> string list option \<Rightarrow> jsval" where
  "persist_payload cid contentRecord t savedPath =
     JObj (content_payload cid contentRecord (JStr t)
           @ [(''savedPath'', (case savedPath of Some p \<Rightarrow> JStr (path_string p) | None \<Rightarrow> JUndefined))])"

definition anchor_missing_message :: string where
  "anchor_missing_message =
     ''Could not find '' @ [CHR 0x22] @ ''runtime'' @ [CHR 0x22] @ '' directory in parent hierarchy.''"

definition saving_args :: getContent_args where
  "saving_args = \<lparr>contentId = ''C1'', configId = Some ''IMP_SAPI_ORDER'', category = Some CatError\<rparr>"

text \<open>
  Where the persistence step writes, below the anchor directory. A path is the list of its
  components and \<^verbatim>\<open>path.join\<close> appends one: its normalisation of a component that
  contains \<^verbatim>\<open>..\<close> or a separator is not modelled.
\<close>

definition target_dir :: "getContent_args \<Rightarrow> string list \<Rightarrow> string list" where
  "target_dir args runtimeDir =
     runtimeDir @ [category_name (category args) @ ''File_'' @ the (configId args)]"

definition saved_path :: "getContent_args \<Rightarrow> doc \<Rightarrow> string list \<Rightarrow> string list" where
  "saved_path args contentRecord runtimeDir =
     target_dir args runtimeDir @ [contentId args @ extension (get_field contentRecord ''mimeTypeId'')]"

text \<open>
  The records in the body of an answer, whatever its status: findProductById reads the body
  without looking at the status.
\<close>

definition body_docs :: "'s backend \<Rightarrow> http_request \<Rightarrow> 's \<Rightarrow> (doc list \<times> 's) option" where
  "body_docs be rq s =
     (case be rq s of
        (Rejected m, s') \<Rightarrow> None
      | (Resolved r, s') \<Rightarrow> (case json r of Inl m \<Rightarrow> None | Inr d \<Rightarrow> Some (docs_or_empty d, s')))"

text \<open>An answer with status 500 whose body is a JSON object without \<^verbatim>\<open>docs\<close>.\<close>

definition failed_json_response :: http_response where
  "failed_json_response =
     \<lparr>status = 500, statusText = ''Internal Server Error'',
      json = Inr \<lparr>docs = None, members = [(''error'', JStr ''Internal Server Error'')]\<rparr>,
      body_text = Inr []\<rparr>"

definition failing_product_script :: "fetch_outcome list" where
  "failing_product_script = [Resolved failed_json_response, Resolved failed_json_response]"

definition product_query :: "serverConfig \<Rightarrow> request_ctx \<Rightarrow> string \<Rightarrow> string \<Rightarrow> http_request" where
  "product_query cfg req key ident =
     (backendUrl cfg, getRequestOptions cfg req ''Product'' [(key, JStr ident)])"

definition order_items_query :: "serverConfig \<Rightarrow> request_ctx \<Rightarrow> string \<Rightarrow> http_request" where
  "order_items_query cfg req orderId = (backendUrl cfg, findOrderItems_options cfg req orderId)"

definition sample_runtime :: runtime where
  "sample_runtime =
     \<lparr>stringify = (\<lambda>indent v. (case v of JArr [] \<Rightarrow> ''[]'' | _ \<Rightarrow> ''{}'')),
      toISOString = (\<lambda>v. Inr ''2024-01-01T00:00:00.000Z'')\<rparr>"


definition sample_env :: env where
  "sample_env =
     \<lparr>config = sample_config, builtins = sample_runtime, files = bare_fs, moduleDir = sample_dir\<rparr>"

definition bare_env :: env where
  "bare_env =
     \<lparr>config = bare_config, builtins = sample_runtime, files = bare_fs, moduleDir = sample_dir\<rparr>"

text \<open>A property of every request an invocation has sent.\<close>

definition all_sent :: "(http_request \<Rightarrow> bool) \<Rightarrow> 's world \<Rightarrow> bool" where
  "all_sent P w = list_all P (sent w)"

text \<open>
  The property holds of every request a handler can build for a configuration and a request
  context: the find requests of the three header styles, the upload and the two raw fetches.
\<close>

definition covers :: "serverConfig \<Rightarrow> request_ctx \<Rightarrow> (http_request \<Rightarrow> bool) \<Rightarrow> bool" where
  "covers cfg req P =
     ((\<forall>entityName inputFields. P (backendUrl cfg, getRequestOptions cfg req entityName inputFields))
      \<and> (\<forall>b. P (backendUrl cfg, conditional_options cfg req b))
      \<and> (\<forall>b. P (backendUrl cfg, ternary_options cfg req b))
      \<and> (\<forall>cfgId file fileName. P (uploadUrl cfg, upload_options cfg req cfgId file fileName))
      \<and> (\<forall>dataResourceId. P (view_binary_request cfg req dataResourceId))
      \<and> (\<forall>cid. P (download_request cfg req cid)))"

text \<open>The find requests with the ternary header: the two builders of the handlers that use it.\<close>

definition covers_find :: "serverConfig \<Rightarrow> request_ctx \<Rightarrow> (http_request \<Rightarrow> bool) \<Rightarrow> bool" where
  "covers_find cfg req P =
     ((\<forall>entityName inputFields. P (backendUrl cfg, getRequestOptions cfg req entityName inputFields))
      \<and> (\<forall>b. P (backendUrl cfg, ternary_options cfg req b)))"

text \<open>
  The first request a handler builds for an invocation, or none when the handler's own
  check of its arguments returns before any request.
\<close>

fun primary_request :: "env \<Rightarrow> request_ctx \<Rightarrow> invocation \<Rightarrow> http_request option" where
  "primary_request e req (GetContentRemote cid) = Some (content_query (config e) req cid)"
| "primary_request e req (GetContentDownload args) = Some (content_query (config e) req (contentId args))"
| "primary_request e req (GetContentPersist args) = Some (content_query (config e) req (contentId args))"
| "primary_request e req (GetLogById logId) =
     Some (backendUrl (config e), getLogById_options (config e) req logId)"
| "primary_request e req (GetLogConfig cfgId) =
     Some (backendUrl (config e), getLogConfig_options (config e) req cfgId)"
| "primary_request e req (RetryFailedRecord logId) =
     Some (backendUrl (config e), retryFailedRecord_options (config e) req logId)"
| "primary_request e req (FindDataManagerLogs args) =
     Some (backendUrl (config e), findDataManagerLogs_options (config e) req args)"
| "primary_request e req (FindPickProfileGroups args) =
     Some (backendUrl (config e), findPickProfileGroups_options (config e) req args)"
| "primary_request e req (ListRecentErrors limit cfgId) =
     Some (backendUrl (config e), listRecentErrors_options (config e) req limit cfgId)"
| "primary_request e req (FindOrderItems orderId) =
     (if orderId = [] then None else Some (order_items_query (config e) req orderId))"
| "primary_request e req (FindOrderHeader orderId externalId) =
     (if findOrderHeader_fields orderId externalId = [] then None
      else Some (backendUrl (config e),
                 ternary_options (config e) req
                   (find_body ''OrderHeader'' (findOrderHeader_fields orderId externalId) 1)))"
| "primary_request e req (FindProductById ident) = Some (product_query (config e) req ''productId'' ident)"
| "primary_request e req (UploadFileToConfig cfgId file fileName) =
     Some (uploadUrl (config e), upload_options (config e) req cfgId file fileName)"
| "primary_request e req (FindOrderTasksBySource orderId t) =
     Some (backendUrl (config e), tasksBySource_options (config e) req orderId t)"
| "primary_request e req (FindOrderTasksByLink orderId t) =
     Some (backendUrl (config e), link_options (config e) req orderId)"
| "primary_request e req (GetImportSapiOrderConfig a) =
     Some (backendUrl (config e),
           getRequestOptions (config e) req ''DataManagerConfig''
             [(''dataManagerConfigId'', JStr (sapi_configId a))])"

text \<open>The handlers that add the \<^verbatim>\<open>Authorization\<close> header with an \<^verbatim>\<open>if\<close>.\<close>

fun adds_header_conditionally :: "invocation \<Rightarrow> bool" where
  "adds_header_conditionally (GetLogById logId) = True"
| "adds_header_conditionally (GetLogConfig cfgId) = True"
| "adds_header_conditionally (RetryFailedRecord logId) = True"
| "adds_header_conditionally (FindDataManagerLogs args) = True"
| "adds_header_conditionally (FindPickProfileGroups args) = True"
| "adds_header_conditionally (ListRecentErrors limit cfgId) = True"
| "adds_header_conditionally (UploadFileToConfig cfgId file fileName) = True"
| "adds_header_conditionally call = False"

text \<open>
  The DownloadCsvFile request of an invocation: the two later getContent versions build one,
  for the content id of the call.
\<close>

fun download_of :: "env \<Rightarrow> request_ctx \<Rightarrow> invocation \<Rightarrow> http_request list" where
  "download_of e req (GetContentDownload args) = [download_request (config e) req (contentId args)]"
| "download_of e req (GetContentPersist args) = [download_request (config e) req (contentId args)]"
| "download_of e req call = []"





section \<open>Facts about the world and the shared steps\<close>

lemma get_field_Nil [simp]: "get_field [] k = JUndefined"
  by (simp add: get_field_def)

lemma get_field_Cons [simp]: "get_field ((k, v) # kvs) k' = (if k = k' then v else get_field kvs k')"
  by (simp add: get_field_def)

lemma fetch_find_reply:
  assumes "find_reply be (u, opts) (backend_state w) = Some (ds, s')"
  shows "\<exists>r d. fetch be u opts w = (Resolved r, w\<lparr>backend_state := s', sent := sent w @ [(u, opts)]\<rparr>)
           \<and> ok r \<and> json r = Inr d \<and> docs_or_empty d = ds"
  using assms
  by (auto simp: find_reply_def fetch_def split: prod.splits fetch_outcome.splits if_splits sum.splits)

lemma lookup_content_empty:
  assumes "find_reply be (content_query cfg req cid) (backend_state w) = Some ([], s')"
  shows "lookup_content cfg req be cid w =
           (Return (error_result [text_item (JStr (''Content not found: '' @ cid))]),
            w\<lparr>backend_state := s', sent := sent w @ [content_query cfg req cid]\<rparr>)"
proof -
  from fetch_find_reply[OF assms[unfolded content_query_def]]
  obtain r d where f: "fetch be (backendUrl cfg) (getRequestOptions cfg req ''Content'' [(''contentId'', JStr cid)]) w
      = (Resolved r, w\<lparr>backend_state := s', sent := sent w @ [content_query cfg req cid]\<rparr>)"
    and r: "ok r" "json r = Inr d" "docs_or_empty d = []"
    by (auto simp: content_query_def)
  show ?thesis
    using r by (simp add: lookup_content_def f docs_or_empty_def split: option.splits list.splits)
qed

lemma lookup_data_resource_found:
  assumes "truthy (get_field contentRecord ''dataResourceId'')"
    and "find_reply be (data_resource_query cfg req (get_field contentRecord ''dataResourceId''))
           (backend_state w) = Some (dr # ds, s2)"
  shows "lookup_data_resource cfg req be cid contentRecord w =
           (Cont (contentRecord, get_field contentRecord ''dataResourceId'', dr),
            w\<lparr>backend_state := s2,
              sent := sent w @ [data_resource_query cfg req (get_field contentRecord ''dataResourceId'')]\<rparr>)"
proof -
  from fetch_find_reply[OF assms(2)[unfolded data_resource_query_def]]
  obtain r d where f: "fetch be (backendUrl cfg)
        (getRequestOptions cfg req ''DataResource'' [(''dataResourceId'', get_field contentRecord ''dataResourceId'')]) w
      = (Resolved r, w\<lparr>backend_state := s2,
           sent := sent w @ [data_resource_query cfg req (get_field contentRecord ''dataResourceId'')]\<rparr>)"
    and r: "ok r" "json r = Inr d" "docs_or_empty d = dr # ds"
    by (auto simp: data_resource_query_def)
  show ?thesis
    using r assms(1)
    by (simp add: lookup_data_resource_def Let_def f docs_or_empty_def split: option.splits list.splits)
qed

lemma lookup_content_found:
  assumes "find_reply be (content_query cfg req cid) (backend_state w) = Some (contentRecord # cs, s1)"
    and "truthy (get_field contentRecord ''dataResourceId'')"
    and "find_reply be (data_resource_query cfg req (get_field contentRecord ''dataResourceId'')) s1
           = Some (dr # ds, s2)"
  shows "lookup_content cfg req be cid w =
           (Cont (contentRecord, get_field contentRecord ''dataResourceId'', dr),
            w\<lparr>backend_state := s2,
              sent := sent w @ [content_query cfg req cid,
                                data_resource_query cfg req (get_field contentRecord ''dataResourceId'')]\<rparr>)"
proof -
  from fetch_find_reply[OF assms(1)[unfolded content_query_def]]
  obtain r d where f: "fetch be (backendUrl cfg) (getRequestOptions cfg req ''Content'' [(''contentId'', JStr cid)]) w
      = (Resolved r, w\<lparr>backend_state := s1, sent := sent w @ [content_query cfg req cid]\<rparr>)"
    and r: "ok r" "json r = Inr d" "docs_or_empty d = contentRecord # cs"
    by (auto simp: content_query_def)
  have "lookup_content cfg req be cid w =
      lookup_data_resource cfg req be cid contentRecord
        (w\<lparr>backend_state := s1, sent := sent w @ [content_query cfg req cid]\<rparr>)"
    using r by (simp add: lookup_content_def f docs_or_empty_def split: option.splits list.splits)
  also have "\<dots> = (Cont (contentRecord, get_field contentRecord ''dataResourceId'', dr),
            w\<lparr>backend_state := s2,
              sent := sent w @ [content_query cfg req cid,
                                data_resource_query cfg req (get_field contentRecord ''dataResourceId'')]\<rparr>)"
    using lookup_data_resource_found[OF assms(2), of be cfg req
        "w\<lparr>backend_state := s1, sent := sent w @ [content_query cfg req cid]\<rparr>" dr ds s2 cid] assms(3)
    by simp
  finally show ?thesis .
qed

lemma fetch_text_row:
  assumes "find_reply be (text_query cfg req drid) (backend_state w) = Some (row # rs, s3)"
  shows "fetch_text cfg req be drid w =
           (Cont (get_field row ''textData''),
            w\<lparr>backend_state := s3, sent := sent w @ [text_query cfg req drid]\<rparr>)"
proof -
  from fetch_find_reply[OF assms[unfolded text_query_def]]
  obtain r d where f: "fetch be (backendUrl cfg)
        (getRequestOptions cfg req ''ElectronicText'' [(''dataResourceId'', drid)]) w
      = (Resolved r, w\<lparr>backend_state := s3, sent := sent w @ [text_query cfg req drid]\<rparr>)"
    and r: "ok r" "json r = Inr d" "docs_or_empty d = row # rs"
    by (auto simp: text_query_def)
  show ?thesis
    using r by (simp add: fetch_text_def f docs_or_empty_def split: option.splits list.splits)
qed

lemma retrieve_text_row:
  assumes "is_text_type (get_field dr ''dataResourceTypeId'')"
    and "find_reply be (text_query cfg req drid) (backend_state w) = Some (row # rs, s3)"
    and "truthy (get_field row ''textData'')"
  shows "retrieve_text cfg req be cid drid dr w =
           (Cont (get_field row ''textData''),
            w\<lparr>backend_state := s3, sent := sent w @ [text_query cfg req drid]\<rparr>)"
  using assms(1,3)
  by (simp add: retrieve_text_def Let_def fetch_text_row[OF assms(2)] download_fallback_def)


lemma write_content_sent:
  "write_content fs td fn t w = (st, w') \<Longrightarrow> sent w' = sent w \<and> backend_state w' = backend_state w"
  by (auto simp: write_content_def Let_def console_log_def split: option.splits)

lemma persist_sent:
  "persist fs dir args cr t w = (st, w') \<Longrightarrow> sent w' = sent w \<and> backend_state w' = backend_state w"
  unfolding persist_def Let_def
  by (auto simp: console_error_def split: if_splits option.splits dest!: write_content_sent)

lemma persist_no_return: "persist fs dir args cr t w \<noteq> (Return r, w')"
  unfolding persist_def Let_def write_content_def
  by (auto split: if_splits option.splits)

lemma download_typed:
  assumes "find_reply be (content_query cfg req (contentId args)) s0 = Some (contentRecord # cs, s1)"
    and "truthy (get_field contentRecord ''dataResourceId'')"
    and "find_reply be (data_resource_query cfg req (get_field contentRecord ''dataResourceId'')) s1
           = Some (dr # ds, s2)"
    and "is_text_type (get_field dr ''dataResourceTypeId'')"
    and "find_reply be (text_query cfg req (get_field contentRecord ''dataResourceId'')) s2
           = Some (row # rs, s3)"
    and "get_field row ''textData'' = JStr t" and "t \<noteq> []"
  shows "getContent_download cfg req be args (init_world s0) =
           (success_result [text_item (JStr t)]
              (JObj (content_payload (contentId args) contentRecord (JStr t))),
            \<lparr>backend_state = s3,
             sent = [content_query cfg req (contentId args),
                     data_resource_query cfg req (get_field contentRecord ''dataResourceId''),
                     text_query cfg req (get_field contentRecord ''dataResourceId'')],
             console = [], disk = []\<rparr>)"
proof -
  have l: "lookup_content cfg req be (contentId args) (init_world s0) =
      (Cont (contentRecord, get_field contentRecord ''dataResourceId'', dr),
       \<lparr>backend_state = s2,
        sent = [content_query cfg req (contentId args),
                data_resource_query cfg req (get_field contentRecord ''dataResourceId'')],
        console = [], disk = []\<rparr>)"
    using lookup_content_found[of be cfg req "contentId args" "init_world s0", OF _ assms(2,3)] assms(1)
    by (simp add: init_world_def)
  have t: "truthy (get_field row ''textData'')" using assms(6,7) by simp
  show ?thesis
    using retrieve_text_row[OF assms(4) _ t, of be cfg req "get_field contentRecord ''dataResourceId''"
        "\<lparr>backend_state = s2,
        sent = [content_query cfg req (contentId args),
                data_resource_query cfg req (get_field contentRecord ''dataResourceId'')],
        console = [], disk = []\<rparr>" rs s3 "contentId args"] assms(2,5,6,7)
    by (simp add: getContent_download_def getContent_download_try_def l catch_getContent_def
        content_payload_def or_else_def)
qed

lemma persist_typed:
  assumes "find_reply be (content_query cfg req (contentId args)) s0 = Some (contentRecord # cs, s1)"
    and "truthy (get_field contentRecord ''dataResourceId'')"
    and "find_reply be (data_resource_query cfg req (get_field contentRecord ''dataResourceId'')) s1
           = Some (dr # ds, s2)"
    and "is_text_type (get_field dr ''dataResourceTypeId'')"
    and "find_reply be (text_query cfg req (get_field contentRecord ''dataResourceId'')) s2
           = Some (row # rs, s3)"
    and "get_field row ''textData'' = JStr t" and "t \<noteq> []"
  shows "sent (snd (getContent_persist cfg fs dir req be args (init_world s0))) =
            [content_query cfg req (contentId args),
             data_resource_query cfg req (get_field contentRecord ''dataResourceId''),
             text_query cfg req (get_field contentRecord ''dataResourceId'')]"
    and "isError (fst (getContent_persist cfg fs dir req be args (init_world s0))) = None
         \<Longrightarrow> payload_field (fst (getContent_persist cfg fs dir req be args (init_world s0))) ''textData''
               = Some (JStr t)"
    and "\<not> present (configId args) \<Longrightarrow>
         isError (fst (getContent_persist cfg fs dir req be args (init_world s0))) = None"
proof -
  let ?w2 = "\<lparr>backend_state = s2,
        sent = [content_query cfg req (contentId args),
                data_resource_query cfg req (get_field contentRecord ''dataResourceId'')],
        console = [], disk = []\<rparr>"
  let ?w3 = "\<lparr>backend_state = s3,
        sent = [content_query cfg req (contentId args),
                data_resource_query cfg req (get_field contentRecord ''dataResourceId''),
                text_query cfg req (get_field contentRecord ''dataResourceId'')],
        console = [], disk = []\<rparr>"
  have l: "lookup_content cfg req be (contentId args) (init_world s0) =
      (Cont (contentRecord, get_field contentRecord ''dataResourceId'', dr), ?w2)"
    using lookup_content_found[of be cfg req "contentId args" "init_world s0", OF _ assms(2,3)] assms(1)
    by (simp add: init_world_def)
  have t: "truthy (get_field row ''textData'')" using assms(6,7) by simp
  have r: "retrieve_text cfg req be (contentId args) (get_field contentRecord ''dataResourceId'') dr ?w2
      = (Cont (JStr t), ?w3)"
    using retrieve_text_row[OF assms(4) _ t, of be cfg req "get_field contentRecord ''dataResourceId''"
        ?w2 rs s3 "contentId args"] assms(5,6)
    by simp
  obtain st w5 where p: "persist fs dir args contentRecord (JStr t) ?w3 = (st, w5)"
    by (cases "persist fs dir args contentRecord (JStr t) ?w3")
  from persist_sent[OF p] have s5: "sent w5 = sent ?w3" by simp
  show "sent (snd (getContent_persist cfg fs dir req be args (init_world s0))) =
            [content_query cfg req (contentId args),
             data_resource_query cfg req (get_field contentRecord ''dataResourceId''),
             text_query cfg req (get_field contentRecord ''dataResourceId'')]"
    using s5
    by (cases st) (simp_all add: getContent_persist_def getContent_persist_try_def l r p
        catch_getContent_def console_error_def)
  show "isError (fst (getContent_persist cfg fs dir req be args (init_world s0))) = None
         \<Longrightarrow> payload_field (fst (getContent_persist cfg fs dir req be args (init_world s0))) ''textData''
               = Some (JStr t)"
    using assms(7) p persist_no_return[of fs dir args contentRecord "JStr t" ?w3]
    by (cases st) (simp_all add: getContent_persist_def getContent_persist_try_def l r
        catch_getContent_def payload_field_def success_result_def error_result_def
        or_else_def)
  show "\<not> present (configId args) \<Longrightarrow>
         isError (fst (getContent_persist cfg fs dir req be args (init_world s0))) = None"
    by (simp add: getContent_persist_def getContent_persist_try_def l r persist_def
        catch_getContent_def success_result_def)
qed

lemma remote_fetch_result:
  assumes "be (view_binary_request cfg req drid) (backend_state w) = (out, s4)"
  shows "\<exists>w'. remote_fetch cfg req be drid textData w =
            ((case remote_text out of
                Some t' \<Rightarrow> (JStr t', JStr t')
              | None \<Rightarrow> (textData, or_else textData JUndefined)), w')
           \<and> sent w' = sent w @ [view_binary_request cfg req drid] \<and> backend_state w' = s4"
  using assms
  by (auto simp: remote_fetch_def Let_def fetch_def console_error_def remote_text_def
      view_binary_request_def split: fetch_outcome.splits sum.splits)

lemma remote_typed:
  assumes "find_reply be (content_query cfg req cid) s0 = Some (contentRecord # cs, s1)"
    and "truthy (get_field contentRecord ''dataResourceId'')"
    and "find_reply be (data_resource_query cfg req (get_field contentRecord ''dataResourceId'')) s1
           = Some (dr # ds, s2)"
    and "is_text_type (get_field dr ''dataResourceTypeId'')"
    and "find_reply be (text_query cfg req (get_field contentRecord ''dataResourceId'')) s2
           = Some (row # rs, s3)"
    and "get_field row ''textData'' = JStr t" and "t \<noteq> []"
    and "be (view_binary_request cfg req (get_field contentRecord ''dataResourceId'')) s3 = (out, s4)"
  shows "sent (snd (getContent_remote cfg req be cid (init_world s0))) =
            [content_query cfg req cid,
             data_resource_query cfg req (get_field contentRecord ''dataResourceId''),
             text_query cfg req (get_field contentRecord ''dataResourceId''),
             view_binary_request cfg req (get_field contentRecord ''dataResourceId'')]"
    and "payload_field (fst (getContent_remote cfg req be cid (init_world s0))) ''textData'' =
           (case remote_text out of
              None \<Rightarrow> Some (JStr t)
            | Some t' \<Rightarrow> if t' = [] then None else Some (JStr t'))"
proof -
  let ?w2 = "\<lparr>backend_state = s2,
        sent = [content_query cfg req cid,
                data_resource_query cfg req (get_field contentRecord ''dataResourceId'')],
        console = [], disk = []\<rparr>"
  let ?w3 = "\<lparr>backend_state = s3,
        sent = [content_query cfg req cid,
                data_resource_query cfg req (get_field contentRecord ''dataResourceId''),
                text_query cfg req (get_field contentRecord ''dataResourceId'')],
        console = [], disk = []\<rparr>"
  have l: "lookup_content cfg req be cid (init_world s0) =
      (Cont (contentRecord, get_field contentRecord ''dataResourceId'', dr), ?w2)"
    using lookup_content_found[of be cfg req cid "init_world s0", OF _ assms(2,3)] assms(1)
    by (simp add: init_world_def)
  have f: "fetch_text cfg req be (get_field contentRecord ''dataResourceId'') ?w2 = (Cont (JStr t), ?w3)"
    using fetch_text_row[of be cfg req "get_field contentRecord ''dataResourceId''" ?w2 row rs s3]
      assms(5,6) by simp
  from remote_fetch_result[of be cfg req "get_field contentRecord ''dataResourceId''" ?w3 out s4 "JStr t"]
    assms(8)
  obtain w4 where r: "remote_fetch cfg req be (get_field contentRecord ''dataResourceId'') (JStr t) ?w3 =
            ((case remote_text out of
                Some t' \<Rightarrow> (JStr t', JStr t')
              | None \<Rightarrow> (JStr t, or_else (JStr t) JUndefined)), w4)"
    and s: "sent w4 = sent ?w3 @ [view_binary_request cfg req (get_field contentRecord ''dataResourceId'')]"
    by auto
  show "sent (snd (getContent_remote cfg req be cid (init_world s0))) =
            [content_query cfg req cid,
             data_resource_query cfg req (get_field contentRecord ''dataResourceId''),
             text_query cfg req (get_field contentRecord ''dataResourceId''),
             view_binary_request cfg req (get_field contentRecord ''dataResourceId'')]"
    using assms(4,7) s
    by (cases "remote_text out")
       (simp_all add: getContent_remote_def getContent_remote_try_def l f r Let_def
          catch_getContent_def or_else_def)
  show "payload_field (fst (getContent_remote cfg req be cid (init_world s0))) ''textData'' =
           (case remote_text out of
              None \<Rightarrow> Some (JStr t)
            | Some t' \<Rightarrow> if t' = [] then None else Some (JStr t'))"
    using assms(4,7)
    by (cases "remote_text out")
       (simp_all add: getContent_remote_def getContent_remote_try_def l f r Let_def
          catch_getContent_def or_else_def payload_field_def success_result_def error_result_def)
qed

lemma file_type_not_text: "is_file_type t \<Longrightarrow> \<not> is_text_type t"
  by (auto simp: is_file_type_def is_text_type_def)

lemma download_fallback_result:
  assumes "be (download_request cfg req cid) (backend_state w) = (out, s3)"
    and "\<not> truthy textData"
  shows "\<exists>w'. download_fallback cfg req be cid textData w =
            ((case remote_text out of Some t \<Rightarrow> JStr t | None \<Rightarrow> textData), w')
           \<and> sent w' = sent w @ [download_request cfg req cid] \<and> backend_state w' = s3"
  using assms
  by (auto simp: download_fallback_def Let_def fetch_def console_error_def remote_text_def
      download_request_def split: fetch_outcome.splits sum.splits)

lemma retrieve_text_file:
  assumes "is_file_type (get_field dr ''dataResourceTypeId'')"
    and "be (download_request cfg req cid) (backend_state w) = (out, s3)"
  shows "\<exists>w'. retrieve_text cfg req be cid drid dr w =
            ((case remote_text out of
                Some t \<Rightarrow> if t = [] then Return (no_text_error cid (get_field dr ''dataResourceTypeId''))
                          else Cont (JStr t)
              | None \<Rightarrow> Return (no_text_error cid (get_field dr ''dataResourceTypeId''))), w')
           \<and> sent w' = sent w @ [download_request cfg req cid] \<and> backend_state w' = s3"
proof -
  from download_fallback_result[of be cfg req cid w out s3 "JStr []"] assms(2)
  obtain w' where d: "download_fallback cfg req be cid (JStr []) w =
            ((case remote_text out of Some t \<Rightarrow> JStr t | None \<Rightarrow> JStr []), w')"
    and s: "sent w' = sent w @ [download_request cfg req cid]" "backend_state w' = s3"
    by auto
  show ?thesis
    using file_type_not_text[OF assms(1)] s
    by (cases "remote_text out") (simp_all add: retrieve_text_def Let_def d)
qed


lemma download_file:
  assumes "find_reply be (content_query cfg req (contentId args)) s0 = Some (contentRecord # cs, s1)"
    and "truthy (get_field contentRecord ''dataResourceId'')"
    and "find_reply be (data_resource_query cfg req (get_field contentRecord ''dataResourceId'')) s1
           = Some (dr # ds, s2)"
    and "is_file_type (get_field dr ''dataResourceTypeId'')"
    and "be (download_request cfg req (contentId args)) s2 = (out, s3)"
  shows "sent (snd (getContent_download cfg req be args (init_world s0))) =
            [content_query cfg req (contentId args),
             data_resource_query cfg req (get_field contentRecord ''dataResourceId''),
             download_request cfg req (contentId args)]"
    and "fst (getContent_download cfg req be args (init_world s0)) =
           (case remote_text out of
              Some t \<Rightarrow>
                if t = [] then no_text_error (contentId args) (get_field dr ''dataResourceTypeId'')
                else success_result [text_item (JStr t)]
                       (JObj (content_payload (contentId args) contentRecord (JStr t)))
            | None \<Rightarrow> no_text_error (contentId args) (get_field dr ''dataResourceTypeId''))"
    and "sent (snd (getContent_persist cfg fs dir req be args (init_world s0))) =
            [content_query cfg req (contentId args),
             data_resource_query cfg req (get_field contentRecord ''dataResourceId''),
             download_request cfg req (contentId args)]"
    and "remote_text out = None \<or> remote_text out = Some [] \<Longrightarrow>
         fst (getContent_persist cfg fs dir req be args (init_world s0)) =
           no_text_error (contentId args) (get_field dr ''dataResourceTypeId'')"
proof -
  let ?w2 = "\<lparr>backend_state = s2,
        sent = [content_query cfg req (contentId args),
                data_resource_query cfg req (get_field contentRecord ''dataResourceId'')],
        console = [], disk = []\<rparr>"
  have l: "lookup_content cfg req be (contentId args) (init_world s0) =
      (Cont (contentRecord, get_field contentRecord ''dataResourceId'', dr), ?w2)"
    using lookup_content_found[of be cfg req "contentId args" "init_world s0", OF _ assms(2,3)] assms(1)
    by (simp add: init_world_def)
  from retrieve_text_file[OF assms(4), of be cfg req "contentId args" ?w2 out s3
      "get_field contentRecord ''dataResourceId''"] assms(5)
  obtain w3 where r: "retrieve_text cfg req be (contentId args) (get_field contentRecord ''dataResourceId'')
         dr ?w2 =
            ((case remote_text out of
                Some t \<Rightarrow> if t = [] then Return (no_text_error (contentId args) (get_field dr ''dataResourceTypeId''))
                          else Cont (JStr t)
              | None \<Rightarrow> Return (no_text_error (contentId args) (get_field dr ''dataResourceTypeId''))), w3)"
    and s: "sent w3 = sent ?w2 @ [download_request cfg req (contentId args)]"
    by auto
  show "sent (snd (getContent_download cfg req be args (init_world s0))) =
            [content_query cfg req (contentId args),
             data_resource_query cfg req (get_field contentRecord ''dataResourceId''),
             download_request cfg req (contentId args)]"
    using s
    by (cases "remote_text out")
       (simp_all add: getContent_download_def getContent_download_try_def l r catch_getContent_def)
  show "fst (getContent_download cfg req be args (init_world s0)) =
           (case remote_text out of
              Some t \<Rightarrow>
                if t = [] then no_text_error (contentId args) (get_field dr ''dataResourceTypeId'')
                else success_result [text_item (JStr t)]
                       (JObj (content_payload (contentId args) contentRecord (JStr t)))
            | None \<Rightarrow> no_text_error (contentId args) (get_field dr ''dataResourceTypeId''))"
    using assms(2)
    by (cases "remote_text out")
       (simp_all add: getContent_download_def getContent_download_try_def l r catch_getContent_def
          content_payload_def or_else_def)
  show "remote_text out = None \<or> remote_text out = Some [] \<Longrightarrow>
         fst (getContent_persist cfg fs dir req be args (init_world s0)) =
           no_text_error (contentId args) (get_field dr ''dataResourceTypeId'')"
    by (auto simp: getContent_persist_def getContent_persist_try_def l r catch_getContent_def)
  show "sent (snd (getContent_persist cfg fs dir req be args (init_world s0))) =
            [content_query cfg req (contentId args),
             data_resource_query cfg req (get_field contentRecord ''dataResourceId''),
             download_request cfg req (contentId args)]"
  proof (cases "remote_text out")
    case None
    then show ?thesis using s
      by (simp add: getContent_persist_def getContent_persist_try_def l r catch_getContent_def)
  next
    case (Some t)
    show ?thesis
    proof (cases "t = []")
      case True
      then show ?thesis using s Some
        by (simp add: getContent_persist_def getContent_persist_try_def l r catch_getContent_def)
    next
      case False
      obtain st w5 where p: "persist fs dir args contentRecord (JStr t) w3 = (st, w5)"
        by (cases "persist fs dir args contentRecord (JStr t) w3")
      from persist_sent[OF p] have "sent w5 = sent w3" by simp
      then show ?thesis using s Some False
        by (cases st)
           (simp_all add: getContent_persist_def getContent_persist_try_def l r p
              catch_getContent_def console_error_def)
    qed
  qed
qed

lemma persist_file_text:
  assumes "find_reply be (content_query cfg req (contentId args)) s0 = Some (contentRecord # cs, s1)"
    and "truthy (get_field contentRecord ''dataResourceId'')"
    and "find_reply be (data_resource_query cfg req (get_field contentRecord ''dataResourceId'')) s1
           = Some (dr # ds, s2)"
    and "is_file_type (get_field dr ''dataResourceTypeId'')"
    and "be (download_request cfg req (contentId args)) s2 = (out, s3)"
    and "remote_text out = Some t" and "t \<noteq> []"
  shows "fst (getContent_persist cfg fs dir req be args (init_world s0)) \<noteq>
           no_text_error (contentId args) (get_field dr ''dataResourceTypeId'')"
proof -
  let ?w2 = "\<lparr>backend_state = s2,
        sent = [content_query cfg req (contentId args),
                data_resource_query cfg req (get_field contentRecord ''dataResourceId'')],
        console = [], disk = []\<rparr>"
  have l: "lookup_content cfg req be (contentId args) (init_world s0) =
      (Cont (contentRecord, get_field contentRecord ''dataResourceId'', dr), ?w2)"
    using lookup_content_found[of be cfg req "contentId args" "init_world s0", OF _ assms(2,3)] assms(1)
    by (simp add: init_world_def)
  from retrieve_text_file[OF assms(4), of be cfg req "contentId args" ?w2 out s3
      "get_field contentRecord ''dataResourceId''"] assms(5,6,7)
  obtain w3 where r: "retrieve_text cfg req be (contentId args) (get_field contentRecord ''dataResourceId'')
         dr ?w2 = (Cont (JStr t), w3)"
    by auto
  obtain st w5 where p: "persist fs dir args contentRecord (JStr t) w3 = (st, w5)"
    by (cases "persist fs dir args contentRecord (JStr t) w3")
  show ?thesis
  proof (cases st)
    case (Throw m)
    then show ?thesis
      by (simp add: getContent_persist_def getContent_persist_try_def l r p catch_getContent_def
          no_text_error_def error_result_def text_item_def)
  next
    case (Return res)
    then show ?thesis using p persist_no_return[of fs dir args contentRecord "JStr t" w3 res w5]
      by simp
  next
    case (Cont savedPath)
    then show ?thesis
      by (simp add: getContent_persist_def getContent_persist_try_def l r p catch_getContent_def
          no_text_error_def error_result_def success_result_def)
  qed
qed

lemma remote_file:
  assumes "find_reply be (content_query cfg req cid) s0 = Some (contentRecord # cs, s1)"
    and "truthy (get_field contentRecord ''dataResourceId'')"
    and "find_reply be (data_resource_query cfg req (get_field contentRecord ''dataResourceId'')) s1
           = Some (dr # ds, s2)"
    and "is_file_type (get_field dr ''dataResourceTypeId'')"
  shows "getContent_remote cfg req be cid (init_world s0) =
           (success_result
              [text_item (JStr (remote_file_report cid contentRecord (get_field dr ''dataResourceTypeId'')
                 (or_else (get_field dr ''objectInfo'') (JStr ''Unknown Path''))))]
              (JObj (content_payload cid contentRecord
                 (JStr (''[Remote File: ''
                    @ tostr (or_else (get_field dr ''objectInfo'') (JStr ''Unknown Path'')) @ '']'')))),
            \<lparr>backend_state = s2,
             sent = [content_query cfg req cid,
                     data_resource_query cfg req (get_field contentRecord ''dataResourceId'')],
             console = [], disk = []\<rparr>)"
proof -
  have l: "lookup_content cfg req be cid (init_world s0) =
      (Cont (contentRecord, get_field contentRecord ''dataResourceId'', dr),
       \<lparr>backend_state = s2,
        sent = [content_query cfg req cid,
                data_resource_query cfg req (get_field contentRecord ''dataResourceId'')],
        console = [], disk = []\<rparr>)"
    using lookup_content_found[of be cfg req cid "init_world s0", OF _ assms(2,3)] assms(1)
    by (simp add: init_world_def)
  show ?thesis
    using assms(4) file_type_not_text[OF assms(4)]
    by (simp add: getContent_remote_def getContent_remote_try_def l Let_def catch_getContent_def
        content_payload_def)
qed

lemma lookup_data_resource_Cont:
  "lookup_data_resource cfg req be cid cr w = (Cont (cr', drid, dr), w2)
   \<Longrightarrow> cr' = cr \<and> drid = get_field cr ''dataResourceId'' \<and> truthy drid"
  unfolding lookup_data_resource_def Let_def
  by (auto split: if_splits prod.splits fetch_outcome.splits sum.splits option.splits list.splits)

lemma lookup_content_Cont:
  "lookup_content cfg req be cid w = (Cont (cr, drid, dr), w2)
   \<Longrightarrow> drid = get_field cr ''dataResourceId'' \<and> truthy drid"
  unfolding lookup_content_def
  by (auto split: if_splits prod.splits fetch_outcome.splits sum.splits option.splits list.splits
      dest: lookup_data_resource_Cont)

lemma download_fallback_truthy:
  "download_fallback cfg req be cid textData w = (v, w') \<Longrightarrow> truthy textData \<Longrightarrow> truthy v"
  by (auto simp: download_fallback_def)

lemma retrieve_text_Cont:
  "retrieve_text cfg req be cid drid dr w = (Cont v, w') \<Longrightarrow> truthy v"
  unfolding retrieve_text_def Let_def
  by (auto split: if_splits prod.splits stage.splits)

lemma persist_skipped:
  "\<not> present (configId args) \<Longrightarrow> persist fs dir args cr v w = (Cont None, w)"
  by (simp add: persist_def)

lemma persist_anchor_missing:
  "present (configId args) \<Longrightarrow> findRuntimeDir fs dir = None \<Longrightarrow>
   persist fs dir args cr v w = (Cont None, console_error [anchor_missing_message] w)"
  by (simp add: persist_def anchor_missing_message_def)

lemma persist_saved:
  assumes "present (configId args)" and "findRuntimeDir fs dir = Some rd"
    and "existsSync fs (target_dir args rd) \<or> mkdir fs (target_dir args rd) = None"
    and "writeFile fs (saved_path args cr rd) v = None"
  shows "\<exists>w'. persist fs dir args cr v w = (Cont (Some (saved_path args cr rd)), w')"
  using assms
  by (auto simp: persist_def Let_def write_content_def target_dir_def saved_path_def)

lemma persist_try_result:
  assumes "lookup_content cfg req be (contentId args) w0 = (Cont (cr, drid, dr), w2)"
    and "retrieve_text cfg req be (contentId args) drid dr w2 = (Cont (JStr t), w4)"
    and "persist fs dir args cr (JStr t) w4 = (Cont savedPath, w5)"
  shows "getContent_persist cfg fs dir req be args w0 =
           (success_result [text_item (JStr (retrieved_message savedPath t))]
              (persist_payload (contentId args) cr t savedPath), w5)"
proof -
  from lookup_content_Cont[OF assms(1)]
  have d: "get_field cr ''dataResourceId'' = drid" "truthy drid" by auto
  from retrieve_text_Cont[OF assms(2)] have t: "t \<noteq> []" by simp
  show ?thesis
    using d t
    by (simp add: getContent_persist_def getContent_persist_try_def assms catch_getContent_def
        persist_payload_def content_payload_def or_else_def)
qed

text \<open>Unfolding a run of the content chain against a scripted backend.\<close>

lemmas chain_eval =
  getContent_remote_def getContent_remote_try_def getContent_download_def getContent_download_try_def
  getContent_persist_def getContent_persist_try_def catch_getContent_def lookup_content_def
  lookup_data_resource_def fetch_text_def retrieve_text_def download_fallback_def remote_fetch_def
  fetch_def scripted_def init_world_def json_response_def text_response_def ok_def
  console_error_def console_log_def Let_def or_else_def is_text_type_def is_file_type_def
  success_result_def error_result_def no_text_error_def payload_field_def
  content_row_def text_resource_def file_resource_def sample_args_def saving_args_def
  persist_def write_content_def present_def

lemmas query_defs =
  content_query_def data_resource_query_def text_query_def view_binary_request_def
  download_request_def

section \<open>The content chain\<close>

text \<open>
  C3. In each of the three versions of getContent, when the Content lookup answers with
  zero records, the handler returns the error result whose text is
  \<^verbatim>\<open>Content not found: \<close> followed by the content id, and the Content query is the only
  request it has sent: no DataResource query follows.
\<close>

theorem getContent_content_not_found:
  assumes "find_reply be (content_query cfg req (contentId args)) s = Some ([], s')"
  shows "getContent_remote cfg req be (contentId args) (init_world s) =
           (error_result [text_item (JStr (''Content not found: '' @ contentId args))],
            \<lparr>backend_state = s', sent = [content_query cfg req (contentId args)],
             console = [], disk = []\<rparr>)
         \<and> getContent_download cfg req be args (init_world s) =
           (error_result [text_item (JStr (''Content not found: '' @ contentId args))],
            \<lparr>backend_state = s', sent = [content_query cfg req (contentId args)],
             console = [], disk = []\<rparr>)
         \<and> getContent_persist cfg fs dir req be args (init_world s) =
           (error_result [text_item (JStr (''Content not found: '' @ contentId args))],
            \<lparr>backend_state = s', sent = [content_query cfg req (contentId args)],
             console = [], disk = []\<rparr>)"
proof -
  have "find_reply be (content_query cfg req (contentId args)) (backend_state (init_world s)) = Some ([], s')"
    using assms by (simp add: init_world_def)
  from lookup_content_empty[OF this]
  have l: "lookup_content cfg req be (contentId args) (init_world s) =
      (Return (error_result [text_item (JStr (''Content not found: '' @ contentId args))]),
       \<lparr>backend_state = s', sent = [content_query cfg req (contentId args)], console = [], disk = []\<rparr>)"
    by (simp add: init_world_def)
  show ?thesis
    by (simp add: l getContent_remote_def getContent_remote_try_def getContent_download_def
        getContent_download_try_def getContent_persist_def getContent_persist_try_def
        catch_getContent_def)
qed

theorem getContent_content_not_found_witness:
  "find_reply scripted (content_query sample_config sample_request (contentId sample_args))
       [Resolved (json_response [])] = Some ([], [])
   \<and> isError (fst (getContent_remote sample_config sample_request scripted (contentId sample_args)
         (init_world [Resolved (json_response [])]))) = Some True
   \<and> content (fst (getContent_download sample_config sample_request scripted sample_args
         (init_world [Resolved (json_response [])]))) = [text_item (JStr ''Content not found: C1'')]
   \<and> length (sent (snd (getContent_persist sample_config bare_fs sample_dir sample_request scripted sample_args
         (init_world [Resolved (json_response [])])))) = 1"
proof -
  have h: "find_reply scripted (content_query sample_config sample_request (contentId sample_args))
       [Resolved (json_response [])] = Some ([], [])"
    by (simp add: find_reply_def scripted_def json_response_def ok_def docs_or_empty_def)
  show ?thesis
    using h getContent_content_not_found[OF h, of bare_fs sample_dir]
    by (simp add: error_result_def sample_args_def)
qed

text \<open>
  C1, as amended. Take a data resource of a text type whose ElectronicText query answers
  with at least one row, the first with a non-empty string \<open>t\<close> as \<^verbatim>\<open>textData\<close>.
  In the two versions with the guarded download, the three queries are the only requests
  (no raw download is attempted) and \<open>t\<close> is the text returned: the download version
  returns the success result with \<open>t\<close>; the persistence version returns \<open>t\<close> whenever
  it returns a success, and it does when no \<^verbatim>\<open>configId\<close> is given. In
  \<^verbatim>\<open>src/tools/getContent.ts\<close> the ViewBinaryDataResource request is sent in every case;
  \<open>t\<close> is returned when that request yields no body with a success status, and the
  body replaces it otherwise.
\<close>

theorem typed_text_then_fallback:
  assumes "find_reply be (content_query cfg req (contentId args)) s0 = Some (contentRecord # cs, s1)"
    and "truthy (get_field contentRecord ''dataResourceId'')"
    and "find_reply be (data_resource_query cfg req (get_field contentRecord ''dataResourceId'')) s1
           = Some (dr # ds, s2)"
    and "is_text_type (get_field dr ''dataResourceTypeId'')"
    and "find_reply be (text_query cfg req (get_field contentRecord ''dataResourceId'')) s2
           = Some (row # rs, s3)"
    and "get_field row ''textData'' = JStr t" and "t \<noteq> []"
    and "be (view_binary_request cfg req (get_field contentRecord ''dataResourceId'')) s3 = (out, s4)"
  shows "getContent_download cfg req be args (init_world s0) =
           (success_result [text_item (JStr t)]
              (JObj (content_payload (contentId args) contentRecord (JStr t))),
            \<lparr>backend_state = s3,
             sent = [content_query cfg req (contentId args),
                     data_resource_query cfg req (get_field contentRecord ''dataResourceId''),
                     text_query cfg req (get_field contentRecord ''dataResourceId'')],
             console = [], disk = []\<rparr>)
       \<and> sent (snd (getContent_persist cfg fs dir req be args (init_world s0))) =
            [content_query cfg req (contentId args),
             data_resource_query cfg req (get_field contentRecord ''dataResourceId''),
             text_query cfg req (get_field contentRecord ''dataResourceId'')]
       \<and> (isError (fst (getContent_persist cfg fs dir req be args (init_world s0))) = None \<longrightarrow>
            payload_field (fst (getContent_persist cfg fs dir req be args (init_world s0))) ''textData''
              = Some (JStr t))
       \<and> (\<not> present (configId args) \<longrightarrow>
            isError (fst (getContent_persist cfg fs dir req be args (init_world s0))) = None)
       \<and> sent (snd (getContent_remote cfg req be (contentId args) (init_world s0))) =
            [content_query cfg req (contentId args),
             data_resource_query cfg req (get_field contentRecord ''dataResourceId''),
             text_query cfg req (get_field contentRecord ''dataResourceId''),
             view_binary_request cfg req (get_field contentRecord ''dataResourceId'')]
       \<and> payload_field (fst (getContent_remote cfg req be (contentId args) (init_world s0))) ''textData'' =
           (case remote_text out of
              None \<Rightarrow> Some (JStr t)
            | Some t' \<Rightarrow> if t' = [] then None else Some (JStr t'))"
  using download_typed[OF assms(1-7)] persist_typed[OF assms(1-7), of fs dir]
    remote_typed[OF assms(1-8)]
  by simp

theorem typed_text_then_fallback_witness:
  "fst (getContent_download sample_config sample_request scripted sample_args (init_world typed_script)) =
     success_result [text_item (JStr ''hello'')]
       (JObj (content_payload ''C1'' content_row (JStr ''hello'')))
   \<and> length (sent (snd (getContent_download sample_config sample_request scripted sample_args
         (init_world typed_script)))) = 3
   \<and> payload_field (fst (getContent_persist sample_config bare_fs sample_dir sample_request scripted
         sample_args (init_world typed_script))) ''textData'' = Some (JStr ''hello'')
   \<and> payload_field (fst (getContent_remote sample_config sample_request scripted ''C1''
         (init_world typed_script))) ''textData'' = Some (JStr ''other'')"
proof -
  let ?s1 = "tl typed_script" and ?s2 = "tl (tl typed_script)" and ?s3 = "tl (tl (tl typed_script))"
  have h1: "find_reply scripted (content_query sample_config sample_request (contentId sample_args))
      typed_script = Some (content_row # [], ?s1)"
    by (simp add: find_reply_def scripted_def typed_script_def json_response_def ok_def docs_or_empty_def)
  have h2: "truthy (get_field content_row ''dataResourceId'')"
    by (simp add: content_row_def)
  have h3: "find_reply scripted (data_resource_query sample_config sample_request
      (get_field content_row ''dataResourceId'')) ?s1 = Some (text_resource # [], ?s2)"
    by (simp add: find_reply_def scripted_def typed_script_def json_response_def ok_def docs_or_empty_def)
  have h4: "is_text_type (get_field text_resource ''dataResourceTypeId'')"
    by (simp add: is_text_type_def text_resource_def)
  have h5: "find_reply scripted (text_query sample_config sample_request
      (get_field content_row ''dataResourceId'')) ?s2 = Some ([(''textData'', JStr ''hello'')] # [], ?s3)"
    by (simp add: find_reply_def scripted_def typed_script_def json_response_def ok_def docs_or_empty_def)
  have h6: "get_field [(''textData'', JStr ''hello'')] ''textData'' = JStr ''hello''" by simp
  have h7: "''hello'' \<noteq> []" by simp
  have h8: "scripted (view_binary_request sample_config sample_request
      (get_field content_row ''dataResourceId'')) ?s3 = (Resolved (text_response 200 ''other''), [])"
    by (simp add: scripted_def typed_script_def)
  have p: "\<not> present (configId sample_args)" by (simp add: sample_args_def present_def)
  show ?thesis
    using typed_text_then_fallback[OF h1 h2 h3 h4 h5 h6 h7 h8, of bare_fs sample_dir] p
    by (simp add: remote_text_def text_response_def ok_def sample_args_def)
qed

text \<open>
  The claim as stated fails twice. In \<^verbatim>\<open>src/tools/getContent.ts\<close> a text row
  \<^verbatim>\<open>hello\<close> is followed by the raw fetch all the same, and its body \<^verbatim>\<open>other\<close> is what
  the handler returns. In the version with the guarded download, a first row whose
  \<^verbatim>\<open>textData\<close> is the empty string is followed by the download, and the downloaded text
  is returned.
\<close>

theorem typed_text_counterexample:
  "payload_field (fst (getContent_remote sample_config sample_request scripted ''C1''
      (init_world typed_script))) ''textData'' = Some (JStr ''other'')
   \<and> sent (snd (getContent_remote sample_config sample_request scripted ''C1''
      (init_world typed_script))) =
        [content_query sample_config sample_request ''C1'',
         data_resource_query sample_config sample_request (JStr ''D1''),
         text_query sample_config sample_request (JStr ''D1''),
         view_binary_request sample_config sample_request (JStr ''D1'')]
   \<and> payload_field (fst (getContent_download sample_config sample_request scripted sample_args
      (init_world empty_row_script))) ''textData'' = Some (JStr ''downloaded'')
   \<and> sent (snd (getContent_download sample_config sample_request scripted sample_args
      (init_world empty_row_script))) =
        [content_query sample_config sample_request ''C1'',
         data_resource_query sample_config sample_request (JStr ''D1''),
         text_query sample_config sample_request (JStr ''D1''),
         download_request sample_config sample_request ''C1'']"
  by (simp add: chain_eval query_defs typed_script_def empty_row_script_def)

text \<open>
  C2. Take a data resource of type \<^verbatim>\<open>OFBIZ_FILE\<close> or \<^verbatim>\<open>LOCAL_FILE\<close>: no typed fetch is
  made for it, so the typed path yields no text. No version of the handler fails with the
  no-content error before the raw download was attempted. In the two versions with the
  download, the download is the third request, a \<^verbatim>\<open>GET\<close> of
  \<^verbatim>\<open>/api/DownloadCsvFile?contentId=\<close> with the content id, carrying the bearer header, and
  the no-content error is returned exactly when that download yielded no text. In
  \<^verbatim>\<open>src/tools/getContent.ts\<close> the invocation does not fail at all for these types: after
  the two lookups it returns a success that reports the remote path.
\<close>

theorem file_types_download_before_error:
  assumes "find_reply be (content_query cfg req (contentId args)) s0 = Some (contentRecord # cs, s1)"
    and "truthy (get_field contentRecord ''dataResourceId'')"
    and "find_reply be (data_resource_query cfg req (get_field contentRecord ''dataResourceId'')) s1
           = Some (dr # ds, s2)"
    and "is_file_type (get_field dr ''dataResourceTypeId'')"
    and "be (download_request cfg req (contentId args)) s2 = (out, s3)"
  shows "sent (snd (getContent_download cfg req be args (init_world s0))) =
            [content_query cfg req (contentId args),
             data_resource_query cfg req (get_field contentRecord ''dataResourceId''),
             download_request cfg req (contentId args)]
       \<and> fst (getContent_download cfg req be args (init_world s0)) =
           (case remote_text out of
              Some t \<Rightarrow>
                if t = [] then no_text_error (contentId args) (get_field dr ''dataResourceTypeId'')
                else success_result [text_item (JStr t)]
                       (JObj (content_payload (contentId args) contentRecord (JStr t)))
            | None \<Rightarrow> no_text_error (contentId args) (get_field dr ''dataResourceTypeId''))
       \<and> sent (snd (getContent_persist cfg fs dir req be args (init_world s0))) =
            [content_query cfg req (contentId args),
             data_resource_query cfg req (get_field contentRecord ''dataResourceId''),
             download_request cfg req (contentId args)]
       \<and> (fst (getContent_persist cfg fs dir req be args (init_world s0)) =
              no_text_error (contentId args) (get_field dr ''dataResourceTypeId'')
            \<longleftrightarrow> remote_text out = None \<or> remote_text out = Some [])
       \<and> fst (download_request cfg req (contentId args)) =
            BACKEND_API_BASE cfg @ ''/api/DownloadCsvFile?contentId='' @ contentId args
       \<and> http_method (snd (download_request cfg req (contentId args))) = ''GET''
       \<and> header (download_request cfg req (contentId args)) ''Authorization'' =
            Some (bearer (token_of cfg req))
       \<and> getContent_remote cfg req be (contentId args) (init_world s0) =
           (success_result
              [text_item (JStr (remote_file_report (contentId args) contentRecord
                 (get_field dr ''dataResourceTypeId'')
                 (or_else (get_field dr ''objectInfo'') (JStr ''Unknown Path''))))]
              (JObj (content_payload (contentId args) contentRecord
                 (JStr (''[Remote File: ''
                    @ tostr (or_else (get_field dr ''objectInfo'') (JStr ''Unknown Path'')) @ '']'')))),
            \<lparr>backend_state = s2,
             sent = [content_query cfg req (contentId args),
                     data_resource_query cfg req (get_field contentRecord ''dataResourceId'')],
             console = [], disk = []\<rparr>)
       \<and> isError (fst (getContent_remote cfg req be (contentId args) (init_world s0))) = None"
proof -
  note d = download_file[OF assms(1-5)]
  note r = remote_file[OF assms(1-4)]
  have p: "fst (getContent_persist cfg fs dir req be args (init_world s0)) =
              no_text_error (contentId args) (get_field dr ''dataResourceTypeId'')
            \<longleftrightarrow> remote_text out = None \<or> remote_text out = Some []"
  proof (cases "remote_text out = None \<or> remote_text out = Some []")
    case True
    then show ?thesis using d(4)[of fs dir] by simp
  next
    case False
    then obtain t where t: "remote_text out = Some t" "t \<noteq> []" by auto
    from persist_file_text[OF assms(1-5) t] False show ?thesis by simp
  qed
  have q: "fst (download_request cfg req (contentId args)) =
            BACKEND_API_BASE cfg @ ''/api/DownloadCsvFile?contentId='' @ contentId args"
    "http_method (snd (download_request cfg req (contentId args))) = ''GET''"
    "header (download_request cfg req (contentId args)) ''Authorization'' =
            Some (bearer (token_of cfg req))"
    by (simp_all add: download_request_def downloadUrl_def download_options_def header_def)
  have e: "isError (fst (getContent_remote cfg req be (contentId args) (init_world s0))) = None"
    unfolding r by (simp add: success_result_def)
  show ?thesis
    using d(1) d(2) d(3)[of fs dir] p q r e by blast
qed

theorem file_types_download_before_error_witness:
  "fst (getContent_download sample_config sample_request scripted sample_args (init_world file_script)) =
     success_result [text_item (JStr ''a,b'')] (JObj (content_payload ''C1'' content_row (JStr ''a,b'')))
   \<and> sent (snd (getContent_download sample_config sample_request scripted sample_args
        (init_world file_script))) ! 2 = download_request sample_config sample_request ''C1''
   \<and> header (download_request sample_config sample_request ''C1'') ''Authorization'' = Some ''Bearer T1''
   \<and> fst (getContent_persist sample_config bare_fs sample_dir sample_request scripted sample_args
        (init_world file_script)) \<noteq> no_text_error ''C1'' (JStr ''OFBIZ_FILE'')
   \<and> isError (fst (getContent_remote sample_config sample_request scripted ''C1''
        (init_world file_script))) = None"
proof -
  let ?s1 = "tl file_script" and ?s2 = "tl (tl file_script)"
  have h1: "find_reply scripted (content_query sample_config sample_request (contentId sample_args))
      file_script = Some (content_row # [], ?s1)"
    by (simp add: find_reply_def scripted_def file_script_def json_response_def ok_def docs_or_empty_def)
  have h2: "truthy (get_field content_row ''dataResourceId'')"
    by (simp add: content_row_def)
  have h3: "find_reply scripted (data_resource_query sample_config sample_request
      (get_field content_row ''dataResourceId'')) ?s1 = Some (file_resource # [], ?s2)"
    by (simp add: find_reply_def scripted_def file_script_def json_response_def ok_def docs_or_empty_def)
  have h4: "is_file_type (get_field file_resource ''dataResourceTypeId'')"
    by (simp add: is_file_type_def file_resource_def)
  have h5: "scripted (download_request sample_config sample_request (contentId sample_args)) ?s2
      = (Resolved (text_response 200 ''a,b''), [])"
    by (simp add: scripted_def file_script_def)
  show ?thesis
    using file_types_download_before_error[OF h1 h2 h3 h4 h5, of bare_fs sample_dir]
    by (simp add: remote_text_def text_response_def ok_def sample_args_def success_result_def
        bearer_def token_of_def present_def sample_request_def file_resource_def)
qed

text \<open>
  A run of \<^verbatim>\<open>src/tools/getContent.ts\<close> on a resource of type \<^verbatim>\<open>OFBIZ_FILE\<close>: the two
  lookups are the only requests, and the handler returns a success with a placeholder text.
\<close>

lemma remote_file_placeholder:
  "sent (snd (getContent_remote sample_config sample_request scripted ''C1'' (init_world file_script))) =
     [content_query sample_config sample_request ''C1'',
      data_resource_query sample_config sample_request (JStr ''D1'')]
   \<and> isError (fst (getContent_remote sample_config sample_request scripted ''C1''
        (init_world file_script))) = None
   \<and> payload_field (fst (getContent_remote sample_config sample_request scripted ''C1''
        (init_world file_script))) ''textData'' = Some (JStr ''[Remote File: /data/orders.csv]'')"
  by (simp add: chain_eval query_defs file_script_def)

text \<open>
  C6, as amended. In the version with persistence, once text \<open>t\<close> has been retrieved:
  without a \<^verbatim>\<open>configId\<close> the handler returns the success with \<open>t\<close>; when the anchor
  directory is not found, that is printed to the error stream and the handler still
  returns the success with \<open>t\<close>, without a saved path; when the target directory
  exists or is created and the file is written, it returns the success with \<open>t\<close> and
  the saved path. A directory creation or a write that throws is not part of this
  statement.
\<close>

theorem persistence_leaves_success:
  assumes "lookup_content cfg req be (contentId args) w0 = (Cont (cr, drid, dr), w2)"
    and "retrieve_text cfg req be (contentId args) drid dr w2 = (Cont (JStr t), w4)"
  shows "(\<not> present (configId args) \<longrightarrow>
            getContent_persist cfg fs dir req be args w0 =
              (success_result [text_item (JStr (retrieved_message None t))]
                 (persist_payload (contentId args) cr t None), w4))
       \<and> (present (configId args) \<and> findRuntimeDir fs dir = None \<longrightarrow>
            getContent_persist cfg fs dir req be args w0 =
              (success_result [text_item (JStr (retrieved_message None t))]
                 (persist_payload (contentId args) cr t None),
               console_error [anchor_missing_message] w4))
       \<and> (\<forall>rd. present (configId args) \<and> findRuntimeDir fs dir = Some rd
              \<and> (existsSync fs (target_dir args rd) \<or> mkdir fs (target_dir args rd) = None)
              \<and> writeFile fs (saved_path args cr rd) (JStr t) = None \<longrightarrow>
            fst (getContent_persist cfg fs dir req be args w0) =
              success_result [text_item (JStr (retrieved_message (Some (saved_path args cr rd)) t))]
                (persist_payload (contentId args) cr t (Some (saved_path args cr rd))))"
proof (intro conjI impI allI)
  assume "\<not> present (configId args)"
  from persist_try_result[OF assms persist_skipped[OF this]]
  show "getContent_persist cfg fs dir req be args w0 =
              (success_result [text_item (JStr (retrieved_message None t))]
                 (persist_payload (contentId args) cr t None), w4)" .
next
  assume "present (configId args) \<and> findRuntimeDir fs dir = None"
  then have "persist fs dir args cr (JStr t) w4 = (Cont None, console_error [anchor_missing_message] w4)"
    using persist_anchor_missing by blast
  from persist_try_result[OF assms this]
  show "getContent_persist cfg fs dir req be args w0 =
              (success_result [text_item (JStr (retrieved_message None t))]
                 (persist_payload (contentId args) cr t None),
               console_error [anchor_missing_message] w4)" .
next
  fix rd
  assume a: "present (configId args) \<and> findRuntimeDir fs dir = Some rd
              \<and> (existsSync fs (target_dir args rd) \<or> mkdir fs (target_dir args rd) = None)
              \<and> writeFile fs (saved_path args cr rd) (JStr t) = None"
  have "\<exists>w5. persist fs dir args cr (JStr t) w4 = (Cont (Some (saved_path args cr rd)), w5)"
    using a by (intro persist_saved) auto
  then obtain w5 where "persist fs dir args cr (JStr t) w4 = (Cont (Some (saved_path args cr rd)), w5)"
    by blast
  from persist_try_result[OF assms this]
  show "fst (getContent_persist cfg fs dir req be args w0) =
              success_result [text_item (JStr (retrieved_message (Some (saved_path args cr rd)) t))]
                (persist_payload (contentId args) cr t (Some (saved_path args cr rd)))"
    by simp
qed

theorem persistence_leaves_success_witness:
  "getContent_persist sample_config bare_fs sample_dir sample_request scripted saving_args
      (init_world typed_script) =
     (success_result [text_item (JStr (retrieved_message None ''hello''))]
        (persist_payload ''C1'' content_row ''hello'' None),
      \<lparr>backend_state = [Resolved (text_response 200 ''other'')],
       sent = [content_query sample_config sample_request ''C1'',
               data_resource_query sample_config sample_request (JStr ''D1''),
               text_query sample_config sample_request (JStr ''D1'')],
       console = [(Stderr, [anchor_missing_message])], disk = []\<rparr>)
   \<and> payload_field (fst (getContent_persist sample_config anchored_fs sample_dir sample_request
        scripted saving_args (init_world typed_script))) ''savedPath'' =
       Some (JStr ''/srv/runtime/errorFile_IMP_SAPI_ORDER/C1.txt'')"
proof -
  let ?w2 = "\<lparr>backend_state = tl (tl typed_script),
       sent = [content_query sample_config sample_request ''C1'',
               data_resource_query sample_config sample_request (JStr ''D1'')],
       console = [], disk = []\<rparr>"
  let ?w4 = "\<lparr>backend_state = [Resolved (text_response 200 ''other'')],
       sent = [content_query sample_config sample_request ''C1'',
               data_resource_query sample_config sample_request (JStr ''D1''),
               text_query sample_config sample_request (JStr ''D1'')],
       console = [], disk = []\<rparr>"
  have h1: "lookup_content sample_config sample_request scripted (contentId saving_args)
      (init_world typed_script) = (Cont (content_row, JStr ''D1'', text_resource), ?w2)"
    by (simp add: chain_eval query_defs typed_script_def)
  have h2: "retrieve_text sample_config sample_request scripted (contentId saving_args) (JStr ''D1'')
      text_resource ?w2 = (Cont (JStr ''hello''), ?w4)"
    by (simp add: chain_eval query_defs typed_script_def)
  have p: "present (configId saving_args)" by (simp add: saving_args_def present_def)
  have n: "findRuntimeDir bare_fs sample_dir = None"
    by (simp add: findRuntimeDir.simps bare_fs_def sample_dir_def)
  have a: "findRuntimeDir anchored_fs sample_dir = Some [''srv'', ''runtime'']"
    by (simp add: findRuntimeDir.simps anchored_fs_def sample_dir_def)
  have m: "mkdir anchored_fs (target_dir saving_args [''srv'', ''runtime'']) = None"
    "writeFile anchored_fs (saved_path saving_args content_row [''srv'', ''runtime'']) (JStr ''hello'') = None"
    by (simp_all add: anchored_fs_def)
  show ?thesis
    using persistence_leaves_success[OF h1 h2, of bare_fs sample_dir] p n a m
      persistence_leaves_success[OF h1 h2, of anchored_fs sample_dir]
    by (simp add: console_error_def saving_args_def persist_payload_def payload_field_def
        success_result_def saved_path_def target_dir_def category_name_def extension_def
        content_row_def path_string_def content_payload_def)
qed

text \<open>
  The claim as stated fails when a writing call throws. The text \<^verbatim>\<open>hello\<close> has been
  retrieved, the anchor directory exists, and the creation of the target directory is
  refused: the handler's \<^verbatim>\<open>catch\<close> prints the error and the handler returns the error
  result.
\<close>

theorem persistence_counterexample:
  "fst (retrieve_text sample_config sample_request scripted ''C1'' (JStr ''D1'') text_resource
         (snd (lookup_content sample_config sample_request scripted ''C1'' (init_world typed_script))))
     = Cont (JStr ''hello'')
   \<and> fst (getContent_persist sample_config readonly_fs sample_dir sample_request scripted saving_args
         (init_world typed_script)) =
       error_result [text_item (JStr ''Error: EACCES: permission denied, mkdir'')]
   \<and> console (snd (getContent_persist sample_config readonly_fs sample_dir sample_request scripted
         saving_args (init_world typed_script))) =
       [(Stderr, [''Error in getContent:'', ''EACCES: permission denied, mkdir''])]"
proof -
  have a: "findRuntimeDir readonly_fs sample_dir = Some [''srv'', ''runtime'']"
    by (simp add: findRuntimeDir.simps readonly_fs_def sample_dir_def)
  show ?thesis
    by (simp add: chain_eval typed_script_def a[unfolded readonly_fs_def] readonly_fs_def
        category_name_def)
qed

section \<open>Single handlers\<close>

text \<open>
  C8. When the handler's own check of \<^verbatim>\<open>orderId\<close> passes and the OrderItem query answers
  with zero records, findOrderItems returns the success result whose payload has the empty
  list as \<^verbatim>\<open>items\<close>, and no error flag.
\<close>

theorem findOrderItems_no_items:
  assumes "orderId \<noteq> []"
    and "find_reply be (order_items_query cfg req orderId) s = Some ([], s')"
  shows "findOrderItems cfg rt req be orderId (init_world s) =
           (success_result [text_item (JStr (stringify rt (Some 2) (JArr [])))]
              (JObj [(''items'', JArr [])]),
            \<lparr>backend_state = s', sent = [order_items_query cfg req orderId], console = [], disk = []\<rparr>)"
proof -
  from fetch_find_reply[of be "backendUrl cfg" "findOrderItems_options cfg req orderId" "init_world s" "[]" s']
    assms(2)
  obtain r d where f: "fetch be (backendUrl cfg) (findOrderItems_options cfg req orderId) (init_world s)
      = (Resolved r, \<lparr>backend_state = s', sent = [order_items_query cfg req orderId], console = [], disk = []\<rparr>)"
    and r: "ok r" "json r = Inr d" "docs_or_empty d = []"
    by (auto simp: order_items_query_def init_world_def)
  show ?thesis
    using assms(1) r
    by (simp add: findOrderItems_def findOrderItems_try_def f catch_plain_def Let_def)
qed

theorem findOrderItems_no_items_witness:
  "payload_field (fst (findOrderItems sample_config sample_runtime sample_request scripted ''1001''
      (init_world [Resolved (json_response [])]))) ''items'' = Some (JArr [])
   \<and> isError (fst (findOrderItems sample_config sample_runtime sample_request scripted ''1001''
      (init_world [Resolved (json_response [])]))) = None"
proof -
  have h1: "''1001'' \<noteq> []" by simp
  have h2: "find_reply scripted (order_items_query sample_config sample_request ''1001'')
      [Resolved (json_response [])] = Some ([], [])"
    by (simp add: find_reply_def scripted_def json_response_def ok_def docs_or_empty_def)
  show ?thesis
    using findOrderItems_no_items[OF h1 h2, of sample_runtime]
    by (simp add: payload_field_def success_result_def)
qed

subsection \<open>findProductById\<close>

text \<open>
  What the handler does with the bodies of the two answers, whatever their status: an empty
  body of the first answer leads to the second query, and the not-found error is returned
  exactly when both bodies are empty.
\<close>

lemma fetch_eq:
  "be (u, opts) (backend_state w) = (out, s') \<Longrightarrow>
   fetch be u opts w = (out, w\<lparr>backend_state := s', sent := sent w @ [(u, opts)]\<rparr>)"
  by (simp add: fetch_def)

lemma findProductById_second:
  assumes "be (product_query cfg req ''productId'' ident) s0 = (Resolved r1, s1)"
    and "json r1 = Inr d1" and "docs_or_empty d1 = []"
    and "be (product_query cfg req ''internalName'' ident) s1 = (out2, s2)"
  shows "findProductById_try cfg rt req be ident (init_world s0) =
           ((case out2 of
               Rejected m \<Rightarrow> Throw m
             | Resolved r2 \<Rightarrow>
                 (case json r2 of
                    Inl m \<Rightarrow> Throw m
                  | Inr d2 \<Rightarrow>
                      (case docs_or_empty d2 of
                         [] \<Rightarrow> Return (product_not_found ident)
                       | product # _ \<Rightarrow>
                           Return (success_result
                             [text_item (JStr (stringify rt (Some 2) (product_result product)))]
                             (product_result product))))),
            \<lparr>backend_state = s2,
             sent = [product_query cfg req ''productId'' ident,
                     product_query cfg req ''internalName'' ident],
             console = [], disk = []\<rparr>)"
proof -
  have f1: "fetch be (backendUrl cfg) (getRequestOptions cfg req ''Product'' [(''productId'', JStr ident)])
      (init_world s0) =
      (Resolved r1, \<lparr>backend_state = s1, sent = [product_query cfg req ''productId'' ident],
                     console = [], disk = []\<rparr>)"
    using fetch_eq[of be "backendUrl cfg" _ "init_world s0" "Resolved r1" s1] assms(1)
    by (simp add: product_query_def init_world_def)
  have f2: "fetch be (backendUrl cfg) (getRequestOptions cfg req ''Product'' [(''internalName'', JStr ident)])
      \<lparr>backend_state = s1, sent = [product_query cfg req ''productId'' ident],
                     console = [], disk = []\<rparr> =
      (out2, \<lparr>backend_state = s2,
             sent = [product_query cfg req ''productId'' ident,
                     product_query cfg req ''internalName'' ident],
             console = [], disk = []\<rparr>)"
    using fetch_eq[of be "backendUrl cfg" _ "\<lparr>backend_state = s1,
        sent = [product_query cfg req ''productId'' ident], console = [], disk = []\<rparr>" out2 s2] assms(4)
    by (simp add: product_query_def)
  show ?thesis
    by (simp add: findProductById_try_def Let_def f1 f2 assms(2,3)
        split: fetch_outcome.splits sum.splits list.splits)
qed

lemma findProductById_first:
  assumes "be (product_query cfg req ''productId'' ident) s0 = (out1, s1)"
    and "\<forall>r1 d1. out1 = Resolved r1 \<longrightarrow> json r1 = Inr d1 \<longrightarrow> docs_or_empty d1 \<noteq> []"
  shows "fst (findProductById cfg rt req be ident (init_world s0)) \<noteq> product_not_found ident"
proof -
  have f1: "fetch be (backendUrl cfg) (getRequestOptions cfg req ''Product'' [(''productId'', JStr ident)])
      (init_world s0) =
      (out1, \<lparr>backend_state = s1, sent = [product_query cfg req ''productId'' ident],
                     console = [], disk = []\<rparr>)"
    using fetch_eq[of be "backendUrl cfg" _ "init_world s0" out1 s1] assms(1)
    by (simp add: product_query_def init_world_def)
  show ?thesis
    using assms(2)
    by (auto simp: findProductById_def findProductById_try_def Let_def f1 catch_plain_def
        product_not_found_def error_result_def success_result_def text_item_def
        split: fetch_outcome.splits sum.splits list.splits)
qed

lemma findProductById_sent:
  assumes "body_docs be (product_query cfg req ''productId'' ident) s0 = Some ([], s1)"
  shows "sent (snd (findProductById cfg rt req be ident (init_world s0))) =
           [product_query cfg req ''productId'' ident, product_query cfg req ''internalName'' ident]"
proof -
  from assms obtain r1 d1 where a: "be (product_query cfg req ''productId'' ident) s0 = (Resolved r1, s1)"
    "json r1 = Inr d1" "docs_or_empty d1 = []"
    by (auto simp: body_docs_def split: prod.splits fetch_outcome.splits sum.splits)
  obtain out2 s2 where b: "be (product_query cfg req ''internalName'' ident) s1 = (out2, s2)"
    by (cases "be (product_query cfg req ''internalName'' ident) s1")
  show ?thesis
    using findProductById_second[of be cfg req ident s0 r1 s1 d1 out2 s2 rt] a b
    by (simp add: findProductById_def catch_plain_def console_error_def
        split: fetch_outcome.splits sum.splits list.splits)
qed

lemma findProductById_not_found:
  "fst (findProductById cfg rt req be ident (init_world s0)) = product_not_found ident \<longleftrightarrow>
     (\<exists>s1 s2. body_docs be (product_query cfg req ''productId'' ident) s0 = Some ([], s1)
        \<and> body_docs be (product_query cfg req ''internalName'' ident) s1 = Some ([], s2))"
proof -
  obtain out1 s1 where a: "be (product_query cfg req ''productId'' ident) s0 = (out1, s1)"
    by (cases "be (product_query cfg req ''productId'' ident) s0")
  show ?thesis
  proof (cases "\<exists>r1 d1. out1 = Resolved r1 \<and> json r1 = Inr d1 \<and> docs_or_empty d1 = []")
    case False
    then have "fst (findProductById cfg rt req be ident (init_world s0)) \<noteq> product_not_found ident"
      using findProductById_first[of be cfg req ident s0 out1 s1 rt] a by blast
    moreover have "\<not> (\<exists>s1 s2. body_docs be (product_query cfg req ''productId'' ident) s0 = Some ([], s1)
        \<and> body_docs be (product_query cfg req ''internalName'' ident) s1 = Some ([], s2))"
      using False a by (auto simp: body_docs_def split: fetch_outcome.splits sum.splits)
    ultimately show ?thesis by blast
  next
    case True
    then obtain r1 d1 where r: "out1 = Resolved r1" "json r1 = Inr d1" "docs_or_empty d1 = []"
      by blast
    obtain out2 s2 where b: "be (product_query cfg req ''internalName'' ident) s1 = (out2, s2)"
      by (cases "be (product_query cfg req ''internalName'' ident) s1")
    have first: "body_docs be (product_query cfg req ''productId'' ident) s0 = Some ([], s1)"
      using a r by (simp add: body_docs_def)
    have "fst (findProductById cfg rt req be ident (init_world s0)) = product_not_found ident \<longleftrightarrow>
        body_docs be (product_query cfg req ''internalName'' ident) s1 = Some ([], s2)"
      using b findProductById_second[of be cfg req ident s0 r1 s1 d1 out2 s2 rt] a r
      by (auto simp: findProductById_def
          catch_plain_def body_docs_def product_not_found_def error_result_def success_result_def
          text_item_def split: fetch_outcome.splits sum.splits list.splits)
    then show ?thesis using first b by (auto simp: body_docs_def split: fetch_outcome.splits sum.splits)
  qed
qed

lemma findProductById_second_query:
  assumes "find_reply be (product_query cfg req ''productId'' ident) s0 = Some ([], s1)"
  shows "sent (snd (findProductById cfg rt req be ident (init_world s0))) =
           [product_query cfg req ''productId'' ident, product_query cfg req ''internalName'' ident]"
proof -
  have "body_docs be (product_query cfg req ''productId'' ident) s0 = Some ([], s1)"
    using assms
    by (auto simp: find_reply_def body_docs_def
        split: prod.splits fetch_outcome.splits sum.splits if_splits)
  then show ?thesis by (rule findProductById_sent)
qed

text \<open>
  C10. The claim holds of the answers that carry a success status (the second query is
  sent after a successful answer without records), and the code breaks its second half:
  findProductById reads the body of an answer without testing \<^verbatim>\<open>response.ok\<close>, the test
  that findOrderItems and findOrderHeader make before they read theirs. When the backend
  answers both Product queries with HTTP 500 and a JSON body that has no \<^verbatim>\<open>docs\<close>,
  neither query has returned zero records, and the handler still reports
  \<^verbatim>\<open>Product not found\<close>.
\<close>

theorem findProductById_unchecked_status:
  "\<not> ok failed_json_response
   \<and> find_reply scripted (product_query sample_config sample_request ''productId'' ''WG-1111'')
        failing_product_script = None
   \<and> find_reply scripted (product_query sample_config sample_request ''internalName'' ''WG-1111'')
        (tl failing_product_script) = None
   \<and> findProductById sample_config sample_runtime sample_request scripted ''WG-1111''
        (init_world failing_product_script) =
      (product_not_found ''WG-1111'',
       \<lparr>backend_state = [],
        sent = [product_query sample_config sample_request ''productId'' ''WG-1111'',
                product_query sample_config sample_request ''internalName'' ''WG-1111''],
        console = [], disk = []\<rparr>)"
  by (simp add: findProductById_def findProductById_try_def catch_plain_def fetch_def Let_def
      find_reply_def scripted_def failing_product_script_def failed_json_response_def ok_def
      docs_or_empty_def init_world_def product_query_def)

section \<open>Every handler\<close>

lemma well_formed_error [simp]: "well_formed (error_result c)"
  by (simp add: well_formed_def error_result_def)

lemma well_formed_success [simp]: "well_formed (success_result c sc)"
  by (simp add: well_formed_def success_result_def)




lemmas stage_splits =
  prod.splits fetch_outcome.splits sum.splits list.splits option.splits stage.splits

























subsection \<open>What an invocation sends\<close>

lemma fetch_sentD: "fetch be u opts w = (out, w') \<Longrightarrow> sent w' = sent w @ [(u, opts)]"
  by (auto simp: fetch_def split: prod.splits)

lemma sent_console_error [simp]: "sent (console_error a w) = sent w"
  by (simp add: console_error_def)

lemma sent_console_log [simp]: "sent (console_log a w) = sent w"
  by (simp add: console_log_def)

lemma sent_executing [simp]: "sent (executing rt l u opts w) = sent w"
  by (simp add: executing_def)

lemma backend_state_console_error [simp]: "backend_state (console_error a w) = backend_state w"
  by (simp add: console_error_def)

lemma backend_state_executing [simp]: "backend_state (executing rt l u opts w) = backend_state w"
  by (simp add: executing_def)

lemma all_sent_fetch:
  "fetch be u opts w = (out, w') \<Longrightarrow> all_sent P w \<Longrightarrow> P (u, opts) \<Longrightarrow> all_sent P w'"
  by (auto simp: all_sent_def dest!: fetch_sentD)

lemma all_sent_console_error [simp]: "all_sent P (console_error a w) = all_sent P w"
  by (simp add: all_sent_def)

lemma all_sent_console_log [simp]: "all_sent P (console_log a w) = all_sent P w"
  by (simp add: all_sent_def)

lemma all_sent_executing [simp]: "all_sent P (executing rt l u opts w) = all_sent P w"
  by (simp add: all_sent_def)

lemma all_sent_catch_getContent:
  "all_sent P (snd sw) \<Longrightarrow> all_sent P (snd (catch_getContent sw))"
  by (cases sw) (auto simp: catch_getContent_def split: stage.splits)

lemma all_sent_catch_plain:
  "all_sent P (snd sw) \<Longrightarrow> all_sent P (snd (catch_plain l sw))"
  by (cases sw) (auto simp: catch_plain_def split: stage.splits)

lemma all_sent_catch_debug:
  "all_sent P (snd sw) \<Longrightarrow> all_sent P (snd (catch_debug rt u opts l p sw))"
  by (cases sw) (auto simp: catch_debug_def split: stage.splits)

lemma all_sent_lookup_data_resource:
  assumes "covers_find cfg req P" and "all_sent P w"
  shows "all_sent P (snd (lookup_data_resource cfg req be cid cr w))"
  using assms unfolding lookup_data_resource_def Let_def covers_find_def all_sent_def
  by (auto split: stage_splits if_splits dest!: fetch_sentD)

lemma all_sent_lookup_content:
  assumes "covers_find cfg req P" and "all_sent P w"
  shows "all_sent P (snd (lookup_content cfg req be cid w))"
  using assms unfolding lookup_content_def covers_find_def all_sent_def
  by (auto split: stage_splits if_splits dest!: fetch_sentD
      intro!: all_sent_lookup_data_resource[OF assms(1), unfolded all_sent_def])

lemma all_sent_fetch_text:
  assumes "covers_find cfg req P" and "all_sent P w"
  shows "all_sent P (snd (fetch_text cfg req be drid w))"
  using assms unfolding fetch_text_def covers_find_def all_sent_def
  by (auto split: stage_splits if_splits dest!: fetch_sentD)

lemma all_sent_download_fallback:
  assumes "P (download_request cfg req cid)" and "all_sent P w"
  shows "all_sent P (snd (download_fallback cfg req be cid t w))"
  using assms unfolding download_fallback_def all_sent_def Let_def download_request_def
  by (auto split: stage_splits if_splits dest!: fetch_sentD)

lemma all_sent_remote_fetch:
  assumes "\<forall>d. P (view_binary_request cfg req d)" and "all_sent P w"
  shows "all_sent P (snd (remote_fetch cfg req be drid t w))"
  using assms unfolding remote_fetch_def all_sent_def Let_def view_binary_request_def
  by (auto split: stage_splits if_splits dest!: fetch_sentD)

lemma all_sent_download_fallbackD:
  "P (download_request cfg req cid) \<Longrightarrow> download_fallback cfg req be cid t w = (v, w')
   \<Longrightarrow> all_sent P w \<Longrightarrow> all_sent P w'"
  using all_sent_download_fallback[of P cfg req cid w be t] by simp

lemma all_sent_fetch_textD:
  "covers_find cfg req P \<Longrightarrow> fetch_text cfg req be drid w = (st, w') \<Longrightarrow> all_sent P w
   \<Longrightarrow> all_sent P w'"
  using all_sent_fetch_text[of cfg req P w be drid] by simp

lemma all_sent_lookup_contentD:
  "covers_find cfg req P \<Longrightarrow> lookup_content cfg req be cid w = (st, w') \<Longrightarrow> all_sent P w
   \<Longrightarrow> all_sent P w'"
  using all_sent_lookup_content[of cfg req P w be cid] by simp

lemma all_sent_remote_fetchD:
  "\<forall>d. P (view_binary_request cfg req d) \<Longrightarrow> remote_fetch cfg req be drid t w = (v, w')
   \<Longrightarrow> all_sent P w \<Longrightarrow> all_sent P w'"
  using all_sent_remote_fetch[of P cfg req w be drid t] by simp

lemma all_sent_retrieve_text:
  assumes "covers_find cfg req P" and "P (download_request cfg req cid)" and "all_sent P w"
  shows "all_sent P (snd (retrieve_text cfg req be cid drid dr w))"
  using assms(3) unfolding retrieve_text_def Let_def
  by (auto split: stage_splits if_splits
      intro: all_sent_download_fallbackD[of P cfg req cid, OF assms(2)]
        all_sent_fetch_textD[OF assms(1)])

lemma all_sent_retrieve_textD:
  "covers_find cfg req P \<Longrightarrow> P (download_request cfg req cid)
   \<Longrightarrow> retrieve_text cfg req be cid drid dr w = (st, w') \<Longrightarrow> all_sent P w
   \<Longrightarrow> all_sent P w'"
  using all_sent_retrieve_text[of cfg req P cid w be drid dr] by simp

lemma all_sent_persistD:
  "persist fs dir args cr t w = (st, w') \<Longrightarrow> all_sent P w \<Longrightarrow> all_sent P w'"
  by (auto simp: all_sent_def dest!: persist_sent)

lemma all_sent_getContent_remote:
  assumes "covers_find cfg req P" and "\<forall>d. P (view_binary_request cfg req d)" and "all_sent P w"
  shows "all_sent P (snd (getContent_remote cfg req be cid w))"
  unfolding getContent_remote_def
proof (rule all_sent_catch_getContent)
  show "all_sent P (snd (getContent_remote_try cfg req be cid w))"
    using assms(3) unfolding getContent_remote_try_def Let_def
    by (auto split: stage_splits if_splits)
       (blast intro: all_sent_lookup_contentD[OF assms(1)] all_sent_fetch_textD[OF assms(1)]
          all_sent_remote_fetchD[of P cfg req, OF assms(2)])+
qed

lemma all_sent_getContent_download:
  assumes "covers_find cfg req P" and "P (download_request cfg req (contentId args))"
    and "all_sent P w"
  shows "all_sent P (snd (getContent_download cfg req be args w))"
  unfolding getContent_download_def
proof (rule all_sent_catch_getContent)
  show "all_sent P (snd (getContent_download_try cfg req be args w))"
    using assms(3) unfolding getContent_download_try_def
    by (auto split: stage_splits)
       (blast intro: all_sent_lookup_contentD[OF assms(1)]
          all_sent_retrieve_textD[OF assms(1,2)])+
qed

lemma all_sent_getContent_persist:
  assumes "covers_find cfg req P" and "P (download_request cfg req (contentId args))"
    and "all_sent P w"
  shows "all_sent P (snd (getContent_persist cfg fs dir req be args w))"
  unfolding getContent_persist_def
proof (rule all_sent_catch_getContent)
  show "all_sent P (snd (getContent_persist_try cfg fs dir req be args w))"
    using assms(3) unfolding getContent_persist_try_def
    by (auto split: stage_splits jsval.splits)
       (blast intro: all_sent_lookup_contentD[OF assms(1)]
          all_sent_retrieve_textD[OF assms(1,2)] all_sent_persistD)+
qed

lemma sent_getLogById:
  "sent (snd (getLogById cfg rt req be logId w)) = sent w @ [(backendUrl cfg, getLogById_options cfg req logId)]"
  by (simp add: getLogById_def getLogById_try_def catch_debug_def fetch_def Let_def
      split: prod.splits fetch_outcome.splits sum.splits list.splits)

lemma all_sent_getLogById:
  assumes "covers cfg req P" and "all_sent P w"
  shows "all_sent P (snd (getLogById cfg rt req be logId w))"
  using assms by (simp add: all_sent_def sent_getLogById covers_def getLogById_options_def)

lemma sent_getLogConfig:
  "sent (snd (getLogConfig cfg rt req be cfgId w)) = sent w @ [(backendUrl cfg, getLogConfig_options cfg req cfgId)]"
  by (simp add: getLogConfig_def getLogConfig_try_def catch_debug_def fetch_def Let_def
      split: prod.splits fetch_outcome.splits sum.splits list.splits)

lemma all_sent_getLogConfig:
  assumes "covers cfg req P" and "all_sent P w"
  shows "all_sent P (snd (getLogConfig cfg rt req be cfgId w))"
  using assms by (simp add: all_sent_def sent_getLogConfig covers_def getLogConfig_options_def)

lemma sent_retryFailedRecord:
  "sent (snd (retryFailedRecord cfg rt req be logId w)) = sent w @ [(backendUrl cfg, retryFailedRecord_options cfg req logId)]"
  by (simp add: retryFailedRecord_def retryFailedRecord_try_def catch_debug_def fetch_def Let_def
      split: prod.splits fetch_outcome.splits sum.splits list.splits)

lemma all_sent_retryFailedRecord:
  assumes "covers cfg req P" and "all_sent P w"
  shows "all_sent P (snd (retryFailedRecord cfg rt req be logId w))"
  using assms by (simp add: all_sent_def sent_retryFailedRecord covers_def retryFailedRecord_options_def)

lemma sent_findDataManagerLogs:
  "sent (snd (findDataManagerLogs cfg rt req be args w)) = sent w @ [(backendUrl cfg, findDataManagerLogs_options cfg req args)]"
  by (simp add: findDataManagerLogs_def findDataManagerLogs_try_def catch_debug_def fetch_def Let_def
      split: prod.splits fetch_outcome.splits sum.splits list.splits)

lemma all_sent_findDataManagerLogs:
  assumes "covers cfg req P" and "all_sent P w"
  shows "all_sent P (snd (findDataManagerLogs cfg rt req be args w))"
  using assms by (simp add: all_sent_def sent_findDataManagerLogs covers_def findDataManagerLogs_options_def)

lemma sent_findPickProfileGroups:
  "sent (snd (findPickProfileGroups cfg rt req be args w)) = sent w @ [(backendUrl cfg, findPickProfileGroups_options cfg req args)]"
  by (simp add: findPickProfileGroups_def findPickProfileGroups_try_def catch_debug_def fetch_def Let_def
      split: prod.splits fetch_outcome.splits sum.splits list.splits)

lemma all_sent_findPickProfileGroups:
  assumes "covers cfg req P" and "all_sent P w"
  shows "all_sent P (snd (findPickProfileGroups cfg rt req be args w))"
  using assms by (simp add: all_sent_def sent_findPickProfileGroups covers_def findPickProfileGroups_options_def)

lemma sent_listRecentErrors:
  "sent (snd (listRecentErrors cfg rt req be limit cfgId w)) = sent w @ [(backendUrl cfg, listRecentErrors_options cfg req limit cfgId)]"
  by (simp add: listRecentErrors_def listRecentErrors_try_def catch_debug_def fetch_def Let_def
      split: prod.splits fetch_outcome.splits sum.splits list.splits)

lemma all_sent_listRecentErrors:
  assumes "covers cfg req P" and "all_sent P w"
  shows "all_sent P (snd (listRecentErrors cfg rt req be limit cfgId w))"
  using assms by (simp add: all_sent_def sent_listRecentErrors covers_def listRecentErrors_options_def)

lemma sent_uploadFileToConfig:
  "sent (snd (uploadFileToConfig cfg req be a b c w)) = sent w @ [(uploadUrl cfg, upload_options cfg req a b c)]"
  by (simp add: uploadFileToConfig_def uploadFileToConfig_try_def catch_plain_def fetch_def Let_def
      split: prod.splits fetch_outcome.splits sum.splits list.splits)

lemma all_sent_uploadFileToConfig:
  assumes "covers cfg req P" and "all_sent P w"
  shows "all_sent P (snd (uploadFileToConfig cfg req be a b c w))"
  using assms by (simp add: all_sent_def sent_uploadFileToConfig covers_def upload_options_def)

lemma sent_findOrderTasks_bySource:
  "sent (snd (findOrderTasks_bySource cfg rt req be a b w)) =
     sent w @ [(backendUrl cfg, tasksBySource_options cfg req a b)]"
  by (simp add: findOrderTasks_bySource_def tasksBySource_try_def catch_plain_def fetch_def Let_def
      split: prod.splits fetch_outcome.splits sum.splits list.splits)

lemma all_sent_findOrderTasks_bySource:
  assumes "covers_find cfg req P" and "all_sent P w"
  shows "all_sent P (snd (findOrderTasks_bySource cfg rt req be a b w))"
  using assms by (simp add: all_sent_def sent_findOrderTasks_bySource covers_find_def tasksBySource_options_def)

lemma sent_findOrderItems:
  "sent (snd (findOrderItems cfg rt req be orderId w)) =
     (if orderId = [] then sent w else sent w @ [order_items_query cfg req orderId])"
  by (simp add: findOrderItems_def findOrderItems_try_def catch_plain_def fetch_def Let_def
      order_items_query_def split: prod.splits fetch_outcome.splits sum.splits list.splits)

lemma all_sent_findOrderItems:
  assumes "covers_find cfg req P" and "all_sent P w"
  shows "all_sent P (snd (findOrderItems cfg rt req be orderId w))"
  using assms
  by (simp add: all_sent_def sent_findOrderItems covers_find_def order_items_query_def
      findOrderItems_options_def)

lemma sent_findOrderHeader:
  "sent (snd (findOrderHeader cfg rt req be a b w)) =
     (if findOrderHeader_fields a b = [] then sent w
      else sent w @ [(backendUrl cfg,
                      ternary_options cfg req (find_body ''OrderHeader'' (findOrderHeader_fields a b) 1))])"
  by (simp add: findOrderHeader_def findOrderHeader_try_def catch_plain_def fetch_def Let_def
      split: prod.splits fetch_outcome.splits sum.splits list.splits)

lemma all_sent_findOrderHeader:
  assumes "covers_find cfg req P" and "all_sent P w"
  shows "all_sent P (snd (findOrderHeader cfg rt req be a b w))"
  using assms by (simp add: all_sent_def sent_findOrderHeader covers_find_def)

lemma sent_findProductById:
  "\<exists>rs. sent (snd (findProductById cfg rt req be ident w)) =
          sent w @ product_query cfg req ''productId'' ident # rs
        \<and> set rs \<subseteq> {product_query cfg req ''internalName'' ident}"
  by (simp add: findProductById_def findProductById_try_def catch_plain_def fetch_def Let_def
      product_query_def split: prod.splits fetch_outcome.splits sum.splits list.splits)

lemma all_sent_findProductById:
  assumes "covers_find cfg req P" and "all_sent P w"
  shows "all_sent P (snd (findProductById cfg rt req be ident w))"
proof -
  from sent_findProductById[of cfg rt req be ident w]
  obtain rs where s: "sent (snd (findProductById cfg rt req be ident w)) =
          sent w @ product_query cfg req ''productId'' ident # rs"
    and r: "set rs \<subseteq> {product_query cfg req ''internalName'' ident}" by blast
  have "\<And>k. P (product_query cfg req k ident)"
    using assms(1) by (simp add: covers_find_def product_query_def)
  then show ?thesis
    using assms(2) r by (auto simp: all_sent_def s list_all_iff)
qed

lemma sent_getImportSapiOrderConfig:
  "\<exists>rs. sent (snd (getImportSapiOrderConfig cfg rt req be a w)) =
          sent w @ (backendUrl cfg, getRequestOptions cfg req ''DataManagerConfig''
                      [(''dataManagerConfigId'', JStr (sapi_configId a))]) # rs
        \<and> (\<forall>rq \<in> set rs. \<exists>f. rq = (backendUrl cfg, getRequestOptions cfg req ''RuntimeData'' f))"
  by (auto simp: getImportSapiOrderConfig_def getImportSapiOrderConfig_try_def catch_plain_def
      fetch_def Let_def split: prod.splits fetch_outcome.splits sum.splits list.splits)

lemma all_sent_getImportSapiOrderConfig:
  assumes "covers_find cfg req P" and "all_sent P w"
  shows "all_sent P (snd (getImportSapiOrderConfig cfg rt req be a w))"
proof -
  from sent_getImportSapiOrderConfig[of cfg rt req be a w]
  obtain rs where s: "sent (snd (getImportSapiOrderConfig cfg rt req be a w)) =
          sent w @ (backendUrl cfg, getRequestOptions cfg req ''DataManagerConfig''
                      [(''dataManagerConfigId'', JStr (sapi_configId a))]) # rs"
    and r: "\<forall>rq \<in> set rs. \<exists>f. rq = (backendUrl cfg, getRequestOptions cfg req ''RuntimeData'' f)"
    by blast
  have "\<And>n f. P (backendUrl cfg, getRequestOptions cfg req n f)"
    using assms(1) by (simp add: covers_find_def)
  then show ?thesis
    using assms(2) r by (auto simp: all_sent_def s list_all_iff)
qed

lemma all_sent_fetch_tasks:
  assumes "covers_find cfg req P"
  shows "all_sent P w \<Longrightarrow> all_sent P (snd (fetch_tasks cfg rt req be t links tasks w))"
proof (induction links arbitrary: tasks w)
  case Nil
  then show ?case by simp
next
  case (Cons link links)
  obtain out w1 where f: "fetch be (backendUrl cfg) (task_options cfg req (get_field link ''workEffortId'')) w
      = (out, w1)"
    by (cases "fetch be (backendUrl cfg) (task_options cfg req (get_field link ''workEffortId'')) w")
  have "P (backendUrl cfg, task_options cfg req (get_field link ''workEffortId''))"
    using assms by (simp add: covers_find_def task_options_def)
  then have w1: "all_sent P w1"
    using all_sent_fetch[OF f Cons.prems] by simp
  show ?case
    using Cons.IH[OF w1] w1
    by (simp add: f split: fetch_outcome.splits sum.splits option.splits list.splits)
qed

lemma prefix_fetch_tasks:
  "prefix xs (sent w) \<Longrightarrow> prefix xs (sent (snd (fetch_tasks cfg rt req be t links tasks w)))"
proof (induction links arbitrary: tasks w)
  case Nil
  then show ?case by simp
next
  case (Cons link links)
  obtain out w1 where f: "fetch be (backendUrl cfg) (task_options cfg req (get_field link ''workEffortId'')) w
      = (out, w1)"
    by (cases "fetch be (backendUrl cfg) (task_options cfg req (get_field link ''workEffortId'')) w")
  have w1: "prefix xs (sent w1)"
    using fetch_sentD[OF f] Cons.prems by simp
  show ?case
    using Cons.IH[OF w1] w1
    by (simp add: f split: fetch_outcome.splits sum.splits option.splits list.splits)
qed

lemma tasksByLink_worlds:
  assumes "fetch be (backendUrl cfg) (link_options cfg req a) w = (out, w1)"
  shows "snd (tasksByLink_try cfg rt req be a b w) = w1
         \<or> (\<exists>ls. snd (tasksByLink_try cfg rt req be a b w) = snd (fetch_tasks cfg rt req be b ls [] w1))"
  by (auto simp: tasksByLink_try_def assms simp del: fetch_tasks.simps
      split: fetch_outcome.splits sum.splits list.splits stage.splits prod.splits)
     (metis snd_conv)+

lemma all_sent_findOrderTasks_byLink:
  assumes "covers_find cfg req P" and "all_sent P w"
  shows "all_sent P (snd (findOrderTasks_byLink cfg rt req be a b w))"
  unfolding findOrderTasks_byLink_def
proof (rule all_sent_catch_plain)
  obtain out w1 where f: "fetch be (backendUrl cfg) (link_options cfg req a) w = (out, w1)"
    by (cases "fetch be (backendUrl cfg) (link_options cfg req a) w")
  have "P (backendUrl cfg, link_options cfg req a)"
    using assms(1) by (simp add: covers_find_def link_options_def)
  then have w1: "all_sent P w1"
    using all_sent_fetch[OF f assms(2)] by simp
  show "all_sent P (snd (tasksByLink_try cfg rt req be a b w))"
    using tasksByLink_worlds[OF f, of rt b] w1 all_sent_fetch_tasks[OF assms(1) w1]
    by auto
qed

lemma snd_catch_plain_sent [simp]: "sent (snd (catch_plain l sw)) = sent (snd sw)"
  by (cases sw) (auto simp: catch_plain_def split: stage.splits)

lemma snd_catch_getContent_sent [simp]: "sent (snd (catch_getContent sw)) = sent (snd sw)"
  by (cases sw) (auto simp: catch_getContent_def split: stage.splits)

lemma prefix_findOrderTasks_byLink:
  "prefix (sent w @ [(backendUrl cfg, link_options cfg req a)])
     (sent (snd (findOrderTasks_byLink cfg rt req be a b w)))"
proof -
  obtain out w1 where f: "fetch be (backendUrl cfg) (link_options cfg req a) w = (out, w1)"
    by (cases "fetch be (backendUrl cfg) (link_options cfg req a) w")
  have w1: "prefix (sent w @ [(backendUrl cfg, link_options cfg req a)]) (sent w1)"
    using fetch_sentD[OF f] by simp
  show ?thesis
    using tasksByLink_worlds[OF f, of rt b] w1 prefix_fetch_tasks[OF w1]
    by (auto simp: findOrderTasks_byLink_def)
qed

lemma covers_findI: "covers cfg req P \<Longrightarrow> covers_find cfg req P"
  by (simp add: covers_def covers_find_def)

lemma covers_download: "covers cfg req P \<Longrightarrow> P (download_request cfg req cid)"
  by (simp add: covers_def)

lemma covers_view_binary: "covers cfg req P \<Longrightarrow> \<forall>d. P (view_binary_request cfg req d)"
  by (simp add: covers_def)

lemma all_sent_run_tool:
  assumes "covers (config e) req P" and "all_sent P w"
  shows "all_sent P (snd (run_tool e req be call w))"
  using assms(2) covers_findI[OF assms(1)] covers_view_binary[OF assms(1)]
    covers_download[OF assms(1)] assms(1)
  by (cases call)
     (simp_all add: all_sent_getContent_remote all_sent_getContent_download
        all_sent_getContent_persist all_sent_getLogById all_sent_getLogConfig
        all_sent_retryFailedRecord all_sent_findDataManagerLogs all_sent_findPickProfileGroups
        all_sent_listRecentErrors all_sent_findOrderItems all_sent_findOrderHeader
        all_sent_findProductById all_sent_uploadFileToConfig all_sent_findOrderTasks_bySource
        all_sent_findOrderTasks_byLink all_sent_getImportSapiOrderConfig)

subsection \<open>Authorization\<close>

lemma header_cases:
  "header (u, getRequestOptions cfg req n f) ''Authorization'' = Some (authorization_value cfg req)"
  "header (u, ternary_options cfg req b) ''Authorization'' = Some (authorization_value cfg req)"
  "header (u, remote_options cfg req) ''Authorization'' = Some (authorization_value cfg req)"
  "header (u, download_options cfg req) ''Authorization'' = Some (bearer (token_of cfg req))"
  "header (u, conditional_options cfg req b) ''Authorization'' =
     map_of (conditional_authorization cfg req) ''Authorization''"
  "header (u, upload_options cfg req x y z) ''Authorization'' =
     (if present (token_of cfg req) then Some (''Bearer '' @ the (token_of cfg req)) else None)"
  by (simp_all add: header_def getRequestOptions_def ternary_options_def remote_options_def
      download_options_def conditional_options_def upload_options_def Let_def)

lemma covers_delegated:
  assumes "downstreamToken req = Some t1" and "t1 \<noteq> []"
  shows "covers cfg req (\<lambda>rq. header rq ''Authorization'' = Some (''Bearer '' @ t1))"
  using assms
  by (simp add: covers_def header_cases view_binary_request_def download_request_def
      authorization_value_def conditional_authorization_def bearer_def token_of_def present_def)

text \<open>
  C4. When the request context carries a delegated token \<open>t1\<close> (a non-empty string, which
  is what the handlers test) and the configuration a static token \<open>t2\<close>, every request
  that any handler sends carries the header \<^verbatim>\<open>Authorization: Bearer t1\<close>, and so never
  \<^verbatim>\<open>Bearer t2\<close> for a different \<open>t2\<close>.
\<close>

theorem delegated_token_on_every_request:
  assumes "downstreamToken req = Some t1" and "t1 \<noteq> []"
    and "BACKEND_ACCESS_TOKEN (config e) = Some t2"
  shows "\<forall>rq \<in> set (sent (snd (run_tool e req be call (init_world s)))).
           header rq ''Authorization'' = Some (''Bearer '' @ t1)
           \<and> (t2 \<noteq> t1 \<longrightarrow> header rq ''Authorization'' \<noteq> Some (''Bearer '' @ t2))"
proof -
  have "all_sent (\<lambda>rq. header rq ''Authorization'' = Some (''Bearer '' @ t1)) (init_world s)"
    by (simp add: all_sent_def init_world_def)
  from all_sent_run_tool[OF covers_delegated[OF assms(1,2)] this]
  show ?thesis by (auto simp: all_sent_def list_all_iff)
qed

theorem delegated_token_on_every_request_witness:
  "map (\<lambda>rq. header rq ''Authorization'')
     (sent (snd (run_tool sample_env sample_request scripted (GetContentDownload sample_args)
        (init_world file_script)))) =
   [Some ''Bearer T1'', Some ''Bearer T1'', Some ''Bearer T1'']
   \<and> BACKEND_ACCESS_TOKEN (config sample_env) = Some ''T2''"
proof -
  have h1: "downstreamToken sample_request = Some ''T1''" by (simp add: sample_request_def)
  have h2: "''T1'' \<noteq> []" by simp
  have h3: "BACKEND_ACCESS_TOKEN (config sample_env) = Some ''T2''"
    by (simp add: sample_env_def sample_config_def)
  have s: "length (sent (snd (run_tool sample_env sample_request scripted (GetContentDownload sample_args)
        (init_world file_script)))) = 3"
    by (simp add: chain_eval file_script_def sample_env_def)
  show ?thesis
    using delegated_token_on_every_request[OF h1 h2 h3, of scripted "GetContentDownload sample_args"
        file_script] s h3
    by (auto simp: length_Suc_conv numeral_3_eq_3)
qed


lemma prefix_fetchD:
  "fetch be u opts w = (out, w') \<Longrightarrow> prefix xs (sent w) \<Longrightarrow> prefix xs (sent w')"
  by (auto dest!: fetch_sentD)

lemma prefix_lookup_data_resourceD:
  "lookup_data_resource cfg req be cid cr w = (st, w') \<Longrightarrow> prefix xs (sent w) \<Longrightarrow> prefix xs (sent w')"
  unfolding lookup_data_resource_def Let_def
  by (auto split: stage_splits if_splits dest!: fetch_sentD)

lemma prefix_lookup_data_resource:
  "prefix xs (sent w) \<Longrightarrow> prefix xs (sent (snd (lookup_data_resource cfg req be cid cr w)))"
  by (cases "lookup_data_resource cfg req be cid cr w") (auto dest: prefix_lookup_data_resourceD)

lemma prefix_lookup_content:
  "prefix (sent w @ [content_query cfg req cid]) (sent (snd (lookup_content cfg req be cid w)))"
  unfolding lookup_content_def content_query_def
  by (auto split: stage_splits if_splits dest!: fetch_sentD intro!: prefix_lookup_data_resource)

lemma prefix_lookup_contentD:
  "lookup_content cfg req be cid w = (st, w') \<Longrightarrow>
   prefix (sent w @ [content_query cfg req cid]) (sent w')"
  using prefix_lookup_content[of w cfg req cid be] by simp

lemma prefix_fetch_textD:
  "fetch_text cfg req be drid w = (st, w') \<Longrightarrow> prefix xs (sent w) \<Longrightarrow> prefix xs (sent w')"
  unfolding fetch_text_def
  by (auto split: stage_splits if_splits dest!: fetch_sentD)

lemma prefix_download_fallbackD:
  "download_fallback cfg req be cid t w = (v, w') \<Longrightarrow> prefix xs (sent w) \<Longrightarrow> prefix xs (sent w')"
  unfolding download_fallback_def Let_def
  by (auto split: stage_splits if_splits dest!: fetch_sentD)

lemma prefix_remote_fetchD:
  "remote_fetch cfg req be drid t w = (v, w') \<Longrightarrow> prefix xs (sent w) \<Longrightarrow> prefix xs (sent w')"
  unfolding remote_fetch_def Let_def
  by (auto split: stage_splits if_splits dest!: fetch_sentD)

lemma prefix_retrieve_textD:
  "retrieve_text cfg req be cid drid dr w = (st, w') \<Longrightarrow> prefix xs (sent w) \<Longrightarrow> prefix xs (sent w')"
  unfolding retrieve_text_def Let_def
  by (auto split: stage_splits if_splits)
     (blast intro: prefix_download_fallbackD prefix_fetch_textD)+

lemma prefix_persistD:
  "persist fs dir args cr t w = (st, w') \<Longrightarrow> prefix xs (sent w) \<Longrightarrow> prefix xs (sent w')"
  by (auto dest!: persist_sent)

lemma prefix_getContent_remote:
  "prefix (sent w @ [content_query cfg req cid]) (sent (snd (getContent_remote cfg req be cid w)))"
  unfolding getContent_remote_def getContent_remote_try_def Let_def
  by (auto split: stage_splits if_splits)
     (blast intro: prefix_lookup_contentD prefix_fetch_textD prefix_remote_fetchD)+

lemma prefix_getContent_download:
  "prefix (sent w @ [content_query cfg req (contentId args)])
     (sent (snd (getContent_download cfg req be args w)))"
  unfolding getContent_download_def getContent_download_try_def
  by (auto split: stage_splits)
     (blast intro: prefix_lookup_contentD prefix_retrieve_textD)+

lemma prefix_getContent_persist:
  "prefix (sent w @ [content_query cfg req (contentId args)])
     (sent (snd (getContent_persist cfg fs dir req be args w)))"
  unfolding getContent_persist_def getContent_persist_try_def
  by (auto split: stage_splits jsval.splits)
     (blast intro: prefix_lookup_contentD prefix_retrieve_textD prefix_persistD)+

lemma first_request_run_tool:
  assumes "primary_request e req call = Some q"
  shows "prefix (sent w @ [q]) (sent (snd (run_tool e req be call w)))"
proof (cases call)
  case (FindProductById ident)
  then show ?thesis
    using assms sent_findProductById[of "config e" "builtins e" req be ident w] by auto
next
  case (GetImportSapiOrderConfig a)
  then show ?thesis
    using assms sent_getImportSapiOrderConfig[of "config e" "builtins e" req be a w] by auto
qed (use assms in \<open>auto simp: prefix_getContent_remote prefix_getContent_download
      prefix_getContent_persist sent_getLogById sent_getLogConfig sent_retryFailedRecord
      sent_findDataManagerLogs sent_findPickProfileGroups sent_listRecentErrors
      sent_findOrderItems sent_findOrderHeader sent_uploadFileToConfig
      sent_findOrderTasks_bySource prefix_findOrderTasks_byLink split: if_splits\<close>)

lemma find_sends_empty_header:
  assumes "\<not> present (downstreamToken req)" and "\<not> present (BACKEND_ACCESS_TOKEN cfg)"
  shows "covers_find cfg req (\<lambda>rq. header rq ''Authorization'' = Some [] \<or> rq \<in> set ds)"
    and "\<forall>d. header (view_binary_request cfg req d) ''Authorization'' = Some []
              \<or> view_binary_request cfg req d \<in> set ds"
  using assms
  by (simp_all add: covers_find_def header_cases view_binary_request_def authorization_value_def)

lemma ternary_sends_empty_header:
  assumes "\<not> present (downstreamToken req)" and "\<not> present (BACKEND_ACCESS_TOKEN (config e))"
    and "\<not> adds_header_conditionally call"
  shows "\<forall>rq \<in> set (sent (snd (run_tool e req be call (init_world s)))).
           header rq ''Authorization'' = Some [] \<or> rq \<in> set (download_of e req call)"
proof -
  let ?P = "\<lambda>rq. header rq ''Authorization'' = Some [] \<or> rq \<in> set (download_of e req call)"
  note f = find_sends_empty_header[OF assms(1,2), of "download_of e req call"]
  have i: "all_sent ?P (init_world s)"
    by (simp add: all_sent_def init_world_def)
  have "all_sent ?P (snd (run_tool e req be call (init_world s)))"
  proof (cases call)
    case (GetContentRemote cid)
    show ?thesis
      unfolding GetContentRemote run_tool.simps
      using all_sent_getContent_remote[OF f(1) f(2) i] unfolding GetContentRemote .
  next
    case (GetContentDownload args)
    have d: "?P (download_request (config e) req (contentId args))"
      by (simp add: GetContentDownload)
    show ?thesis
      unfolding GetContentDownload run_tool.simps
      using all_sent_getContent_download[OF f(1) d i] unfolding GetContentDownload .
  next
    case (GetContentPersist args)
    have d: "?P (download_request (config e) req (contentId args))"
      by (simp add: GetContentPersist)
    show ?thesis
      unfolding GetContentPersist run_tool.simps
      using all_sent_getContent_persist[OF f(1) d i] unfolding GetContentPersist .
  next
    case (FindOrderItems orderId)
    show ?thesis
      unfolding FindOrderItems run_tool.simps
      using all_sent_findOrderItems[OF f(1) i] unfolding FindOrderItems .
  next
    case (FindOrderHeader a b)
    show ?thesis
      unfolding FindOrderHeader run_tool.simps
      using all_sent_findOrderHeader[OF f(1) i] unfolding FindOrderHeader .
  next
    case (FindProductById ident)
    show ?thesis
      unfolding FindProductById run_tool.simps
      using all_sent_findProductById[OF f(1) i] unfolding FindProductById .
  next
    case (FindOrderTasksBySource a b)
    show ?thesis
      unfolding FindOrderTasksBySource run_tool.simps
      using all_sent_findOrderTasks_bySource[OF f(1) i] unfolding FindOrderTasksBySource .
  next
    case (FindOrderTasksByLink a b)
    show ?thesis
      unfolding FindOrderTasksByLink run_tool.simps
      using all_sent_findOrderTasks_byLink[OF f(1) i] unfolding FindOrderTasksByLink .
  next
    case (GetImportSapiOrderConfig a)
    show ?thesis
      unfolding GetImportSapiOrderConfig run_tool.simps
      using all_sent_getImportSapiOrderConfig[OF f(1) i] unfolding GetImportSapiOrderConfig .
  qed (use assms(3) in simp_all)
  then show ?thesis by (simp add: all_sent_def list_all_iff)
qed

lemma conditional_sends_no_header:
  assumes "\<not> present (downstreamToken req)" and "\<not> present (BACKEND_ACCESS_TOKEN (config e))"
    and "adds_header_conditionally call"
  shows "\<forall>rq \<in> set (sent (snd (run_tool e req be call (init_world s)))).
           header rq ''Authorization'' = None"
  using assms
  by (cases call)
     (simp_all add: sent_getLogById sent_getLogConfig sent_retryFailedRecord
        sent_findDataManagerLogs sent_findPickProfileGroups sent_listRecentErrors
        sent_uploadFileToConfig init_world_def header_cases conditional_authorization_def
        getLogById_options_def getLogConfig_options_def retryFailedRecord_options_def
        findDataManagerLogs_options_def findPickProfileGroups_options_def
        listRecentErrors_options_def token_of_def)

text \<open>
  C5, as amended. When neither the request context nor the configuration carries a token:
  a handler that adds the header with an \<^verbatim>\<open>if\<close> sends every request without an
  \<^verbatim>\<open>Authorization\<close> header; a handler that builds the header with a ternary sends every
  find request and every ViewBinaryDataResource fetch with the header
  \<^verbatim>\<open>Authorization\<close> set to the empty string; and whatever the handler, its first request
  is sent all the same. The DownloadCsvFile request of the two later getContent versions is
  the one request this statement says nothing about.
\<close>

theorem no_token_no_credential:
  assumes "\<not> present (downstreamToken req)" and "\<not> present (BACKEND_ACCESS_TOKEN (config e))"
  shows "(adds_header_conditionally call \<longrightarrow>
            (\<forall>rq \<in> set (sent (snd (run_tool e req be call (init_world s)))).
               header rq ''Authorization'' = None))
       \<and> (\<not> adds_header_conditionally call \<longrightarrow>
            (\<forall>rq \<in> set (sent (snd (run_tool e req be call (init_world s)))).
               header rq ''Authorization'' = Some [] \<or> rq \<in> set (download_of e req call)))
       \<and> (\<forall>q. primary_request e req call = Some q \<longrightarrow>
            prefix [q] (sent (snd (run_tool e req be call (init_world s)))))"
proof (intro conjI impI allI)
  assume "adds_header_conditionally call"
  from conditional_sends_no_header[OF assms this]
  show "\<forall>rq \<in> set (sent (snd (run_tool e req be call (init_world s)))).
               header rq ''Authorization'' = None" .
next
  assume "\<not> adds_header_conditionally call"
  from ternary_sends_empty_header[OF assms this]
  show "\<forall>rq \<in> set (sent (snd (run_tool e req be call (init_world s)))).
               header rq ''Authorization'' = Some [] \<or> rq \<in> set (download_of e req call)" .
next
  fix q assume "primary_request e req call = Some q"
  from first_request_run_tool[OF this, of "init_world s" be]
  show "prefix [q] (sent (snd (run_tool e req be call (init_world s))))"
    by (simp add: init_world_def)
qed

theorem no_token_no_credential_witness:
  "map (\<lambda>rq. header rq ''Authorization'')
     (sent (snd (run_tool bare_env bare_request scripted (GetLogById ''40160'')
        (init_world [Resolved (json_response [])])))) = [None]
   \<and> sent (snd (run_tool bare_env bare_request scripted (GetLogById ''40160'')
        (init_world [Resolved (json_response [])]))) =
      [(backendUrl bare_config, getLogById_options bare_config bare_request ''40160'')]
   \<and> map (\<lambda>rq. header rq ''Authorization'')
     (sent (snd (run_tool bare_env bare_request scripted (FindOrderHeader (Some ''1001'') None)
        (init_world [Resolved (json_response [])])))) = [Some []]"
proof -
  have h1: "\<not> present (downstreamToken bare_request)"
    by (simp add: bare_request_def present_def)
  have h2: "\<not> present (BACKEND_ACCESS_TOKEN (config bare_env))"
    by (simp add: bare_env_def bare_config_def present_def)
  have h3: "adds_header_conditionally (GetLogById ''40160'')" by simp
  have h4: "primary_request bare_env bare_request (GetLogById ''40160'') =
      Some (backendUrl bare_config, getLogById_options bare_config bare_request ''40160'')"
    by (simp add: bare_env_def)
  have s: "length (sent (snd (run_tool bare_env bare_request scripted (GetLogById ''40160'')
        (init_world [Resolved (json_response [])])))) = 1"
    by (simp add: sent_getLogById init_world_def)
  have k3: "\<not> adds_header_conditionally (FindOrderHeader (Some ''1001'') None)" by simp
  have k4: "download_of bare_env bare_request (FindOrderHeader (Some ''1001'') None) = []" by simp
  have t: "length (sent (snd (run_tool bare_env bare_request scripted
        (FindOrderHeader (Some ''1001'') None) (init_world [Resolved (json_response [])])))) = 1"
    by (simp add: sent_findOrderHeader init_world_def findOrderHeader_fields_def present_def)
  have a: "map (\<lambda>rq. header rq ''Authorization'')
     (sent (snd (run_tool bare_env bare_request scripted (GetLogById ''40160'')
        (init_world [Resolved (json_response [])])))) = [None]
   \<and> sent (snd (run_tool bare_env bare_request scripted (GetLogById ''40160'')
        (init_world [Resolved (json_response [])]))) =
      [(backendUrl bare_config, getLogById_options bare_config bare_request ''40160'')]"
    using no_token_no_credential[OF h1 h2, of "GetLogById ''40160''" scripted
        "[Resolved (json_response [])]"] h3 h4 s
    by (auto simp: length_Suc_conv)
  have b: "map (\<lambda>rq. header rq ''Authorization'')
     (sent (snd (run_tool bare_env bare_request scripted (FindOrderHeader (Some ''1001'') None)
        (init_world [Resolved (json_response [])])))) = [Some []]"
    using no_token_no_credential[OF h1 h2, of "FindOrderHeader (Some ''1001'') None" scripted
        "[Resolved (json_response [])]"] k3 k4 t
    by (auto simp: length_Suc_conv)
  show ?thesis using a b by blast
qed

text \<open>
  The claim as stated fails in the handlers that build the header with a ternary: without
  any token the \<^verbatim>\<open>Authorization\<close> header is there, with the empty string as its value,
  on the request of findOrderItems and on all four requests of
  \<^verbatim>\<open>src/tools/getContent.ts\<close>.
\<close>

theorem no_token_counterexample:
  "map (\<lambda>rq. header rq ''Authorization'')
     (sent (snd (run_tool bare_env bare_request scripted (FindOrderItems ''1001'')
        (init_world [Resolved (json_response [])])))) = [Some []]
   \<and> map (\<lambda>rq. header rq ''Authorization'')
     (sent (snd (run_tool bare_env bare_request scripted (GetContentRemote ''C1'')
        (init_world typed_script)))) = [Some [], Some [], Some [], Some []]"
  by (simp add: sent_findOrderItems order_items_query_def findOrderItems_options_def
      ternary_options_def authorization_value_def bare_env_def bare_config_def
      bare_request_def chain_eval typed_script_def header_def getRequestOptions_def
      remote_options_def)

text \<open>
  The DownloadCsvFile request builds its header from a template: without any token it
  carries the text \<^verbatim>\<open>Bearer undefined\<close>.
\<close>

lemma download_without_token:
  "header (download_request bare_config bare_request ''C1'') ''Authorization'' = Some ''Bearer undefined''"
  by (simp add: download_request_def header_cases bearer_def token_of_def present_def
      bare_config_def bare_request_def)




subsection \<open>A failed first query is reported with its status\<close>


































end
